theory Spec2Isabelle
  imports Complex_Main
begin

chapter \<open>HiGHS: the model interface, the KKT gate and the free-format MPS reader\<close>

text \<open>
  A shallow embedding of the parts of \<^verbatim>\<open>highs/lp_data/HighsInterface.cpp\<close> and
  \<^verbatim>\<open>highs/io/HMpsFF.cpp\<close> that the specification's claims are about. The first
  part holds the data model and the functions, translated from the C++; the second part
  holds the proofs.

  Conventions. A C++ method that mutates the \<^verbatim>\<open>Highs\<close> object takes the state and
  returns the new one, together with its \<^verbatim>\<open>HighsStatus\<close> when it has one. A
  \<^verbatim>\<open>HighsInt\<close> index is an \<^typ>\<open>int\<close>; list positions are its \<^const>\<open>nat\<close>.
  Assertions are compiled out, as in a release build. Log output is not part of the state
  unless a claim is about it.
\<close>

section \<open>Enumerations of the solver\<close>

datatype HighsStatus = kError | kOk | kWarning

datatype HighsModelStatus =
  kNotset | kLoadError | kModelError | kPresolveError | kSolveError | kPostsolveError
  | kModelEmpty | kOptimal | kInfeasible | kUnboundedOrInfeasible | kUnbounded
  | kObjectiveBound | kObjectiveTarget | kTimeLimit | kIterationLimit | kUnknown
  | kSolutionLimit | kInterrupt | kMemoryLimit

datatype HighsBasisStatus = kLower | kBasic | kUpper | kZero | kNonbasic

datatype HighsVarType = kContinuous | kInteger | kSemiContinuous | kSemiInteger | kImplicitInteger

datatype ObjSense = kMinimize | kMaximize

datatype SolutionStatus = kSolutionStatusNone | kSolutionStatusInfeasible | kSolutionStatusFeasible

text \<open>
  \<^verbatim>\<open>interpretCallStatus(log, call_status, from_return_status, message)\<close>: an error of the
  call is an error, a warning of the call is a warning unless the status so far is an error,
  and otherwise the status so far is kept.
\<close>

definition interpretCallStatus :: "HighsStatus \<Rightarrow> HighsStatus \<Rightarrow> HighsStatus" where
  "interpretCallStatus call_status from_return_status =
     (if call_status = kError then kError
      else if call_status = kWarning \<and> from_return_status \<noteq> kError then kWarning
      else from_return_status)"

section \<open>Info and options\<close>

text \<open>
  The members of \<^verbatim>\<open>HighsInfo\<close> and \<^verbatim>\<open>HighsOptions\<close> that the functions below read
  or write. The type parameter is the representation of \<^verbatim>\<open>double\<close>.
\<close>

record 'a HighsInfo =
  info_valid :: bool
  objective_function_value :: 'a
  primal_solution_status :: SolutionStatus
  dual_solution_status :: SolutionStatus
  num_primal_infeasibilities :: int
  max_primal_infeasibility :: 'a
  sum_primal_infeasibilities :: 'a
  num_dual_infeasibilities :: int
  max_dual_infeasibility :: 'a
  sum_dual_infeasibilities :: 'a
  num_relative_primal_infeasibilities :: int
  max_relative_primal_infeasibility :: 'a
  num_relative_dual_infeasibilities :: int
  max_relative_dual_infeasibility :: 'a
  num_primal_residual_errors :: int
  num_relative_primal_residual_errors :: int
  max_relative_primal_residual_error :: 'a
  num_relative_dual_residual_errors :: int
  max_relative_dual_residual_error :: 'a
  num_complementarity_violations :: int
  primal_dual_objective_error :: 'a

record 'a HighsOptions =
  primal_feasibility_tolerance :: 'a
  dual_feasibility_tolerance :: 'a
  primal_residual_tolerance :: 'a
  dual_residual_tolerance :: 'a
  optimality_tolerance :: 'a
  kkt_tolerance :: 'a
  infinite_bound :: 'a
  infinite_cost :: 'a
  small_matrix_value :: 'a
  large_matrix_value :: 'a
  user_bound_scale :: int
  user_cost_scale :: int

section \<open>Doubles\<close>

text \<open>
  A \<^verbatim>\<open>double\<close> where its infinities matter: the two infinities, the finite values as
  reals, and NaN. Comparisons are exact, and those with NaN are false, as in C++. Sums and
  products of finite values are exact here (their rounding and overflow are not
  modelled); there is no quotient: where the code divides, the quotient is a parameter.
\<close>

datatype double = NaN | MInf | Fin real | PInf

definition kHighsInf :: double where
  "kHighsInf = PInf"

fun dneg :: "double \<Rightarrow> double" where
  "dneg NaN = NaN"
| "dneg MInf = PInf"
| "dneg (Fin r) = Fin (- r)"
| "dneg PInf = MInf"

text \<open>\<open>dlt a b\<close> is \<^verbatim>\<open>a < b\<close>, \<open>dle a b\<close> is \<^verbatim>\<open>a <= b\<close>, \<open>deq a b\<close> is \<^verbatim>\<open>a == b\<close>.\<close>

fun dlt :: "double \<Rightarrow> double \<Rightarrow> bool" where
  "dlt NaN _ = False"
| "dlt _ NaN = False"
| "dlt _ MInf = False"
| "dlt MInf _ = True"
| "dlt PInf _ = False"
| "dlt (Fin a) (Fin b) = (a < b)"
| "dlt (Fin a) PInf = True"

definition deq :: "double \<Rightarrow> double \<Rightarrow> bool" where
  "deq a b = (a \<noteq> NaN \<and> a = b)"

definition dle :: "double \<Rightarrow> double \<Rightarrow> bool" where
  "dle a b = (dlt a b \<or> deq a b)"

definition dsign :: "real \<Rightarrow> double \<Rightarrow> double" where
  "dsign r x = (if r > 0 then x else if r < 0 then dneg x else NaN)"

fun dmul :: "double \<Rightarrow> double \<Rightarrow> double" where
  "dmul NaN _ = NaN"
| "dmul _ NaN = NaN"
| "dmul (Fin a) (Fin b) = Fin (a * b)"
| "dmul (Fin a) x = dsign a x"
| "dmul x (Fin b) = dsign b x"
| "dmul a b = (if a = b then PInf else MInf)"

fun dadd :: "double \<Rightarrow> double \<Rightarrow> double" where
  "dadd NaN _ = NaN"
| "dadd _ NaN = NaN"
| "dadd (Fin a) (Fin b) = Fin (a + b)"
| "dadd (Fin a) x = x"
| "dadd x (Fin b) = x"
| "dadd a b = (if a = b then a else NaN)"

text \<open>\<^verbatim>\<open>std::ceil\<close>, \<^verbatim>\<open>std::floor\<close> and \<^verbatim>\<open>std::fabs\<close>.\<close>

fun dceil :: "double \<Rightarrow> double" where
  "dceil (Fin r) = Fin (of_int \<lceil>r\<rceil>)"
| "dceil x = x"

fun dfloor :: "double \<Rightarrow> double" where
  "dfloor (Fin r) = Fin (of_int \<lfloor>r\<rfloor>)"
| "dfloor x = x"

fun dabs :: "double \<Rightarrow> double" where
  "dabs (Fin r) = Fin \<bar>r\<bar>"
| "dabs MInf = PInf"
| "dabs x = x"

text \<open>\<^verbatim>\<open>std::pow(2, k)\<close> for an integer exponent.\<close>

definition pow2 :: "int \<Rightarrow> double" where
  "pow2 k = Fin (if 0 \<le> k then 2 ^ nat k else 1 / 2 ^ nat (- k))"

text \<open>A \<^verbatim>\<open>double\<close> used as a condition: \<^verbatim>\<open>if (x)\<close> holds unless \<open>x\<close> is zero.\<close>

definition nonzero :: "double \<Rightarrow> bool" where
  "nonzero x = (x \<noteq> Fin 0)"

text \<open>\<^verbatim>\<open>highs_isInfinity(x)\<close>: \<^verbatim>\<open>x >= kHighsInf\<close>.\<close>

definition highs_isInfinity :: "double \<Rightarrow> bool" where
  "highs_isInfinity x = dle kHighsInf x"

section \<open>The state of a \<^verbatim>\<open>Highs\<close> object\<close>

text \<open>
  A member \<^verbatim>\<open>name_\<close> of the C++ is the field \<open>name'\<close>. A pointer argument is an
  optional list, \<open>None\<close> for \<^verbatim>\<open>nullptr\<close>. The constraint matrix
  (\<^verbatim>\<open>HighsSparseMatrix\<close>) is of a type \<open>'m\<close> that the interface never looks into: all
  it does with it is call methods that are not part of the sources at hand.
\<close>

type_synonym 'a ptr = "'a list option"

datatype MatrixFormat = kColwise | kRowwise

record HighsLpMods =
  save_inf_cost_variable_index :: "int list"
  save_inf_cost_variable_cost :: "double list"
  save_inf_cost_variable_lower :: "double list"
  save_inf_cost_variable_upper :: "double list"

record HighsScale =
  has_scaling :: bool
  scale_num_col :: int
  scale_num_row :: int
  scale_col :: "double list"
  scale_row :: "double list"

record 'm HighsLp =
  num_col' :: int
  num_row' :: int
  col_cost' :: "double list"
  col_lower' :: "double list"
  col_upper' :: "double list"
  row_lower' :: "double list"
  row_upper' :: "double list"
  a_matrix' :: 'm
  sense' :: ObjSense
  integrality' :: "HighsVarType list"
  col_names' :: "string list"
  row_names' :: "string list"
  scale' :: HighsScale
  user_bound_scale' :: int
  user_cost_scale' :: int
  has_infinite_cost' :: bool
  mods' :: HighsLpMods

record HighsBasis =
  valid :: bool
  alien :: bool
  was_alien :: bool
  useful :: bool
  col_status :: "HighsBasisStatus list"
  row_status :: "HighsBasisStatus list"

record HighsSolution =
  value_valid :: bool
  dual_valid :: bool
  col_value :: "double list"
  row_value :: "double list"
  col_dual :: "double list"
  row_dual :: "double list"

record HighsSimplexStatus =
  initialised_for_solve :: bool
  has_basis :: bool
  has_invert :: bool

record SimplexBasis =
  basicIndex' :: "int list"
  nonbasicFlag' :: "int list"
  nonbasicMove' :: "int list"

text \<open>The simplex engine \<^verbatim>\<open>HEkk\<close>, as far as the interface reads and writes it.\<close>

record HEkk =
  status' :: HighsSimplexStatus
  simplex_basis' :: SimplexBasis

record 'm Highs =
  lp' :: "'m HighsLp"
  basis' :: HighsBasis
  solution' :: HighsSolution
  info' :: "double HighsInfo"
  model_status' :: HighsModelStatus
  options' :: "double HighsOptions"
  ekk_instance' :: HEkk

text \<open>The action tokens of \<^verbatim>\<open>HEkk::updateStatus\<close>.\<close>

datatype LpAction =
  kNewCosts | kNewBounds | kNewRows | kNewCols | kDelCols | kDelRows | kScaledCol | kScaledRow

text \<open>The move and flag values of the simplex basis.\<close>

definition kNonbasicMoveUp :: int where "kNonbasicMoveUp = 1"
definition kNonbasicMoveDn :: int where "kNonbasicMoveDn = -1"
definition kNonbasicMoveZe :: int where "kNonbasicMoveZe = 0"
definition kNonbasicFlagTrue :: int where "kNonbasicFlagTrue = 1"
definition kNonbasicFlagFalse :: int where "kNonbasicFlagFalse = 0"

text \<open>
  The functions the interface calls that are not part of the sources at hand
  (\<^verbatim>\<open>HighsLp\<close>, \<^verbatim>\<open>HighsSparseMatrix\<close>, \<^verbatim>\<open>HighsLpUtils\<close>, \<^verbatim>\<open>HEkk\<close>): they are
  parameters, and every theorem holds whatever they do.
  \<^item> \<open>ensureColwise\<close>: \<^verbatim>\<open>lp.ensureColwise()\<close>, which delegates to the matrix;
  \<^item> \<open>applyScalingToLpCol\<close>, \<open>applyScalingToLpRow\<close>: scale a column or row of the LP and
    report a status;
  \<^item> \<open>changeLpMatrixCoefficient\<close>: set one coefficient of the matrix;
  \<^item> \<open>updateStatus\<close>: \<^verbatim>\<open>ekk_instance_.updateStatus(action)\<close>.
\<close>

record 'm scaling_externals =
  ensureColwise :: "'m \<Rightarrow> 'm"
  applyScalingToLpCol :: "'m HighsLp \<Rightarrow> int \<Rightarrow> double \<Rightarrow> HighsStatus \<times> 'm HighsLp"
  applyScalingToLpRow :: "'m HighsLp \<Rightarrow> int \<Rightarrow> double \<Rightarrow> HighsStatus \<times> 'm HighsLp"
  changeLpMatrixCoefficient :: "'m HighsLp \<Rightarrow> int \<Rightarrow> int \<Rightarrow> double \<Rightarrow> bool \<Rightarrow> 'm HighsLp"
  updateStatus :: "LpAction \<Rightarrow> HEkk \<Rightarrow> HEkk"

definition lp_ensureColwise :: "('m, 'x) scaling_externals_scheme \<Rightarrow> 'm HighsLp \<Rightarrow> 'm HighsLp" where
  "lp_ensureColwise ext lp = lp\<lparr>a_matrix' := ensureColwise ext (a_matrix' lp)\<rparr>"

text \<open>
  Modelled from the spec: \<^verbatim>\<open>Highs::invalidateModelStatusSolutionAndInfo\<close> is defined in
  \<^verbatim>\<open>Highs.cpp\<close>, which is not at hand. The specification has every mutation
  "invalidate derived state (model status, solution, info)": the model status is reset
  to \<^verbatim>\<open>kNotset\<close> and the solution and the info are marked invalid.
\<close>

definition invalidateModelStatusSolutionAndInfo :: "'m Highs \<Rightarrow> 'm Highs" where
  "invalidateModelStatusSolutionAndInfo h =
     h\<lparr>model_status' := kNotset,
       solution' := (solution' h)\<lparr>value_valid := False, dual_valid := False\<rparr>,
       info' := (info' h)\<lparr>info_valid := False\<rparr>\<rparr>"

text \<open>Reading \<^verbatim>\<open>v[i]\<close> and writing \<^verbatim>\<open>v[i] = x\<close> for a \<^verbatim>\<open>HighsInt\<close> index.\<close>

definition read_at :: "'a list \<Rightarrow> int \<Rightarrow> 'a" where
  "read_at v i = v ! nat i"

definition write_at :: "'a list \<Rightarrow> int \<Rightarrow> 'a \<Rightarrow> 'a list" where
  "write_at v i x = v[nat i := x]"

definition in_range :: "'a list \<Rightarrow> int \<Rightarrow> bool" where
  "in_range v i = (0 \<le> i \<and> i < int (length v))"

section \<open>The KKT gate on the model status\<close>

text \<open>
  The members of the \<^verbatim>\<open>Highs\<close> object that \<^verbatim>\<open>Highs::lpKktCheck\<close> reads or
  writes: \<^verbatim>\<open>solution_.value_valid\<close>, \<^verbatim>\<open>basis_.valid\<close>, \<^verbatim>\<open>model_status_\<close>,
  \<^verbatim>\<open>info_\<close> and \<^verbatim>\<open>options_\<close>. The measures and the tolerances are doubles.
  Comparing two doubles and taking the larger is exact; dividing them is not: the
  machine rounds the quotient. So the quotient \<^verbatim>\<open>a / b\<close> of two doubles is a parameter
  \<open>quot\<close> of the functions below, of which nothing is assumed.
\<close>

record kkt_state =
  solution_value_valid :: bool
  basis_valid :: bool
  model_status :: HighsModelStatus
  info :: "double HighsInfo"
  options :: "double HighsOptions"

text \<open>
  \<^verbatim>\<open>kHighsIllegalResidualCount\<close>: the count that says the residuals were not computed;
  the comment in \<^verbatim>\<open>lpKktCheck\<close> gives its value as \<open>-1\<close>.
\<close>

definition kHighsIllegalResidualCount :: int where
  "kHighsIllegalResidualCount = -1"

definition max_allowed_tolerance_relative_violation :: double where
  "max_allowed_tolerance_relative_violation = Fin 100"

text \<open>\<^verbatim>\<open>std::max(a, b)\<close>: \<^verbatim>\<open>(a < b) ? b : a\<close>.\<close>

definition dmax :: "double \<Rightarrow> double \<Rightarrow> double" where
  "dmax a b = (if dlt a b then b else a)"

text \<open>
  The five tolerances in force: the individual ones, or \<^verbatim>\<open>kkt_tolerance\<close> for all of
  them when it is not at its default. The default \<^verbatim>\<open>kDefaultKktTolerance\<close> is a
  constant of a header that is not at hand, so it is a parameter.
\<close>

definition effective_tolerances :: "double \<Rightarrow> double HighsOptions \<Rightarrow> double HighsOptions" where
  "effective_tolerances kDefaultKktTolerance opt =
     (if \<not> deq (kkt_tolerance opt) kDefaultKktTolerance
      then opt\<lparr>primal_feasibility_tolerance := kkt_tolerance opt,
               dual_feasibility_tolerance := kkt_tolerance opt,
               primal_residual_tolerance := kkt_tolerance opt,
               dual_residual_tolerance := kkt_tolerance opt,
               optimality_tolerance := kkt_tolerance opt\<rparr>
      else opt)"

text \<open>
  The branch for a valid basis. The triple holds
  \<^verbatim>\<open>max_primal_tolerance_relative_violation\<close>,
  \<^verbatim>\<open>max_dual_tolerance_relative_violation\<close> and
  \<^verbatim>\<open>primal_dual_objective_tolerance_relative_violation\<close>, all initially zero. The
  logging, and \<^verbatim>\<open>unexpected_error_if_optimal\<close> which only feeds it, are left out.
\<close>

definition kkt_with_basis ::
  "(double \<Rightarrow> double \<Rightarrow> double) \<Rightarrow> double HighsOptions \<Rightarrow> double HighsInfo
     \<Rightarrow> (double \<times> double \<times> double) \<times> double HighsInfo" where
  "kkt_with_basis quot tol i =
     (let mp0 = (if num_primal_infeasibilities i > 0
                 then dmax (quot (max_primal_infeasibility i) (primal_feasibility_tolerance tol)) (Fin 0)
                 else Fin 0);
          md0 = (if num_dual_infeasibilities i > 0
                 then dmax (quot (max_dual_infeasibility i) (dual_feasibility_tolerance tol)) (Fin 0)
                 else Fin 0);
          have_residual_errors = (num_primal_residual_errors i \<noteq> kHighsIllegalResidualCount);
          mp1 = (if have_residual_errors
                 then dmax (quot (max_relative_primal_residual_error i) (primal_residual_tolerance tol)) mp0
                 else mp0);
          md1 = (if have_residual_errors
                 then dmax (quot (max_relative_dual_residual_error i) (dual_residual_tolerance tol)) md0
                 else md0);
          pd = quot (primal_dual_objective_error i) (optimality_tolerance tol);
          i1 = (if num_primal_infeasibilities i \<noteq> 0 then i
                else i\<lparr>primal_solution_status := kSolutionStatusFeasible\<rparr>);
          i2 = (if num_dual_infeasibilities i1 \<noteq> 0 then i1
                else i1\<lparr>dual_solution_status := kSolutionStatusFeasible\<rparr>);
          i3 = (if dlt max_allowed_tolerance_relative_violation mp1
                then i2\<lparr>primal_solution_status := kSolutionStatusInfeasible\<rparr> else i2);
          i4 = (if dlt max_allowed_tolerance_relative_violation md1
                then i3\<lparr>dual_solution_status := kSolutionStatusInfeasible\<rparr> else i3)
      in ((mp1, md1, pd), i4))"

text \<open>The branch for a solution without a valid basis.\<close>

definition kkt_without_basis ::
  "(double \<Rightarrow> double \<Rightarrow> double) \<Rightarrow> double HighsOptions \<Rightarrow> double HighsInfo
     \<Rightarrow> (double \<times> double \<times> double) \<times> double HighsInfo" where
  "kkt_without_basis quot tol i =
     (let mp0 = dmax (quot (max_relative_primal_infeasibility i) (primal_feasibility_tolerance tol)) (Fin 0);
          md0 = dmax (quot (max_relative_dual_infeasibility i) (dual_feasibility_tolerance tol)) (Fin 0);
          mp1 = dmax (quot (max_relative_primal_residual_error i) (primal_residual_tolerance tol)) mp0;
          md1 = dmax (quot (max_relative_dual_residual_error i) (dual_residual_tolerance tol)) md0;
          pd = (if dlt (optimality_tolerance tol) (primal_dual_objective_error i)
                then quot (primal_dual_objective_error i) (optimality_tolerance tol) else Fin 0);
          i1 = i\<lparr>primal_solution_status :=
                  (if dlt max_allowed_tolerance_relative_violation mp1
                   then kSolutionStatusInfeasible else kSolutionStatusFeasible)\<rparr>;
          i2 = i1\<lparr>dual_solution_status :=
                  (if dlt max_allowed_tolerance_relative_violation md1
                   then kSolutionStatusInfeasible else kSolutionStatusFeasible)\<rparr>
      in ((mp1, md1, pd), i2))"

text \<open>
  \<^verbatim>\<open>Highs::lpKktCheck\<close>. The parameter \<open>getLpKktFailures\<close> stands for the two statements
  that fill \<^verbatim>\<open>info\<close> (the objective value and the call of \<^verbatim>\<open>getLpKktFailures\<close>, which
  is not at hand): it maps the state to the info it leaves.
\<close>

definition lpKktCheck ::
  "(double \<Rightarrow> double \<Rightarrow> double) \<Rightarrow> double \<Rightarrow> (kkt_state \<Rightarrow> double HighsInfo) \<Rightarrow> kkt_state
     \<Rightarrow> HighsStatus \<times> kkt_state" where
  "lpKktCheck quot kDefaultKktTolerance getLpKktFailures s =
     (if \<not> solution_value_valid s then (kOk, s)
      else
        let tol = effective_tolerances kDefaultKktTolerance (options s);
            i = getLpKktFailures s;
            get_residuals = \<not> basis_valid s;
            status1 =
              (if model_status s = kUnboundedOrInfeasible \<and> num_primal_infeasibilities i = 0
                  \<and> (\<not> get_residuals \<or> num_primal_residual_errors i = 0)
               then kUnbounded else model_status s);
            ((mp, md, pd), i') =
              (if basis_valid s then kkt_with_basis quot tol i else kkt_without_basis quot tol i);
            max_tolerance_relative_violation = dmax md (dmax mp pd);
            status2 =
              (if status1 = kOptimal then
                 (if dlt max_allowed_tolerance_relative_violation max_tolerance_relative_violation
                  then kUnknown else kOptimal)
               else if status1 = kUnknown
                    \<and> dle max_tolerance_relative_violation max_allowed_tolerance_relative_violation
               then kOptimal
               else status1)
        in (kOk, s\<lparr>info := i', model_status := status2\<rparr>))"

text \<open>
  The violation categories the checker takes into account, each divided by its tolerance
  as the machine divides, as the text of the claim has them. With a valid basis: the
  largest primal and dual infeasibility (when there is one), the largest relative residual
  errors (when residuals were computed) and the primal-dual objective error. Without: the
  largest relative primal and dual infeasibilities and residual errors, and the objective
  error when it is above its tolerance.
\<close>

definition violation_ratios ::
  "(double \<Rightarrow> double \<Rightarrow> double) \<Rightarrow> bool \<Rightarrow> double HighsOptions \<Rightarrow> double HighsInfo \<Rightarrow> double list" where
  "violation_ratios quot with_basis tol i =
     (if with_basis then
        (if num_primal_infeasibilities i > 0
         then [quot (max_primal_infeasibility i) (primal_feasibility_tolerance tol)] else [])
        @ (if num_dual_infeasibilities i > 0
           then [quot (max_dual_infeasibility i) (dual_feasibility_tolerance tol)] else [])
        @ (if num_primal_residual_errors i \<noteq> kHighsIllegalResidualCount
           then [quot (max_relative_primal_residual_error i) (primal_residual_tolerance tol),
                 quot (max_relative_dual_residual_error i) (dual_residual_tolerance tol)] else [])
        @ [quot (primal_dual_objective_error i) (optimality_tolerance tol)]
      else
        [quot (max_relative_primal_infeasibility i) (primal_feasibility_tolerance tol),
         quot (max_relative_dual_infeasibility i) (dual_feasibility_tolerance tol),
         quot (max_relative_primal_residual_error i) (primal_residual_tolerance tol),
         quot (max_relative_dual_residual_error i) (dual_residual_tolerance tol)]
        @ (if dlt (optimality_tolerance tol) (primal_dual_objective_error i)
           then [quot (primal_dual_objective_error i) (optimality_tolerance tol)] else []))"

text \<open>
  The ratios of a state, the largest of them exceeding the margin, and none of them being
  \<^verbatim>\<open>NaN\<close> (as \<open>0 / 0\<close> is): only then is there a largest one.
\<close>

definition state_ratios ::
  "(double \<Rightarrow> double \<Rightarrow> double) \<Rightarrow> double \<Rightarrow> kkt_state \<Rightarrow> double HighsInfo \<Rightarrow> double list" where
  "state_ratios quot kDefaultKktTolerance s i =
     violation_ratios quot (basis_valid s) (effective_tolerances kDefaultKktTolerance (options s)) i"

definition exceeds_margin ::
  "(double \<Rightarrow> double \<Rightarrow> double) \<Rightarrow> double \<Rightarrow> kkt_state \<Rightarrow> double HighsInfo \<Rightarrow> bool" where
  "exceeds_margin quot kDefaultKktTolerance s i =
     list_ex (\<lambda>r. dlt (Fin 100) r) (state_ratios quot kDefaultKktTolerance s i)"

definition ratios_are_numbers ::
  "(double \<Rightarrow> double \<Rightarrow> double) \<Rightarrow> double \<Rightarrow> kkt_state \<Rightarrow> double HighsInfo \<Rightarrow> bool" where
  "ratios_are_numbers quot kDefaultKktTolerance s i =
     list_all (\<lambda>r. r \<noteq> NaN) (state_ratios quot kDefaultKktTolerance s i)"




section \<open>Changing one matrix coefficient\<close>

text \<open>
  \<^verbatim>\<open>Highs::changeCoefficientInterface\<close>. The column status is read whether or not a
  basis is held; past the end of the status vector the read is undefined and the model
  has no result.
\<close>

definition changeCoefficientInterface ::
  "('m, 'x) scaling_externals_scheme \<Rightarrow> int \<Rightarrow> int \<Rightarrow> double \<Rightarrow> 'm Highs \<Rightarrow> 'm Highs option" where
  "changeCoefficientInterface ext ext_row ext_col ext_new_value h0 =
     (let lp0 = lp_ensureColwise ext (lp' h0);
          zero_new_value = dle (dabs ext_new_value) (small_matrix_value (options' h0));
          lp1 = changeLpMatrixCoefficient ext lp0 ext_row ext_col ext_new_value zero_new_value;
          h1 = h0\<lparr>lp' := lp1\<rparr>
      in if \<not> in_range (col_status (basis' h1)) ext_col then None
         else
           let basic_column = (read_at (col_status (basis' h1)) ext_col = kBasic);
               h2 = invalidateModelStatusSolutionAndInfo h1;
               h3 = (if basic_column
                     then h2\<lparr>basis' := (basis' h2)\<lparr>was_alien := True, alien := True\<rparr>\<rparr>
                     else h2)
           in Some (h3\<lparr>ekk_instance' := updateStatus ext kNewRows (ekk_instance' h3)\<rparr>))"

section \<open>Scaling a column or a row\<close>

text \<open>
  \<^verbatim>\<open>Highs::scaleColInterface\<close>. A read of a status or move vector past its end is
  undefined in C++; the model has no result (\<open>None\<close>) there.
\<close>

definition flip_status :: "HighsBasisStatus \<Rightarrow> HighsBasisStatus" where
  "flip_status st = (if st = kLower then kUpper else if st = kUpper then kLower else st)"

definition flip_move :: "int \<Rightarrow> int" where
  "flip_move m = (if m = kNonbasicMoveUp then kNonbasicMoveDn
                  else if m = kNonbasicMoveDn then kNonbasicMoveUp else m)"

definition scaleColInterface ::
  "('m, 'x) scaling_externals_scheme \<Rightarrow> int \<Rightarrow> double \<Rightarrow> 'm Highs \<Rightarrow> (HighsStatus \<times> 'm Highs) option" where
  "scaleColInterface ext col scale_value h0 =
     (let h = h0\<lparr>lp' := lp_ensureColwise ext (lp' h0)\<rparr> in
      if col < 0 then Some (kError, h)
      else if col \<ge> num_col' (lp' h) then Some (kError, h)
      else if \<not> nonzero scale_value then Some (kError, h)
      else
        let (call_status, lp1) = applyScalingToLpCol ext (lp' h) col scale_value;
            h1 = h\<lparr>lp' := lp1\<rparr>;
            return_status = interpretCallStatus call_status kOk
        in if return_status = kError then Some (return_status, h1)
           else if dlt scale_value (Fin 0) \<and> valid (basis' h1) \<and> \<not> in_range (col_status (basis' h1)) col
             then None
           else if initialised_for_solve (status' (ekk_instance' h1)) \<and> dlt scale_value (Fin 0)
                   \<and> has_basis (status' (ekk_instance' h1))
                   \<and> \<not> in_range (nonbasicMove' (simplex_basis' (ekk_instance' h1))) col
             then None
           else
             let h2 = (if dlt scale_value (Fin 0) \<and> valid (basis' h1)
                       then h1\<lparr>basis' := (basis' h1)\<lparr>col_status :=
                                 write_at (col_status (basis' h1)) col
                                   (flip_status (read_at (col_status (basis' h1)) col))\<rparr>\<rparr>
                       else h1);
                 ekk = ekk_instance' h2;
                 h3 = (if initialised_for_solve (status' ekk) \<and> dlt scale_value (Fin 0)
                          \<and> has_basis (status' ekk)
                       then h2\<lparr>ekk_instance' := ekk\<lparr>simplex_basis' := (simplex_basis' ekk)\<lparr>nonbasicMove' :=
                                 write_at (nonbasicMove' (simplex_basis' ekk)) col
                                   (flip_move (read_at (nonbasicMove' (simplex_basis' ekk)) col))\<rparr>\<rparr>\<rparr>
                       else h2);
                 h4 = invalidateModelStatusSolutionAndInfo h3;
                 h5 = h4\<lparr>ekk_instance' := updateStatus ext kScaledCol (ekk_instance' h4)\<rparr>
             in Some (kOk, h5))"

text \<open>\<^verbatim>\<open>Highs::scaleRowInterface\<close>: the move of row \<open>row\<close> is at \<^verbatim>\<open>lp.num_col_ + row\<close>.\<close>

definition scaleRowInterface ::
  "('m, 'x) scaling_externals_scheme \<Rightarrow> int \<Rightarrow> double \<Rightarrow> 'm Highs \<Rightarrow> (HighsStatus \<times> 'm Highs) option" where
  "scaleRowInterface ext row scale_value h0 =
     (let h = h0\<lparr>lp' := lp_ensureColwise ext (lp' h0)\<rparr> in
      if row < 0 then Some (kError, h)
      else if row \<ge> num_row' (lp' h) then Some (kError, h)
      else if \<not> nonzero scale_value then Some (kError, h)
      else
        let (call_status, lp1) = applyScalingToLpRow ext (lp' h) row scale_value;
            h1 = h\<lparr>lp' := lp1\<rparr>;
            return_status = interpretCallStatus call_status kOk;
            var = num_col' lp1 + row
        in if return_status = kError then Some (return_status, h1)
           else if dlt scale_value (Fin 0) \<and> valid (basis' h1) \<and> \<not> in_range (row_status (basis' h1)) row
             then None
           else if initialised_for_solve (status' (ekk_instance' h1)) \<and> dlt scale_value (Fin 0)
                   \<and> has_basis (status' (ekk_instance' h1))
                   \<and> \<not> in_range (nonbasicMove' (simplex_basis' (ekk_instance' h1))) var
             then None
           else
             let h2 = (if dlt scale_value (Fin 0) \<and> valid (basis' h1)
                       then h1\<lparr>basis' := (basis' h1)\<lparr>row_status :=
                                 write_at (row_status (basis' h1)) row
                                   (flip_status (read_at (row_status (basis' h1)) row))\<rparr>\<rparr>
                       else h1);
                 ekk = ekk_instance' h2;
                 h3 = (if initialised_for_solve (status' ekk) \<and> dlt scale_value (Fin 0)
                          \<and> has_basis (status' ekk)
                       then h2\<lparr>ekk_instance' := ekk\<lparr>simplex_basis' := (simplex_basis' ekk)\<lparr>nonbasicMove' :=
                                 write_at (nonbasicMove' (simplex_basis' ekk)) var
                                   (flip_move (read_at (nonbasicMove' (simplex_basis' ekk)) var))\<rparr>\<rparr>\<rparr>
                       else h2);
                 h4 = invalidateModelStatusSolutionAndInfo h3;
                 h5 = h4\<lparr>ekk_instance' := updateStatus ext kScaledRow (ekk_instance' h4)\<rparr>
             in Some (kOk, h5))"

section \<open>Adding columns and rows\<close>

text \<open>
  \<^verbatim>\<open>HighsIndexCollection\<close>: an interval, a set or a mask of indices. Its functions
  (\<^verbatim>\<open>dataSize\<close>, \<^verbatim>\<open>limits\<close>, \<^verbatim>\<open>updateOutInIndex\<close>) are not part of the sources at hand.
\<close>

record HighsIndexCollection =
  dimension' :: int
  is_interval' :: bool
  from' :: int
  to' :: int
  is_set' :: bool
  set_num_entries' :: int
  set' :: "int list"
  is_mask' :: bool
  mask' :: "int list"

text \<open>The interval collection that \<^verbatim>\<open>addColsInterface\<close> and \<^verbatim>\<open>addRowsInterface\<close> set up.\<close>

definition interval_collection :: "int \<Rightarrow> int \<Rightarrow> int \<Rightarrow> HighsIndexCollection" where
  "interval_collection dimension lo hi =
     \<lparr>dimension' = dimension, is_interval' = True, from' = lo, to' = hi,
      is_set' = False, set_num_entries' = -1, set' = [], is_mask' = False, mask' = []\<rparr>"

text \<open>A matrix built locally from the caller's arrays, field by field as the source does.\<close>

record HighsSparseMatrix =
  format' :: MatrixFormat
  m_num_col' :: int
  m_num_row' :: int
  start' :: "int list"
  index' :: "int list"
  value' :: "double list"

text \<open>
  The further functions that are not part of the sources at hand, as parameters:
  \<^item> of \<^verbatim>\<open>HighsIndexCollection\<close>: \<open>dataSize\<close>, \<open>limits\<close>, and \<open>updateOutInIndex\<close>, which
    takes the collection, the last \<^verbatim>\<open>in_to_ix\<close> and \<^verbatim>\<open>current_set_entry\<close> and returns
    \<^verbatim>\<open>(out_from_ix, out_to_ix, in_from_ix, in_to_ix, current_set_entry)\<close>;
  \<^item> of \<^verbatim>\<open>HighsLpUtils\<close>: \<open>assessCosts\<close> (status, normalised costs, whether one is
    infinite), \<open>assessBounds\<close> (status, normalised lower and upper bounds),
    \<open>boundScaleOk\<close>, \<open>costScaleOk\<close>, \<open>appendColsToLpVectors\<close>, \<open>appendRowsToLpVectors\<close>,
    \<open>changeLpCosts\<close>, \<open>changeLpColBounds\<close>, \<open>changeLpRowBounds\<close>,
    \<open>changeLpIntegrality\<close>, \<open>sortSetData\<close>;
  \<^item> of \<^verbatim>\<open>HighsSparseMatrix\<close>: \<open>matrix_assess\<close>, \<open>matrix_addCols\<close>, \<open>matrix_addRows\<close>,
    \<open>applyRowScale\<close>, \<open>applyColScale\<close>, \<open>considerColScaling\<close>, \<open>considerRowScaling\<close> (the
    last two also return the scale factors they were given a pointer to);
  \<^item> of \<^verbatim>\<open>HighsLp\<close> and \<^verbatim>\<open>HighsModel\<close>: \<open>addColNames\<close>, \<open>addRowNames\<close>, \<open>isMip\<close>,
    \<open>userBoundScaleOk\<close>, \<open>userBoundScale\<close>, \<open>userCostScaleOk\<close>, \<open>userCostScale\<close>,
    \<open>lp_deleteCols\<close>, \<open>lp_deleteRows\<close>, \<open>deleteScale\<close>;
  \<^item> of \<^verbatim>\<open>HEkk\<close>: \<open>ekk_addCols\<close>, \<open>ekk_addRows\<close>, \<open>ekk_deleteCols\<close>, \<open>ekk_deleteRows\<close>.
\<close>

record 'm lp_externals = "'m scaling_externals" +
  dataSize :: "HighsIndexCollection \<Rightarrow> int"
  limits :: "HighsIndexCollection \<Rightarrow> int \<times> int"
  updateOutInIndex :: "HighsIndexCollection \<Rightarrow> int \<Rightarrow> int \<Rightarrow> int \<times> int \<times> int \<times> int \<times> int"
  assessCosts :: "double HighsOptions \<Rightarrow> int \<Rightarrow> HighsIndexCollection \<Rightarrow> double list \<Rightarrow> double
                    \<Rightarrow> HighsStatus \<times> double list \<times> bool"
  assessBounds :: "double HighsOptions \<Rightarrow> int \<Rightarrow> HighsIndexCollection \<Rightarrow> double list \<Rightarrow> double list
                    \<Rightarrow> double \<Rightarrow> HighsStatus \<times> double list \<times> double list"
  boundScaleOk :: "double list \<Rightarrow> double list \<Rightarrow> int \<Rightarrow> double \<Rightarrow> bool"
  costScaleOk :: "double list \<Rightarrow> int \<Rightarrow> double \<Rightarrow> bool"
  appendColsToLpVectors :: "'m HighsLp \<Rightarrow> int \<Rightarrow> double list \<Rightarrow> double list \<Rightarrow> double list \<Rightarrow> 'm HighsLp"
  appendRowsToLpVectors :: "'m HighsLp \<Rightarrow> int \<Rightarrow> double list \<Rightarrow> double list \<Rightarrow> 'm HighsLp"
  changeLpCosts :: "'m HighsLp \<Rightarrow> HighsIndexCollection \<Rightarrow> double list \<Rightarrow> double \<Rightarrow> 'm HighsLp"
  changeLpColBounds :: "'m HighsLp \<Rightarrow> HighsIndexCollection \<Rightarrow> double list \<Rightarrow> double list \<Rightarrow> 'm HighsLp"
  changeLpRowBounds :: "'m HighsLp \<Rightarrow> HighsIndexCollection \<Rightarrow> double list \<Rightarrow> double list \<Rightarrow> 'm HighsLp"
  changeLpIntegrality :: "'m HighsLp \<Rightarrow> HighsIndexCollection \<Rightarrow> HighsVarType list \<Rightarrow> 'm HighsLp"
  sortSetData :: "HighsIndexCollection \<Rightarrow> double list \<Rightarrow> double list
                    \<Rightarrow> HighsIndexCollection \<times> double list \<times> double list"
  matrix_assess :: "double HighsOptions \<Rightarrow> HighsSparseMatrix \<Rightarrow> HighsStatus \<times> HighsSparseMatrix"
  matrix_addCols :: "'m \<Rightarrow> HighsSparseMatrix \<Rightarrow> 'm"
  matrix_addRows :: "'m \<Rightarrow> HighsSparseMatrix \<Rightarrow> 'm"
  applyRowScale :: "HighsScale \<Rightarrow> HighsSparseMatrix \<Rightarrow> HighsSparseMatrix"
  applyColScale :: "HighsScale \<Rightarrow> HighsSparseMatrix \<Rightarrow> HighsSparseMatrix"
  considerColScaling :: "double HighsOptions \<Rightarrow> HighsSparseMatrix \<Rightarrow> double list
                    \<Rightarrow> HighsSparseMatrix \<times> double list"
  considerRowScaling :: "double HighsOptions \<Rightarrow> HighsSparseMatrix \<Rightarrow> double list
                    \<Rightarrow> HighsSparseMatrix \<times> double list"
  addColNames :: "'m HighsLp \<Rightarrow> int \<Rightarrow> 'm HighsLp"
  addRowNames :: "'m HighsLp \<Rightarrow> int \<Rightarrow> 'm HighsLp"
  isMip :: "'m HighsLp \<Rightarrow> bool"
  userBoundScaleOk :: "'m HighsLp \<Rightarrow> int \<Rightarrow> double \<Rightarrow> bool"
  userBoundScale :: "'m HighsLp \<Rightarrow> int \<Rightarrow> 'm HighsLp"
  userCostScaleOk :: "'m HighsLp \<Rightarrow> int \<Rightarrow> double \<Rightarrow> double \<Rightarrow> double \<Rightarrow> bool"
  userCostScale :: "'m HighsLp \<Rightarrow> int \<Rightarrow> 'm HighsLp"
  lp_deleteCols :: "'m HighsLp \<Rightarrow> HighsIndexCollection \<Rightarrow> 'm HighsLp"
  lp_deleteRows :: "'m HighsLp \<Rightarrow> HighsIndexCollection \<Rightarrow> 'm HighsLp"
  deleteScale :: "double list \<Rightarrow> HighsIndexCollection \<Rightarrow> double list"
  ekk_addCols :: "'m HighsLp \<Rightarrow> HighsSparseMatrix \<Rightarrow> HEkk \<Rightarrow> HEkk"
  ekk_addRows :: "'m HighsLp \<Rightarrow> HighsSparseMatrix \<Rightarrow> HEkk \<Rightarrow> HEkk"
  ekk_deleteCols :: "HighsIndexCollection \<Rightarrow> HEkk \<Rightarrow> HEkk"
  ekk_deleteRows :: "HighsIndexCollection \<Rightarrow> HEkk \<Rightarrow> HEkk"

text \<open>
  \<^verbatim>\<open>doubleUserDataNotNull(log, data, name)\<close> reports a null pointer: it returns true when
  \<^verbatim>\<open>data\<close> is null, as its use in \<^verbatim>\<open>changeColBoundsInterface\<close> shows
  (\<^verbatim>\<open>if (null_data) return HighsStatus::kError\<close>). \<^verbatim>\<open>isColDataNull\<close>,
  \<^verbatim>\<open>isRowDataNull\<close> and \<^verbatim>\<open>isMatrixDataNull\<close> are its disjunctions over their arrays.
\<close>

definition doubleUserDataNotNull :: "'a ptr \<Rightarrow> bool" where
  "doubleUserDataNotNull p = (p = None)"

definition isColDataNull :: "double ptr \<Rightarrow> double ptr \<Rightarrow> double ptr \<Rightarrow> bool" where
  "isColDataNull c l u = (doubleUserDataNotNull c \<or> doubleUserDataNotNull l \<or> doubleUserDataNotNull u)"

definition isRowDataNull :: "double ptr \<Rightarrow> double ptr \<Rightarrow> bool" where
  "isRowDataNull l u = (doubleUserDataNotNull l \<or> doubleUserDataNotNull u)"

definition isMatrixDataNull :: "int ptr \<Rightarrow> int ptr \<Rightarrow> double ptr \<Rightarrow> bool" where
  "isMatrixDataNull s i v = (doubleUserDataNotNull s \<or> doubleUserDataNotNull i \<or> doubleUserDataNotNull v)"

text \<open>\<^verbatim>\<open>std::vector<T> v{p, p + n}\<close>: the first \<open>n\<close> entries behind a pointer.\<close>

definition copy_range :: "'a ptr \<Rightarrow> int \<Rightarrow> 'a list" where
  "copy_range p n = take (nat n) (the p)"

text \<open>\<^verbatim>\<open>v.resize(n)\<close> with value-initialised new entries.\<close>

definition resize :: "'a list \<Rightarrow> int \<Rightarrow> 'a \<Rightarrow> 'a list" where
  "resize v n d = take (nat n) v @ replicate (nat n - length v) d"

text \<open>Applying a user scale: every entry times \<^verbatim>\<open>std::pow(2, exponent)\<close>.\<close>

definition scale_by :: "int \<Rightarrow> double list \<Rightarrow> double list" where
  "scale_by exponent v = map (\<lambda>x. dmul x (pow2 exponent)) v"

text \<open>
  The status and move of a nonbasic variable from its bounds, as
  \<^verbatim>\<open>appendNonbasicColsToBasisInterface\<close> sets them for a new column.
\<close>

definition new_nonbasic_col :: "double \<Rightarrow> double \<Rightarrow> HighsBasisStatus \<times> int" where
  "new_nonbasic_col lower upper =
     (if deq lower upper then (kLower, kNonbasicMoveZe)
      else if \<not> highs_isInfinity (dneg lower) then
        (if \<not> highs_isInfinity upper then
           (if dlt (dabs lower) (dabs upper) then (kLower, kNonbasicMoveUp)
            else (kUpper, kNonbasicMoveDn))
         else (kLower, kNonbasicMoveUp))
      else if \<not> highs_isInfinity upper then (kUpper, kNonbasicMoveDn)
      else (kZero, kNonbasicMoveZe))"

text \<open>The integers \<open>lo, lo + 1, ..., hi - 1\<close> of a \<^verbatim>\<open>for\<close> loop.\<close>

definition index_range :: "int \<Rightarrow> int \<Rightarrow> int list" where
  "index_range lo hi = [lo..hi - 1]"

text \<open>
  \<^verbatim>\<open>Highs::appendNonbasicColsToBasisInterface\<close>. It runs after the new columns have
  been appended to the LP vectors and before \<^verbatim>\<open>lp.num_col_\<close> is increased.
\<close>

definition shift_row_data :: "int \<Rightarrow> int \<Rightarrow> int \<Rightarrow> SimplexBasis \<Rightarrow> SimplexBasis" where
  "shift_row_data num_col ext_num_new_col iRow sb =
     (let newNumCol = num_col + ext_num_new_col;
          sb1 = (if read_at (basicIndex' sb) iRow \<ge> num_col
                 then sb\<lparr>basicIndex' := write_at (basicIndex' sb) iRow
                                          (read_at (basicIndex' sb) iRow + ext_num_new_col)\<rparr>
                 else sb)
      in sb1\<lparr>nonbasicFlag' := write_at (nonbasicFlag' sb1) (newNumCol + iRow)
                                 (read_at (nonbasicFlag' sb1) (num_col + iRow)),
             nonbasicMove' := write_at (nonbasicMove' sb1) (newNumCol + iRow)
                                 (read_at (nonbasicMove' sb1) (num_col + iRow))\<rparr>)"

definition make_col_nonbasic :: "'m HighsLp \<Rightarrow> bool \<Rightarrow> int \<Rightarrow> HighsBasis \<times> SimplexBasis \<Rightarrow> HighsBasis \<times> SimplexBasis" where
  "make_col_nonbasic lp has_simplex_basis iCol bs =
     (let (st, move) = new_nonbasic_col (read_at (col_lower' lp) iCol) (read_at (col_upper' lp) iCol);
          b = (fst bs)\<lparr>col_status := write_at (col_status (fst bs)) iCol st\<rparr>;
          sb = (if has_simplex_basis
                then (snd bs)\<lparr>nonbasicFlag' := write_at (nonbasicFlag' (snd bs)) iCol kNonbasicFlagTrue,
                              nonbasicMove' := write_at (nonbasicMove' (snd bs)) iCol move\<rparr>
                else snd bs)
      in (b, sb))"

definition appendNonbasicColsToBasisInterface :: "int \<Rightarrow> 'm Highs \<Rightarrow> 'm Highs" where
  "appendNonbasicColsToBasisInterface ext_num_new_col h =
     (if ext_num_new_col = 0 then h
      else if \<not> useful (basis' h) then h
      else
        let lp = lp' h;
            has_simplex_basis = has_basis (status' (ekk_instance' h));
            newNumCol = num_col' lp + ext_num_new_col;
            newNumTot = newNumCol + num_row' lp;
            b0 = (basis' h)\<lparr>col_status := resize (col_status (basis' h)) newNumCol kLower\<rparr>;
            sb = simplex_basis' (ekk_instance' h);
            sb0 = (if has_simplex_basis
                   then fold (shift_row_data (num_col' lp) ext_num_new_col)
                          (rev (index_range 0 (num_row' lp)))
                          (sb\<lparr>nonbasicFlag' := resize (nonbasicFlag' sb) newNumTot 0,
                              nonbasicMove' := resize (nonbasicMove' sb) newNumTot 0\<rparr>)
                   else sb);
            (b1, sb1) = fold (make_col_nonbasic lp has_simplex_basis)
                          (index_range (num_col' lp) newNumCol) (b0, sb0)
        in h\<lparr>basis' := b1, ekk_instance' := (ekk_instance' h)\<lparr>simplex_basis' := sb1\<rparr>\<rparr>)"

text \<open>\<^verbatim>\<open>Highs::appendBasicRowsToBasisInterface\<close>.\<close>

definition make_row_basic :: "int \<Rightarrow> int \<Rightarrow> SimplexBasis \<Rightarrow> SimplexBasis" where
  "make_row_basic num_col iRow sb =
     sb\<lparr>nonbasicFlag' := write_at (nonbasicFlag' sb) (num_col + iRow) kNonbasicFlagFalse,
        nonbasicMove' := write_at (nonbasicMove' sb) (num_col + iRow) 0,
        basicIndex' := write_at (basicIndex' sb) iRow (num_col + iRow)\<rparr>"

definition appendBasicRowsToBasisInterface :: "int \<Rightarrow> 'm Highs \<Rightarrow> 'm Highs" where
  "appendBasicRowsToBasisInterface ext_num_new_row h =
     (if ext_num_new_row = 0 then h
      else if \<not> useful (basis' h) then h
      else
        let lp = lp' h;
            has_simplex_basis = has_basis (status' (ekk_instance' h));
            newNumRow = num_row' lp + ext_num_new_row;
            b1 = (basis' h)\<lparr>row_status :=
                   fold (\<lambda>iRow rs. write_at rs iRow kBasic) (index_range (num_row' lp) newNumRow)
                     (resize (row_status (basis' h)) newNumRow kLower)\<rparr>;
            sb = simplex_basis' (ekk_instance' h);
            newNumTot = num_col' lp + newNumRow;
            sb1 = (if has_simplex_basis
                   then fold (make_row_basic (num_col' lp)) (index_range (num_row' lp) newNumRow)
                          (sb\<lparr>nonbasicFlag' := resize (nonbasicFlag' sb) newNumTot 0,
                              nonbasicMove' := resize (nonbasicMove' sb) newNumTot 0,
                              basicIndex' := resize (basicIndex' sb) newNumRow 0\<rparr>)
                   else sb)
        in h\<lparr>basis' := b1, ekk_instance' := (ekk_instance' h)\<lparr>simplex_basis' := sb1\<rparr>\<rparr>)"

text \<open>
  The local column-wise matrix of the new columns: with nonzeros, the caller's arrays and
  the closing start; without, \<^verbatim>\<open>start_.assign(ext_num_new_col + 1, 0)\<close>.
\<close>

definition local_matrix ::
  "MatrixFormat \<Rightarrow> int \<Rightarrow> int \<Rightarrow> int \<Rightarrow> int \<Rightarrow> int ptr \<Rightarrow> int ptr \<Rightarrow> double ptr \<Rightarrow> HighsSparseMatrix" where
  "local_matrix fmt ncol nrow num_new ext_num_new_nz ext_start ext_index ext_value =
     (if ext_num_new_nz \<noteq> 0
      then \<lparr>format' = fmt, m_num_col' = ncol, m_num_row' = nrow,
             start' = write_at (resize (copy_range ext_start num_new) (num_new + 1) 0) num_new ext_num_new_nz,
             index' = copy_range ext_index ext_num_new_nz,
             value' = copy_range ext_value ext_num_new_nz\<rparr>
      else \<lparr>format' = fmt, m_num_col' = ncol, m_num_row' = nrow,
             start' = replicate (nat (num_new + 1)) 0, index' = [], value' = []\<rparr>)"

text \<open>
  The part of \<^verbatim>\<open>addColsInterface\<close> from \<^verbatim>\<open>appendColsToLpVectors\<close> on. The Hessian is
  not part of the state kept here, so its completion in the last statement is not seen.
\<close>

definition addCols_append ::
  "('m, 'x) lp_externals_scheme \<Rightarrow> int \<Rightarrow> double list \<Rightarrow> double list \<Rightarrow> double list \<Rightarrow> bool
     \<Rightarrow> int \<Rightarrow> int ptr \<Rightarrow> int ptr \<Rightarrow> double ptr \<Rightarrow> HighsStatus \<Rightarrow> 'm Highs \<Rightarrow> HighsStatus \<times> 'm Highs" where
  "addCols_append ext ext_num_new_col local_colCost local_colLower local_colUpper
       local_has_infinite_cost ext_num_new_nz ext_a_start ext_a_index ext_a_value return_status0 h =
     (let newNumCol = num_col' (lp' h) + ext_num_new_col;
          lp1 = appendColsToLpVectors ext (lp' h) ext_num_new_col local_colCost local_colLower local_colUpper;
          m0 = local_matrix kColwise ext_num_new_col (num_row' lp1) ext_num_new_col ext_num_new_nz
                 ext_a_start ext_a_index ext_a_value;
          (call_status, m1) = (if ext_num_new_nz \<noteq> 0 then matrix_assess ext (options' h) m0 else (kOk, m0));
          return_status = interpretCallStatus call_status return_status0
      in if return_status = kError then (return_status, h\<lparr>lp' := lp1\<rparr>)
         else
           let lp2 = lp1\<lparr>a_matrix' := matrix_addCols ext (a_matrix' lp1) m1\<rparr>;
               sc = scale' lp2;
               sc1 = sc\<lparr>scale_col := fold (\<lambda>iCol c. write_at c (num_col' lp2 + iCol) (Fin 1))
                                       (index_range 0 ext_num_new_col) (resize (scale_col sc) newNumCol (Fin 0)),
                        scale_num_col := newNumCol\<rparr>;
               m2 = applyRowScale ext sc1 m1;
               (m3, factors) = considerColScaling ext (options' h) m2 (drop (nat (num_col' lp2)) (scale_col sc1));
               sc2 = sc1\<lparr>scale_col := take (nat (num_col' lp2)) (scale_col sc1) @ factors\<rparr>;
               (lp3, m4) = (if has_scaling sc then (lp2\<lparr>scale' := sc2\<rparr>, m3) else (lp2, m1));
               h1 = h\<lparr>lp' := lp3\<rparr>;
               h2 = (if useful (basis' h1) then appendNonbasicColsToBasisInterface ext_num_new_col h1 else h1);
               lp4 = addColNames ext (lp' h2) ext_num_new_col;
               lp5 = lp4\<lparr>num_col' := num_col' lp4 + ext_num_new_col\<rparr>;
               lp6 = lp5\<lparr>has_infinite_cost' := (has_infinite_cost' lp5 \<or> local_has_infinite_cost)\<rparr>;
               h3 = invalidateModelStatusSolutionAndInfo (h2\<lparr>lp' := lp6\<rparr>);
               h4 = h3\<lparr>ekk_instance' := ekk_addCols ext (lp' h3) m4 (ekk_instance' h3)\<rparr>
           in (return_status, h4))"

text \<open>The part from the copies of the caller's data to the user-scale checks.\<close>

definition addCols_assess ::
  "('m, 'x) lp_externals_scheme \<Rightarrow> int \<Rightarrow> double ptr \<Rightarrow> double ptr \<Rightarrow> double ptr
     \<Rightarrow> int \<Rightarrow> int ptr \<Rightarrow> int ptr \<Rightarrow> double ptr \<Rightarrow> 'm Highs \<Rightarrow> HighsStatus \<times> 'm Highs" where
  "addCols_assess ext ext_num_new_col ext_col_cost ext_col_lower ext_col_upper
       ext_num_new_nz ext_a_start ext_a_index ext_a_value h =
     (let lp = lp' h; opt = options' h;
          index_collection = interval_collection ext_num_new_col 0 (ext_num_new_col - 1);
          (cost_status, local_colCost, local_has_infinite_cost) =
             assessCosts ext opt (num_col' lp) index_collection
               (copy_range ext_col_cost ext_num_new_col) (infinite_cost opt);
          return_status1 = interpretCallStatus cost_status kOk
      in if return_status1 = kError then (return_status1, h)
         else
           let (bound_status, local_colLower, local_colUpper) =
                 assessBounds ext opt (num_col' lp) index_collection
                   (copy_range ext_col_lower ext_num_new_col)
                   (copy_range ext_col_upper ext_num_new_col) (infinite_bound opt);
               return_status2 = interpretCallStatus bound_status return_status1
           in if return_status2 = kError then (return_status2, h)
              else if user_bound_scale' lp \<noteq> 0
                      \<and> \<not> boundScaleOk ext local_colLower local_colUpper (user_bound_scale' lp) (infinite_bound opt)
                then (kError, h)
              else if user_cost_scale' lp \<noteq> 0
                      \<and> \<not> costScaleOk ext local_colCost (user_cost_scale' lp) (infinite_cost opt)
                then (kError, h)
              else
                addCols_append ext ext_num_new_col
                  (if user_cost_scale' lp \<noteq> 0 then scale_by (user_cost_scale' lp) local_colCost else local_colCost)
                  (if user_bound_scale' lp \<noteq> 0 then scale_by (user_bound_scale' lp) local_colLower else local_colLower)
                  (if user_bound_scale' lp \<noteq> 0 then scale_by (user_bound_scale' lp) local_colUpper else local_colUpper)
                  local_has_infinite_cost ext_num_new_nz ext_a_start ext_a_index ext_a_value return_status2 h)"

text \<open>\<^verbatim>\<open>Highs::addColsInterface\<close>: the checks on the arguments, in the order of the source.\<close>

definition addColsInterface ::
  "('m, 'x) lp_externals_scheme \<Rightarrow> int \<Rightarrow> double ptr \<Rightarrow> double ptr \<Rightarrow> double ptr
     \<Rightarrow> int \<Rightarrow> int ptr \<Rightarrow> int ptr \<Rightarrow> double ptr \<Rightarrow> 'm Highs \<Rightarrow> HighsStatus \<times> 'm Highs" where
  "addColsInterface ext ext_num_new_col ext_col_cost ext_col_lower ext_col_upper
       ext_num_new_nz ext_a_start ext_a_index ext_a_value h =
     (if ext_num_new_col < 0 then (kError, h)
      else if ext_num_new_nz < 0 then (kError, h)
      else if ext_num_new_col = 0 then (kOk, h)
      else if ext_num_new_col > 0 \<and> isColDataNull ext_col_cost ext_col_lower ext_col_upper then (kError, h)
      else if ext_num_new_nz > 0 \<and> isMatrixDataNull ext_a_start ext_a_index ext_a_value then (kError, h)
      else if num_row' (lp' h) \<le> 0 \<and> ext_num_new_nz > 0 then (kError, h)
      else addCols_assess ext ext_num_new_col ext_col_cost ext_col_lower ext_col_upper
             ext_num_new_nz ext_a_start ext_a_index ext_a_value h)"

text \<open>\<^verbatim>\<open>Highs::addRowsInterface\<close>, in the same three parts.\<close>

definition addRows_append ::
  "('m, 'x) lp_externals_scheme \<Rightarrow> int \<Rightarrow> double list \<Rightarrow> double list
     \<Rightarrow> int \<Rightarrow> int ptr \<Rightarrow> int ptr \<Rightarrow> double ptr \<Rightarrow> HighsStatus \<Rightarrow> 'm Highs \<Rightarrow> HighsStatus \<times> 'm Highs" where
  "addRows_append ext ext_num_new_row local_rowLower local_rowUpper
       ext_num_new_nz ext_ar_start ext_ar_index ext_ar_value return_status0 h =
     (let newNumRow = num_row' (lp' h) + ext_num_new_row;
          lp1 = appendRowsToLpVectors ext (lp' h) ext_num_new_row local_rowLower local_rowUpper;
          m0 = local_matrix kRowwise (num_col' lp1) ext_num_new_row ext_num_new_row ext_num_new_nz
                 ext_ar_start ext_ar_index ext_ar_value;
          (call_status, m1) = (if ext_num_new_nz \<noteq> 0 then matrix_assess ext (options' h) m0 else (kOk, m0));
          return_status = interpretCallStatus call_status return_status0
      in if return_status = kError then (return_status, h\<lparr>lp' := lp1\<rparr>)
         else
           let lp2 = lp1\<lparr>a_matrix' := matrix_addRows ext (a_matrix' lp1) m1\<rparr>;
               sc = scale' lp2;
               sc1 = sc\<lparr>scale_row := fold (\<lambda>iRow r. write_at r (num_row' lp2 + iRow) (Fin 1))
                                       (index_range 0 ext_num_new_row) (resize (scale_row sc) newNumRow (Fin 0)),
                        scale_num_row := newNumRow\<rparr>;
               m2 = applyColScale ext sc1 m1;
               (m3, factors) = considerRowScaling ext (options' h) m2 (drop (nat (num_row' lp2)) (scale_row sc1));
               sc2 = sc1\<lparr>scale_row := take (nat (num_row' lp2)) (scale_row sc1) @ factors\<rparr>;
               (lp3, m4) = (if has_scaling sc then (lp2\<lparr>scale' := sc2\<rparr>, m3) else (lp2, m1));
               h1 = h\<lparr>lp' := lp3\<rparr>;
               h2 = (if useful (basis' h1) then appendBasicRowsToBasisInterface ext_num_new_row h1 else h1);
               lp4 = addRowNames ext (lp' h2) ext_num_new_row;
               lp5 = lp4\<lparr>num_row' := num_row' lp4 + ext_num_new_row\<rparr>;
               h3 = invalidateModelStatusSolutionAndInfo (h2\<lparr>lp' := lp5\<rparr>);
               h4 = h3\<lparr>ekk_instance' := ekk_addRows ext (lp' h3) m4 (ekk_instance' h3)\<rparr>
           in (return_status, h4))"

definition addRows_assess ::
  "('m, 'x) lp_externals_scheme \<Rightarrow> int \<Rightarrow> double ptr \<Rightarrow> double ptr
     \<Rightarrow> int \<Rightarrow> int ptr \<Rightarrow> int ptr \<Rightarrow> double ptr \<Rightarrow> 'm Highs \<Rightarrow> HighsStatus \<times> 'm Highs" where
  "addRows_assess ext ext_num_new_row ext_row_lower ext_row_upper
       ext_num_new_nz ext_ar_start ext_ar_index ext_ar_value h =
     (let lp = lp' h; opt = options' h;
          index_collection = interval_collection ext_num_new_row 0 (ext_num_new_row - 1);
          (bound_status, local_rowLower, local_rowUpper) =
             assessBounds ext opt (num_row' lp) index_collection
               (copy_range ext_row_lower ext_num_new_row)
               (copy_range ext_row_upper ext_num_new_row) (infinite_bound opt);
          return_status1 = interpretCallStatus bound_status kOk
      in if return_status1 = kError then (return_status1, h)
         else if user_bound_scale' lp \<noteq> 0
                 \<and> \<not> boundScaleOk ext local_rowLower local_rowUpper (user_bound_scale' lp) (infinite_bound opt)
           then (kError, h)
         else
           addRows_append ext ext_num_new_row
             (if user_bound_scale' lp \<noteq> 0 then scale_by (user_bound_scale' lp) local_rowLower else local_rowLower)
             (if user_bound_scale' lp \<noteq> 0 then scale_by (user_bound_scale' lp) local_rowUpper else local_rowUpper)
             ext_num_new_nz ext_ar_start ext_ar_index ext_ar_value return_status1 h)"

definition addRowsInterface ::
  "('m, 'x) lp_externals_scheme \<Rightarrow> int \<Rightarrow> double ptr \<Rightarrow> double ptr
     \<Rightarrow> int \<Rightarrow> int ptr \<Rightarrow> int ptr \<Rightarrow> double ptr \<Rightarrow> 'm Highs \<Rightarrow> HighsStatus \<times> 'm Highs" where
  "addRowsInterface ext ext_num_new_row ext_row_lower ext_row_upper
       ext_num_new_nz ext_ar_start ext_ar_index ext_ar_value h =
     (if ext_num_new_row < 0 then (kError, h)
      else if ext_num_new_nz < 0 then (kError, h)
      else if ext_num_new_row = 0 then (kOk, h)
      else if ext_num_new_row > 0 \<and> isRowDataNull ext_row_lower ext_row_upper then (kError, h)
      else if ext_num_new_nz > 0 \<and> isMatrixDataNull ext_ar_start ext_ar_index ext_ar_value then (kError, h)
      else if num_col' (lp' h) \<le> 0 \<and> ext_num_new_nz > 0 then (kError, h)
      else addRows_assess ext ext_num_new_row ext_row_lower ext_row_upper
             ext_num_new_nz ext_ar_start ext_ar_index ext_ar_value h)"

section \<open>Changing costs, bounds and integrality\<close>

text \<open>
  \<^verbatim>\<open>Highs::setNonbasicStatusInterface\<close>: for a valid basis, the status and the move of
  every nonbasic variable of the collection follow from its bounds; a boxed variable
  keeps a definite status. For a column a lower status moves up and an upper status
  down; for a row it is the other way round.
\<close>

definition nonbasic_status_and_move ::
  "bool \<Rightarrow> double \<Rightarrow> double \<Rightarrow> HighsBasisStatus \<Rightarrow> HighsBasisStatus \<times> int" where
  "nonbasic_status_and_move columns lower upper status =
     (let at_lower = (if columns then kNonbasicMoveUp else kNonbasicMoveDn);
          at_upper = (if columns then kNonbasicMoveDn else kNonbasicMoveUp)
      in if deq lower upper then
           (if status = kNonbasic then kLower else status, kNonbasicMoveZe)
         else if \<not> highs_isInfinity (dneg lower) then
           (if \<not> highs_isInfinity upper then
              (if status = kNonbasic then
                 (if dlt (dabs lower) (dabs upper) then (kLower, at_lower) else (kUpper, at_upper))
               else if status = kLower then (status, at_lower)
               else (status, at_upper))
            else (kLower, at_lower))
         else if \<not> highs_isInfinity upper then (kUpper, at_upper)
         else (kZero, kNonbasicMoveZe))"

definition set_nonbasic_status :: "bool \<Rightarrow> bool \<Rightarrow> int \<Rightarrow> 'm Highs \<Rightarrow> 'm Highs" where
  "set_nonbasic_status columns has_simplex_basis ix h =
     (let lp = lp' h; b = basis' h;
          statuses = (if columns then col_status b else row_status b)
      in if read_at statuses ix = kBasic then h
         else
           let lower = (if columns then read_at (col_lower' lp) ix else read_at (row_lower' lp) ix);
               upper = (if columns then read_at (col_upper' lp) ix else read_at (row_upper' lp) ix);
               (status, move) = nonbasic_status_and_move columns lower upper (read_at statuses ix);
               b1 = (if columns then b\<lparr>col_status := write_at statuses ix status\<rparr>
                     else b\<lparr>row_status := write_at statuses ix status\<rparr>);
               var = (if columns then ix else num_col' lp + ix);
               ekk = ekk_instance' h;
               sb = simplex_basis' ekk;
               ekk1 = (if has_simplex_basis
                       then ekk\<lparr>simplex_basis' :=
                              sb\<lparr>nonbasicFlag' := write_at (nonbasicFlag' sb) var kNonbasicFlagTrue,
                                 nonbasicMove' := write_at (nonbasicMove' sb) var move\<rparr>\<rparr>
                       else ekk)
           in h\<lparr>basis' := b1, ekk_instance' := ekk1\<rparr>)"

text \<open>
  The loop \<^verbatim>\<open>for (k = from_k; k <= to_k; k++)\<close>, over the list of its values of \<open>k\<close>;
  the pair is \<^verbatim>\<open>(ignore_to_ix, current_set_entry)\<close>.
\<close>

fun setNonbasicStatus_loop ::
  "('m, 'x) lp_externals_scheme \<Rightarrow> HighsIndexCollection \<Rightarrow> bool \<Rightarrow> bool \<Rightarrow> int
     \<Rightarrow> int list \<Rightarrow> int \<times> int \<Rightarrow> 'm Highs \<Rightarrow> 'm Highs" where
  "setNonbasicStatus_loop ext ic columns has_simplex_basis ix_dim [] st h = h"
| "setNonbasicStatus_loop ext ic columns has_simplex_basis ix_dim (k # ks) st h =
     (case updateOutInIndex ext ic (fst st) (snd st) of
        (set_from_ix, set_to_ix, ignore_from_ix, ignore_to_ix, current_set_entry) \<Rightarrow>
          let h1 = fold (set_nonbasic_status columns has_simplex_basis) [set_from_ix..set_to_ix] h
          in if ignore_to_ix \<ge> ix_dim - 1 then h1
             else setNonbasicStatus_loop ext ic columns has_simplex_basis ix_dim ks
                    (ignore_to_ix, current_set_entry) h1)"

definition setNonbasicStatusInterface ::
  "('m, 'x) lp_externals_scheme \<Rightarrow> HighsIndexCollection \<Rightarrow> bool \<Rightarrow> 'm Highs \<Rightarrow> 'm Highs" where
  "setNonbasicStatusInterface ext index_collection columns h =
     (if \<not> valid (basis' h) then h
      else
        let has_simplex_basis = has_basis (status' (ekk_instance' h));
            (from_k, to_k) = limits ext index_collection;
            ix_dim = (if columns then num_col' (lp' h) else num_row' (lp' h))
        in setNonbasicStatus_loop ext index_collection columns has_simplex_basis ix_dim
             [from_k..to_k] (-1, 0) h)"

text \<open>\<^verbatim>\<open>Highs::invalidateModelStatus\<close>, the first of the three invalidations above.\<close>

definition invalidateModelStatus :: "'m Highs \<Rightarrow> 'm Highs" where
  "invalidateModelStatus h = h\<lparr>model_status' := kNotset\<rparr>"

text \<open>\<^verbatim>\<open>Highs::changeIntegralityInterface\<close>.\<close>

definition changeIntegralityInterface ::
  "('m, 'x) lp_externals_scheme \<Rightarrow> HighsIndexCollection \<Rightarrow> HighsVarType ptr \<Rightarrow> 'm Highs
     \<Rightarrow> HighsStatus \<times> 'm Highs" where
  "changeIntegralityInterface ext index_collection integrality h =
     (let num_integrality = dataSize ext index_collection in
      if num_integrality \<le> 0 then (kOk, h)
      else if doubleUserDataNotNull integrality then (kError, h)
      else
        let local_integrality = copy_range integrality num_integrality;
            lp1 = changeLpIntegrality ext (lp' h) index_collection local_integrality
        in (kOk, invalidateModelStatus (h\<lparr>lp' := lp1\<rparr>)))"

text \<open>\<^verbatim>\<open>Highs::changeCostsInterface\<close>.\<close>

definition changeCostsInterface ::
  "('m, 'x) lp_externals_scheme \<Rightarrow> HighsIndexCollection \<Rightarrow> double ptr \<Rightarrow> 'm Highs
     \<Rightarrow> HighsStatus \<times> 'm Highs" where
  "changeCostsInterface ext index_collection cost h =
     (let num_cost = dataSize ext index_collection; opt = options' h; lp = lp' h in
      if num_cost \<le> 0 then (kOk, h)
      else if doubleUserDataNotNull cost then (kError, h)
      else
        let (cost_status, local_colCost, local_has_infinite_cost) =
              assessCosts ext opt 0 index_collection (copy_range cost num_cost) (infinite_cost opt);
            return_status = interpretCallStatus cost_status kOk
        in if return_status = kError then (return_status, h)
           else if user_cost_scale' lp \<noteq> 0
                   \<and> \<not> costScaleOk ext local_colCost (user_cost_scale' lp) (infinite_cost opt)
             then (kError, h)
           else
             let scaled_colCost = (if user_cost_scale' lp \<noteq> 0
                                   then scale_by (user_cost_scale' lp) local_colCost else local_colCost);
                 lp1 = changeLpCosts ext lp index_collection scaled_colCost (infinite_cost opt);
                 lp2 = lp1\<lparr>has_infinite_cost' := (has_infinite_cost' lp1 \<or> local_has_infinite_cost)\<rparr>;
                 h1 = invalidateModelStatusSolutionAndInfo (h\<lparr>lp' := lp2\<rparr>)
             in (kOk, h1\<lparr>ekk_instance' := updateStatus ext kNewCosts (ekk_instance' h1)\<rparr>))"

text \<open>
  \<^verbatim>\<open>Highs::changeColBoundsInterface\<close> and \<^verbatim>\<open>Highs::changeRowBoundsInterface\<close> differ in
  the LP function they call and in the flag they pass to
  \<^verbatim>\<open>setNonbasicStatusInterface\<close>; \<open>columns\<close> tells them apart. For a set,
  \<^verbatim>\<open>sortSetData\<close> orders the set and the copies of the data.
\<close>

definition changeBoundsInterface ::
  "('m, 'x) lp_externals_scheme \<Rightarrow> bool \<Rightarrow> HighsIndexCollection \<Rightarrow> double ptr \<Rightarrow> double ptr
     \<Rightarrow> 'm Highs \<Rightarrow> HighsStatus \<times> 'm Highs" where
  "changeBoundsInterface ext columns index_collection0 lower upper h =
     (let num_bounds = dataSize ext index_collection0; opt = options' h; lp = lp' h in
      if num_bounds \<le> 0 then (kOk, h)
      else if doubleUserDataNotNull lower \<or> doubleUserDataNotNull upper then (kError, h)
      else
        let (index_collection, sorted_lower, sorted_upper) =
              (if is_set' index_collection0
               then sortSetData ext index_collection0 (copy_range lower num_bounds) (copy_range upper num_bounds)
               else (index_collection0, copy_range lower num_bounds, copy_range upper num_bounds));
            (bound_status, local_lower, local_upper) =
              assessBounds ext opt 0 index_collection sorted_lower sorted_upper (infinite_bound opt);
            return_status = interpretCallStatus bound_status kOk
        in if return_status = kError then (return_status, h)
           else if user_bound_scale' lp \<noteq> 0
                   \<and> \<not> boundScaleOk ext local_lower local_upper (user_bound_scale' lp) (infinite_bound opt)
             then (kError, h)
           else
             let scaled_lower = (if user_bound_scale' lp \<noteq> 0
                                 then scale_by (user_bound_scale' lp) local_lower else local_lower);
                 scaled_upper = (if user_bound_scale' lp \<noteq> 0
                                 then scale_by (user_bound_scale' lp) local_upper else local_upper);
                 lp1 = (if columns then changeLpColBounds ext lp index_collection scaled_lower scaled_upper
                        else changeLpRowBounds ext lp index_collection scaled_lower scaled_upper);
                 h1 = setNonbasicStatusInterface ext index_collection columns (h\<lparr>lp' := lp1\<rparr>);
                 h2 = invalidateModelStatusSolutionAndInfo h1
             in (kOk, h2\<lparr>ekk_instance' := updateStatus ext kNewBounds (ekk_instance' h2)\<rparr>))"

definition changeColBoundsInterface ::
  "('m, 'x) lp_externals_scheme \<Rightarrow> HighsIndexCollection \<Rightarrow> double ptr \<Rightarrow> double ptr
     \<Rightarrow> 'm Highs \<Rightarrow> HighsStatus \<times> 'm Highs" where
  "changeColBoundsInterface ext = changeBoundsInterface ext True"


section \<open>A change of the options\<close>






section \<open>Where the user scale is refused\<close>








section \<open>MPS reader: the ROWS and COLUMNS sections and fixed-format detection\<close>

datatype Parsekey =
  kName | kObjsense | kMax | kMin | kRows | kCols | kRhs | kBounds | kRanges
  | kQsection | kQmatrix | kQuadobj | kQcmatrix | kCsection
  | kDelayedrows | kModelcuts | kUsercuts | kIndicators | kSets | kSos
  | kGencons | kPwlobj | kPwlnam | kPwlcon
  | kNone | kEnd | kFail | kFixedFormat | kTimeout

text \<open>\<^verbatim>\<open>FreeFormatParserReturnCode\<close>; the prefix keeps its names apart from the keys.\<close>

datatype FreeFormatParserReturnCode =
  RC_kSuccess | RC_kParserError | RC_kFileNotFound | RC_kFixedFormat | RC_kTimeout

datatype Boundtype = kLe | kEq | kGe

text \<open>
  \<^verbatim>\<open>HMpsFF::parseRows\<close> reads a line with \<^verbatim>\<open>getMpsLine\<close> and takes it apart with
  \<^verbatim>\<open>checkFirstWord\<close>, \<^verbatim>\<open>first_word\<close>, \<^verbatim>\<open>first_word_end\<close>, \<^verbatim>\<open>is_end\<close> and
  \<^verbatim>\<open>trim\<close>. The string utilities are not part of the sources at hand, so a line is
  given here by what those calls return on it:
  \<^item> \<open>skip\<close>: the flag of \<^verbatim>\<open>getMpsLine\<close> (blank line or comment);
  \<^item> \<open>timed_out\<close>: \<^verbatim>\<open>timeout()\<close> at this line;
  \<^item> \<open>key\<close>: the result of \<^verbatim>\<open>checkFirstWord(strline, start, end, word)\<close>;
  \<^item> \<open>type_char\<close>: \<^verbatim>\<open>strline[start]\<close>;
  \<^item> \<open>rowname\<close>: \<^verbatim>\<open>first_word(strline, start + 1)\<close>;
  \<^item> \<open>more_after_name\<close>: \<^verbatim>\<open>!is_end(strline, rowname_end)\<close>, text follows the first
    word of the name;
  \<^item> \<open>name_with_spaces\<close>: \<^verbatim>\<open>trim(strline.substr(start + 1))\<close>, everything after the
    row type, trimmed.
\<close>

record rows_line =
  skip :: bool
  timed_out :: bool
  key :: Parsekey
  type_char :: char
  rowname :: string
  more_after_name :: bool
  name_with_spaces :: string

text \<open>The members of \<^verbatim>\<open>HMpsFF\<close> that \<^verbatim>\<open>parseRows\<close> writes, and its local \<^verbatim>\<open>hasobj\<close>.\<close>

record rows_state =
  hasobj :: bool
  num_row :: int
  cost_row_location :: int
  row_lower :: "real option list"
  row_upper :: "real option list"
  row_type :: "Boundtype list"
  rowname2idx :: "string \<rightharpoonup> int"
  row_names :: "string list"
  objective_name :: string
  has_duplicate_row_name :: bool
  duplicate_row_name :: string
  duplicate_row_name_index0 :: int
  duplicate_row_name_index1 :: int
  warning_issued :: bool

text \<open>
  A row bound is \<open>Some v\<close>, or \<open>None\<close> for the infinite bound (\<^verbatim>\<open>-kHighsInf\<close> of a
  lower bound, \<^verbatim>\<open>kHighsInf\<close> of an upper bound).
\<close>

definition rows_init :: rows_state where
  "rows_init = \<lparr>hasobj = False, num_row = 0, cost_row_location = -1,
     row_lower = [], row_upper = [], row_type = [], rowname2idx = Map.empty,
     row_names = [], objective_name = ''Objective'',
     has_duplicate_row_name = False, duplicate_row_name = [],
     duplicate_row_name_index0 = 0, duplicate_row_name_index1 = 0,
     warning_issued = False\<rparr>"

text \<open>\<^verbatim>\<open>std::map::emplace\<close>: inserts only when the key is new, and says whether it did.\<close>

definition emplace :: "(string \<rightharpoonup> int) \<Rightarrow> string \<Rightarrow> int \<Rightarrow> (string \<rightharpoonup> int) \<times> bool" where
  "emplace m k v = (case m k of None \<Rightarrow> (m(k \<mapsto> v), True) | Some _ \<Rightarrow> (m, False))"

text \<open>The row-type switch: the bounds pushed for \<^verbatim>\<open>G\<close>, \<^verbatim>\<open>E\<close>, \<^verbatim>\<open>L\<close>; \<^verbatim>\<open>N\<close> is the
  objective the first time and a free row afterwards; anything else fails. The result is
  (state, isobj, isFreeRow).\<close>

definition rows_type_switch :: "rows_line \<Rightarrow> rows_state \<Rightarrow> (rows_state \<times> bool \<times> bool) option" where
  "rows_type_switch l st =
     (if type_char l = CHR ''G'' then
        Some (st\<lparr>row_lower := row_lower st @ [Some 0], row_upper := row_upper st @ [None],
                 row_type := row_type st @ [kGe]\<rparr>, False, False)
      else if type_char l = CHR ''E'' then
        Some (st\<lparr>row_lower := row_lower st @ [Some 0], row_upper := row_upper st @ [Some 0],
                 row_type := row_type st @ [kEq]\<rparr>, False, False)
      else if type_char l = CHR ''L'' then
        Some (st\<lparr>row_lower := row_lower st @ [None], row_upper := row_upper st @ [Some 0],
                 row_type := row_type st @ [kLe]\<rparr>, False, False)
      else if type_char l = CHR ''N'' then
        (if \<not> hasobj st
         then Some (st\<lparr>hasobj := True, cost_row_location := num_row st\<rparr>, True, False)
         else Some (st, False, True))
      else None)"

text \<open>The rest of the loop body, once the name has passed the fixed-format test.\<close>

definition rows_record_name :: "rows_line \<Rightarrow> bool \<Rightarrow> bool \<Rightarrow> rows_state \<Rightarrow> rows_state" where
  "rows_record_name l isobj isFreeRow st =
     (if isFreeRow then st\<lparr>rowname2idx := fst (emplace (rowname2idx st) (rowname l) (-2))\<rparr>
      else
        let (m, inserted) = emplace (rowname2idx st) (rowname l) (if isobj then -1 else num_row st);
            st1 = st\<lparr>rowname2idx := m, num_row := (if isobj then num_row st else num_row st + 1)\<rparr>;
            st2 = (if \<not> isobj then st1\<lparr>row_names := row_names st1 @ [rowname l]\<rparr>
                   else st1\<lparr>objective_name := rowname l\<rparr>)
        in if \<not> inserted \<and> \<not> has_duplicate_row_name st2
           then st2\<lparr>has_duplicate_row_name := True, duplicate_row_name := rowname l,
                    duplicate_row_name_index0 := the (m (rowname l)),
                    duplicate_row_name_index1 := num_row st2 - 1\<rparr>
           else st2)"

text \<open>
  \<^verbatim>\<open>parseRows\<close>: the \<^verbatim>\<open>while (getMpsLine(...))\<close> loop over the remaining lines of the
  file. Running out of lines is the anomalous exit, which returns \<^verbatim>\<open>kFail\<close>.
\<close>

fun parseRows :: "rows_line list \<Rightarrow> rows_state \<Rightarrow> Parsekey \<times> rows_state" where
  "parseRows [] st = (kFail, st\<lparr>num_row := int (length (row_lower st))\<rparr>)"
| "parseRows (l # ls) st =
     (if skip l then parseRows ls st
      else if timed_out l then (kTimeout, st)
      else if key l \<noteq> kNone then
        (key l,
         if \<not> hasobj st
         then st\<lparr>warning_issued := True,
                 rowname2idx := fst (emplace (rowname2idx st) ''artificial_empty_objective'' (-1))\<rparr>
         else st)
      else
        (case rows_type_switch l st of
           None \<Rightarrow> (kFail, st)
         | Some (st1, isobj, isFreeRow) \<Rightarrow>
             if more_after_name l then
               (if length (name_with_spaces l) > 8 then (kFail, st1) else (kFixedFormat, st1))
             else parseRows ls (rows_record_name l isobj isFreeRow st1)))"

text \<open>
  The head of the loop body of \<^verbatim>\<open>parseCols\<close>, up to its fixed-format test. A COLUMNS
  line is given by: \<open>cskip\<close>, \<open>ctimed_out\<close>, \<open>ckey\<close> as above; \<open>marker\<close> =
  \<^verbatim>\<open>first_word(strline, end)\<close>, the second word; \<open>end_marker\<close> =
  \<^verbatim>\<open>first_word_end(strline, end)\<close>; \<open>marker2\<close> = \<^verbatim>\<open>first_word(strline, end_marker)\<close>;
  \<open>name10\<close> = \<^verbatim>\<open>trim(strline.substr(0, 10))\<close>.
\<close>

record cols_line =
  cskip :: bool
  ctimed_out :: bool
  ckey :: Parsekey
  marker :: string
  end_marker :: nat
  marker2 :: string
  name10 :: string

text \<open>A word in single quotes, as the markers \<^verbatim>\<open>'MARKER'\<close>, \<^verbatim>\<open>'INTORG'\<close> and
  \<^verbatim>\<open>'INTEND'\<close> are written.\<close>

definition quoted :: "string \<Rightarrow> string" where
  "quoted w = CHR 0x27 # w @ [CHR 0x27]"

datatype cols_head = ColsReturn Parsekey | ColsContinue bool | ColsEntries

text \<open>
  \<open>ColsReturn k\<close>: the function returns \<open>k\<close>; \<open>ColsContinue b\<close>: \<^verbatim>\<open>continue\<close> with
  \<^verbatim>\<open>integral_cols = b\<close>; \<open>ColsEntries\<close>: the line goes on to the column and coefficient
  handling.
\<close>

definition parseCols_head :: "(string \<rightharpoonup> int) \<Rightarrow> bool \<Rightarrow> cols_line \<Rightarrow> cols_head" where
  "parseCols_head rownames integral_cols l =
     (if cskip l then ColsContinue integral_cols
      else if ctimed_out l then ColsReturn kTimeout
      else if ckey l \<noteq> kNone then ColsReturn (ckey l)
      else if marker l = quoted ''MARKER'' then
        (if (integral_cols \<and> marker2 l \<noteq> quoted ''INTEND'')
            \<or> (\<not> integral_cols \<and> marker2 l \<noteq> quoted ''INTORG'')
         then ColsReturn kFail
         else ColsContinue (\<not> integral_cols))
      else if end_marker l < 9 \<and> rownames (marker l) = None then
        (if length (name10 l) > 8 then ColsReturn kFail else ColsReturn kFixedFormat)
      else ColsEntries)"

text \<open>\<^verbatim>\<open>HMpsFF::cannotParseSection\<close>.\<close>

definition cannotParseSection :: "Parsekey \<Rightarrow> bool" where
  "cannotParseSection keyword =
     (keyword \<in> {kDelayedrows, kModelcuts, kUsercuts, kIndicators, kGencons, kPwlobj, kPwlnam, kPwlcon})"

text \<open>
  What \<^verbatim>\<open>HMpsFF::parse\<close> does with the keyword a section parser has returned: leave the
  loop and return a code, or run the parser of the next section.
\<close>

datatype parse_action = Return FreeFormatParserReturnCode | RunSection Parsekey

definition parse_keyword :: "Parsekey \<Rightarrow> parse_action" where
  "parse_keyword keyword =
     (if keyword = kFail then Return RC_kParserError
      else if keyword = kTimeout then Return RC_kTimeout
      else if keyword = kEnd then Return RC_kSuccess
      else if cannotParseSection keyword then Return RC_kParserError
      else if keyword = kFixedFormat then Return RC_kFixedFormat
      else RunSection keyword)"

text \<open>A line that \<^verbatim>\<open>parseRows\<close> passes over or records, going on to the next one.\<close>

definition rows_line_passes :: "rows_line \<Rightarrow> bool" where
  "rows_line_passes l =
     (skip l \<or> (\<not> timed_out l \<and> key l = kNone
        \<and> type_char l \<in> {CHR ''G'', CHR ''E'', CHR ''L'', CHR ''N''} \<and> \<not> more_after_name l))"

text \<open>A line on which the fixed-format test fires: a row line with text after the name.\<close>

definition rows_line_name_has_spaces :: "rows_line \<Rightarrow> bool" where
  "rows_line_name_has_spaces l =
     (\<not> skip l \<and> \<not> timed_out l \<and> key l = kNone
        \<and> type_char l \<in> {CHR ''G'', CHR ''E'', CHR ''L'', CHR ''N''} \<and> more_after_name l)"

section \<open>MPS reader: aggregated warnings\<close>












section \<open>Deleting columns and rows: the basis\<close>

text \<open>
  \<^verbatim>\<open>deleteBasisEntries\<close>. Each call of \<^verbatim>\<open>updateOutInIndex\<close> yields the next run of entries
  to delete, \<^verbatim>\<open>delete_from_entry .. delete_to_entry\<close>, and the run to keep after it,
  \<^verbatim>\<open>keep_from_entry .. keep_to_entry\<close>. The first inner loop looks at the statuses of the
  deleted run, the second moves the kept run down to \<^verbatim>\<open>new_num_entry\<close>.
\<close>

definition scan_deleted :: "HighsBasisStatus list \<Rightarrow> int \<Rightarrow> bool \<times> bool \<Rightarrow> bool \<times> bool" where
  "scan_deleted status entry flags =
     (if read_at status entry = kBasic then (True, snd flags) else (fst flags, True))"

definition move_kept :: "int \<Rightarrow> HighsBasisStatus list \<times> int \<Rightarrow> HighsBasisStatus list \<times> int" where
  "move_kept entry sn = (write_at (fst sn) (snd sn) (read_at (fst sn) entry), snd sn + 1)"

text \<open>
  The loop \<^verbatim>\<open>for (k = from_k; k <= to_k; k++)\<close> over the list of its values of \<open>k\<close>.
  \<open>first\<close> is \<^verbatim>\<open>k == from_k\<close>; the pair \<open>st\<close> is
  \<^verbatim>\<open>(keep_to_entry, current_set_entry)\<close>; the result is the status vector, the two flags
  and \<^verbatim>\<open>new_num_entry\<close>.
\<close>

fun deleteBasisEntries_loop ::
  "('m, 'x) lp_externals_scheme \<Rightarrow> HighsIndexCollection \<Rightarrow> int \<Rightarrow> int list \<Rightarrow> bool \<Rightarrow> int \<times> int
     \<Rightarrow> int \<Rightarrow> HighsBasisStatus list \<Rightarrow> bool \<times> bool
     \<Rightarrow> HighsBasisStatus list \<times> (bool \<times> bool) \<times> int" where
  "deleteBasisEntries_loop ext ic entry_dim [] first st new_num_entry status flags =
     (status, flags, new_num_entry)"
| "deleteBasisEntries_loop ext ic entry_dim (k # ks) first st new_num_entry status flags =
     (case updateOutInIndex ext ic (fst st) (snd st) of
        (delete_from_entry, delete_to_entry, keep_from_entry, keep_to_entry, current_set_entry) \<Rightarrow>
          let new_num_entry1 = (if first then delete_from_entry else new_num_entry);
              flags1 = fold (scan_deleted status) [delete_from_entry..delete_to_entry] flags
          in if delete_to_entry \<ge> entry_dim - 1 then (status, flags1, new_num_entry1)
             else
               let (status1, new_num_entry2) =
                     fold move_kept [keep_from_entry..keep_to_entry] (status, new_num_entry1)
               in if keep_to_entry \<ge> entry_dim - 1 then (status1, flags1, new_num_entry2)
                  else deleteBasisEntries_loop ext ic entry_dim ks False
                         (keep_to_entry, current_set_entry) new_num_entry2 status1 flags1)"

text \<open>
  The flags are reference parameters that the callers leave uninitialised: \<open>flags0\<close> is
  what they hold at the call, and it comes back when the limits are empty.
\<close>

definition deleteBasisEntries ::
  "('m, 'x) lp_externals_scheme \<Rightarrow> HighsBasisStatus list \<Rightarrow> bool \<times> bool \<Rightarrow> HighsIndexCollection \<Rightarrow> int
     \<Rightarrow> HighsBasisStatus list \<times> bool \<times> bool" where
  "deleteBasisEntries ext status flags0 index_collection entry_dim =
     (let (from_k, to_k) = limits ext index_collection in
      if from_k > to_k then (status, flags0)
      else
        let (status1, flags1, new_num_entry) =
              deleteBasisEntries_loop ext index_collection entry_dim [from_k..to_k] True (-1, 0) 0
                status (False, False)
        in (resize status1 new_num_entry kLower, flags1))"

definition deleteBasisCols ::
  "('m, 'x) lp_externals_scheme \<Rightarrow> bool \<times> bool \<Rightarrow> HighsBasis \<Rightarrow> HighsIndexCollection \<Rightarrow> int \<Rightarrow> HighsBasis" where
  "deleteBasisCols ext uninitialised basis index_collection original_num_col =
     (let (status, deleted_basic, deleted_nonbasic) =
            deleteBasisEntries ext (col_status basis) uninitialised index_collection original_num_col;
          basis1 = basis\<lparr>col_status := status\<rparr>
      in if deleted_basic then basis1\<lparr>valid := False\<rparr> else basis1)"

definition deleteBasisRows ::
  "('m, 'x) lp_externals_scheme \<Rightarrow> bool \<times> bool \<Rightarrow> HighsBasis \<Rightarrow> HighsIndexCollection \<Rightarrow> int \<Rightarrow> HighsBasis" where
  "deleteBasisRows ext uninitialised basis index_collection original_num_row =
     (let (status, deleted_basic, deleted_nonbasic) =
            deleteBasisEntries ext (row_status basis) uninitialised index_collection original_num_row;
          basis1 = basis\<lparr>row_status := status\<rparr>
      in if deleted_nonbasic then basis1\<lparr>valid := False\<rparr> else basis1)"

text \<open>
  \<^verbatim>\<open>Highs::deleteColsInterface\<close> and \<^verbatim>\<open>Highs::deleteRowsInterface\<close>. The Hessian and the
  name hashes are not part of the state kept here. For a mask, the mask is overwritten
  with the new indices of the kept entries and \<open>-1\<close> for the deleted ones; the collection
  is returned with the state.
\<close>

fun renumber_mask :: "int list \<Rightarrow> int \<Rightarrow> int list" where
  "renumber_mask [] new_ix = []"
| "renumber_mask (m # ms) new_ix =
     (if m = 0 then new_ix # renumber_mask ms (new_ix + 1) else (-1) # renumber_mask ms new_ix)"

definition update_mask :: "HighsIndexCollection \<Rightarrow> int \<Rightarrow> HighsIndexCollection" where
  "update_mask ic original_num =
     (if is_mask' ic
      then ic\<lparr>mask' := renumber_mask (take (nat original_num) (mask' ic)) 0
                         @ drop (nat original_num) (mask' ic)\<rparr>
      else ic)"

definition deleteColsInterface ::
  "('m, 'x) lp_externals_scheme \<Rightarrow> bool \<times> bool \<Rightarrow> HighsIndexCollection \<Rightarrow> 'm Highs
     \<Rightarrow> HighsIndexCollection \<times> 'm Highs" where
  "deleteColsInterface ext uninitialised index_collection h0 =
     (let lp0 = lp_ensureColwise ext (lp' h0);
          original_num_col = num_col' lp0;
          lp1 = lp_deleteCols ext lp0 index_collection;
          h = h0\<lparr>lp' := lp1\<rparr>
      in if num_col' lp1 = original_num_col then (index_collection, h)
         else
           let h1 = h\<lparr>model_status' := kNotset\<rparr>;
               h2 = (if useful (basis' h1)
                     then h1\<lparr>basis' := deleteBasisCols ext uninitialised (basis' h1) index_collection
                                          original_num_col\<rparr>
                     else h1);
               sc = scale' (lp' h2);
               h3 = (if has_scaling sc
                     then h2\<lparr>lp' := (lp' h2)\<lparr>scale' :=
                            sc\<lparr>scale_col := resize (deleteScale ext (scale_col sc) index_collection)
                                               (num_col' (lp' h2)) (Fin 0),
                               scale_num_col := num_col' (lp' h2)\<rparr>\<rparr>\<rparr>
                     else h2);
               h4 = invalidateModelStatusSolutionAndInfo h3;
               h5 = h4\<lparr>ekk_instance' := ekk_deleteCols ext index_collection (ekk_instance' h4)\<rparr>
           in (update_mask index_collection original_num_col, h5))"

definition deleteRowsInterface ::
  "('m, 'x) lp_externals_scheme \<Rightarrow> bool \<times> bool \<Rightarrow> HighsIndexCollection \<Rightarrow> 'm Highs
     \<Rightarrow> HighsIndexCollection \<times> 'm Highs" where
  "deleteRowsInterface ext uninitialised index_collection h0 =
     (let lp0 = lp_ensureColwise ext (lp' h0);
          original_num_row = num_row' lp0;
          lp1 = lp_deleteRows ext lp0 index_collection;
          h = h0\<lparr>lp' := lp1\<rparr>
      in if num_row' lp1 = original_num_row then (index_collection, h)
         else
           let h1 = h\<lparr>model_status' := kNotset\<rparr>;
               h2 = (if useful (basis' h1)
                     then h1\<lparr>basis' := deleteBasisRows ext uninitialised (basis' h1) index_collection
                                          original_num_row\<rparr>
                     else h1);
               sc = scale' (lp' h2);
               h3 = (if has_scaling sc
                     then h2\<lparr>lp' := (lp' h2)\<lparr>scale' :=
                            sc\<lparr>scale_row := resize (deleteScale ext (scale_row sc) index_collection)
                                               (num_row' (lp' h2)) (Fin 0),
                               scale_num_row := num_row' (lp' h2)\<rparr>\<rparr>\<rparr>
                     else h2);
               h4 = invalidateModelStatusSolutionAndInfo h3;
               h5 = h4\<lparr>ekk_instance' := ekk_deleteRows ext index_collection (ekk_instance' h4)\<rparr>
           in (update_mask index_collection original_num_row, h5))"

section \<open>The runs of an index collection\<close>

text \<open>
  The runs \<^verbatim>\<open>(delete_from, delete_to, keep_from, keep_to)\<close> that the loop of
  \<^verbatim>\<open>deleteBasisEntries\<close> obtains from \<^verbatim>\<open>updateOutInIndex\<close>, up to the one on which it
  leaves.
\<close>

fun index_runs ::
  "('m, 'x) lp_externals_scheme \<Rightarrow> HighsIndexCollection \<Rightarrow> int \<Rightarrow> int list \<Rightarrow> int \<times> int
     \<Rightarrow> (int \<times> int \<times> int \<times> int) list" where
  "index_runs ext ic entry_dim [] st = []"
| "index_runs ext ic entry_dim (k # ks) st =
     (case updateOutInIndex ext ic (fst st) (snd st) of
        (df, dt, kf, kt, cur) \<Rightarrow>
          (df, dt, kf, kt)
            # (if dt \<ge> entry_dim - 1 \<or> kt \<ge> entry_dim - 1 then []
               else index_runs ext ic entry_dim ks (kt, cur)))"

text \<open>
  The runs are well formed from position \<open>p\<close> on: a run to delete starts at \<open>p\<close> and
  stays below the dimension; unless it reaches the last entry, the run to keep follows it
  directly; and unless that one reaches the last entry, the next run to delete follows.
  An empty run has its end one below its start. The loop must leave on a run that reaches
  the last entry.
\<close>

fun runs_ok :: "int \<Rightarrow> int \<Rightarrow> (int \<times> int \<times> int \<times> int) list \<Rightarrow> bool" where
  "runs_ok entry_dim p [] = False"
| "runs_ok entry_dim p ((df, dt, kf, kt) # rs) =
     (df = p \<and> df - 1 \<le> dt \<and> dt \<le> entry_dim - 1
      \<and> (dt = entry_dim - 1
          \<or> (kf = dt + 1 \<and> kf - 1 \<le> kt \<and> kt \<le> entry_dim - 1
              \<and> (kt = entry_dim - 1 \<or> runs_ok entry_dim (kt + 1) rs))))"

text \<open>The entries that a list of runs deletes, up to the run that reaches the last entry.\<close>

fun deleted_entries :: "int \<Rightarrow> (int \<times> int \<times> int \<times> int) list \<Rightarrow> int list" where
  "deleted_entries entry_dim [] = []"
| "deleted_entries entry_dim ((df, dt, kf, kt) # rs) =
     [df..dt] @ (if dt \<ge> entry_dim - 1 \<or> kt \<ge> entry_dim - 1 then []
                 else deleted_entries entry_dim rs)"

text \<open>
  The runs of a collection for a status vector of dimension \<open>entry_dim\<close>, and what it
  means for the collection to be well formed for the deletion: its limits are not empty,
  its first run to delete starts at a valid position, and its runs are well formed.
\<close>

definition collection_runs ::
  "('m, 'x) lp_externals_scheme \<Rightarrow> HighsIndexCollection \<Rightarrow> int \<Rightarrow> (int \<times> int \<times> int \<times> int) list" where
  "collection_runs ext ic entry_dim =
     index_runs ext ic entry_dim [fst (limits ext ic)..snd (limits ext ic)] (-1, 0)"

definition collection_ok :: "('m, 'x) lp_externals_scheme \<Rightarrow> HighsIndexCollection \<Rightarrow> int \<Rightarrow> bool" where
  "collection_ok ext ic entry_dim =
     (fst (limits ext ic) \<le> snd (limits ext ic)
      \<and> (case collection_runs ext ic entry_dim of
            [] \<Rightarrow> False
          | (df, dt, kf, kt) # rs \<Rightarrow> 0 \<le> df \<and> runs_ok entry_dim df ((df, dt, kf, kt) # rs)))"

text \<open>The status vector compacted over the entries that are not deleted.\<close>

definition collection_deleted ::
  "('m, 'x) lp_externals_scheme \<Rightarrow> HighsIndexCollection \<Rightarrow> int \<Rightarrow> int list" where
  "collection_deleted ext ic entry_dim = deleted_entries entry_dim (collection_runs ext ic entry_dim)"

definition compacted :: "HighsBasisStatus list \<Rightarrow> int list \<Rightarrow> HighsBasisStatus list" where
  "compacted status deleted =
     map (read_at status) (filter (\<lambda>i. i \<notin> set deleted) [0..int (length status) - 1])"

text \<open>The entries that a list of runs keeps, after those before its first run.\<close>

fun kept_entries :: "int \<Rightarrow> (int \<times> int \<times> int \<times> int) list \<Rightarrow> int list" where
  "kept_entries entry_dim [] = []"
| "kept_entries entry_dim ((df, dt, kf, kt) # rs) =
     (if dt \<ge> entry_dim - 1 then []
      else [kf..kt] @ (if kt \<ge> entry_dim - 1 then [] else kept_entries entry_dim rs))"

section \<open>Infinite costs\<close>

text \<open>
  \<^verbatim>\<open>Highs::handleInfCost\<close> and \<^verbatim>\<open>Highs::restoreInfCost\<close>. Two further functions are not
  part of the sources at hand and are fields of the record of externals:
  \<^verbatim>\<open>setHighsModelStatusAndClearSolutionAndBasis\<close> and \<^verbatim>\<open>highsStatusFromHighsModelStatus\<close>.
\<close>

record 'm solve_externals = "'m lp_externals" +
  setHighsModelStatusAndClearSolutionAndBasis :: "HighsModelStatus \<Rightarrow> 'm Highs \<Rightarrow> 'm Highs"
  highsStatusFromHighsModelStatus :: "HighsModelStatus \<Rightarrow> HighsStatus"

text \<open>
  The body of the loop over the columns, for column \<open>iCol\<close> in pass \<open>k\<close> (\<open>False\<close> for the
  first pass, \<open>True\<close> for the second). \<open>Inl\<close> is \<^verbatim>\<open>return HighsStatus::kError\<close>, with the
  LP as it is at that point; \<open>Inr\<close> is the LP after the iteration.
\<close>

definition fix_lower_at ::
  "bool \<Rightarrow> int \<Rightarrow> double \<Rightarrow> 'm HighsLp \<Rightarrow> 'm HighsLp + 'm HighsLp" where
  "fix_lower_at k iCol upper lp =
     (if dlt upper kHighsInf
      then Inr (if k then lp\<lparr>col_lower' := write_at (col_lower' lp) iCol upper\<rparr> else lp)
      else Inl lp)"

definition fix_upper_at ::
  "bool \<Rightarrow> int \<Rightarrow> double \<Rightarrow> 'm HighsLp \<Rightarrow> 'm HighsLp + 'm HighsLp" where
  "fix_upper_at k iCol lower lp =
     (if dlt (dneg kHighsInf) lower
      then Inr (if k then lp\<lparr>col_upper' := write_at (col_upper' lp) iCol lower\<rparr> else lp)
      else Inl lp)"

definition save_inf_cost :: "int \<Rightarrow> double \<Rightarrow> double \<Rightarrow> double \<Rightarrow> HighsLpMods \<Rightarrow> HighsLpMods" where
  "save_inf_cost iCol cost lower upper mods =
     mods\<lparr>save_inf_cost_variable_index := save_inf_cost_variable_index mods @ [iCol],
          save_inf_cost_variable_cost := save_inf_cost_variable_cost mods @ [cost],
          save_inf_cost_variable_lower := save_inf_cost_variable_lower mods @ [lower],
          save_inf_cost_variable_upper := save_inf_cost_variable_upper mods @ [upper]\<rparr>"

definition handleInfCost_col ::
  "('m, 'x) lp_externals_scheme \<Rightarrow> double \<Rightarrow> bool \<Rightarrow> int \<Rightarrow> 'm HighsLp \<Rightarrow> 'm HighsLp + 'm HighsLp" where
  "handleInfCost_col ext inf_cost k iCol lp =
     (let cost = read_at (col_cost' lp) iCol in
      if dlt (dneg inf_cost) cost \<and> dlt cost inf_cost then Inr lp
      else
        let lower0 = read_at (col_lower' lp) iCol;
            upper0 = read_at (col_upper' lp) iCol;
            is_integer = (isMip ext lp \<and> read_at (integrality' lp) iCol = kInteger);
            lower = (if is_integer then dceil lower0 else lower0);
            upper = (if is_integer then dfloor upper0 else upper0);
            fixed =
              (if dle cost (dneg inf_cost)
               then (if sense' lp = kMinimize then fix_lower_at k iCol upper lp
                     else fix_upper_at k iCol lower lp)
               else (if sense' lp = kMinimize then fix_upper_at k iCol lower lp
                     else fix_lower_at k iCol upper lp))
        in case fixed of
             Inl lp1 \<Rightarrow> Inl lp1
           | Inr lp1 \<Rightarrow>
               Inr (if k
                    then lp1\<lparr>mods' := save_inf_cost iCol cost lower upper (mods' lp1),
                             col_cost' := write_at (col_cost' lp1) iCol (Fin 0)\<rparr>
                    else lp1))"

fun handleInfCost_cols ::
  "('m, 'x) lp_externals_scheme \<Rightarrow> double \<Rightarrow> bool \<Rightarrow> int list \<Rightarrow> 'm HighsLp \<Rightarrow> 'm HighsLp + 'm HighsLp" where
  "handleInfCost_cols ext inf_cost k [] lp = Inr lp"
| "handleInfCost_cols ext inf_cost k (iCol # cols) lp =
     (case handleInfCost_col ext inf_cost k iCol lp of
        Inl lp1 \<Rightarrow> Inl lp1
      | Inr lp1 \<Rightarrow> handleInfCost_cols ext inf_cost k cols lp1)"

definition handleInfCost :: "('m, 'x) lp_externals_scheme \<Rightarrow> 'm Highs \<Rightarrow> HighsStatus \<times> 'm Highs" where
  "handleInfCost ext h =
     (let lp = lp' h in
      if \<not> has_infinite_cost' lp then (kOk, h)
      else
        let inf_cost = infinite_cost (options' h) in
        case handleInfCost_cols ext inf_cost False [0..num_col' lp - 1] lp of
          Inl lp1 \<Rightarrow> (kError, h\<lparr>lp' := lp1\<rparr>)
        | Inr lp1 \<Rightarrow>
            (case handleInfCost_cols ext inf_cost True [0..num_col' lp1 - 1] lp1 of
               Inl lp2 \<Rightarrow> (kError, h\<lparr>lp' := lp2\<rparr>)
             | Inr lp2 \<Rightarrow> (kOk, h\<lparr>lp' := lp2\<lparr>has_infinite_cost' := False\<rparr>\<rparr>)))"

text \<open>The body of the loop of \<^verbatim>\<open>restoreInfCost\<close> for entry \<open>ix\<close> of the log.\<close>

definition restoreInfCost_entry :: "int \<Rightarrow> 'm Highs \<Rightarrow> 'm Highs" where
  "restoreInfCost_entry ix h =
     (let lp = lp' h;
          mods = mods' lp;
          iCol = read_at (save_inf_cost_variable_index mods) ix;
          cost = read_at (save_inf_cost_variable_cost mods) ix;
          lower = read_at (save_inf_cost_variable_lower mods) ix;
          upper = read_at (save_inf_cost_variable_upper mods) ix;
          val = (if value_valid (solution' h) then read_at (col_value (solution' h)) iCol else Fin 0);
          basis1 =
            (if valid (basis' h)
             then (basis' h)\<lparr>col_status := write_at (col_status (basis' h)) iCol
                     (if deq (read_at (col_lower' lp) iCol) lower then kLower else kUpper)\<rparr>
             else basis' h);
          info1 =
            (if nonzero val
             then (info' h)\<lparr>objective_function_value :=
                     dadd (objective_function_value (info' h)) (dmul val cost)\<rparr>
             else info' h)
      in h\<lparr>basis' := basis1, info' := info1,
           lp' := lp\<lparr>col_cost' := write_at (col_cost' lp) iCol cost,
                      col_lower' := write_at (col_lower' lp) iCol lower,
                      col_upper' := write_at (col_upper' lp) iCol upper\<rparr>\<rparr>)"

text \<open>\<^verbatim>\<open>return_status\<close> is a reference parameter: it comes back with the state.\<close>

definition restoreInfCost ::
  "('m, 'x) solve_externals_scheme \<Rightarrow> HighsStatus \<Rightarrow> 'm Highs \<Rightarrow> HighsStatus \<times> 'm Highs" where
  "restoreInfCost ext return_status h =
     (let num_inf_cost = int (length (save_inf_cost_variable_index (mods' (lp' h)))) in
      if num_inf_cost \<le> 0 then (return_status, h)
      else
        let h1 = fold restoreInfCost_entry [0..num_inf_cost - 1] h;
            h2 = h1\<lparr>lp' := (lp' h1)\<lparr>has_infinite_cost' := True\<rparr>\<rparr>
        in if model_status' h2 = kInfeasible
           then
             let h3 = h2\<lparr>model_status' := kUnknown\<rparr>;
                 h4 = setHighsModelStatusAndClearSolutionAndBasis ext (model_status' h3) h3
             in (highsStatusFromHighsModelStatus ext (model_status' h4), h4)
           else (return_status, h2))"

section \<open>The elasticity filter\<close>

text \<open>
  \<^verbatim>\<open>Highs::elasticityFilter\<close> and \<^verbatim>\<open>Highs::elasticityFilterReturn\<close> call methods of
  \<^verbatim>\<open>Highs\<close> that are not part of the sources at hand: the solver \<^verbatim>\<open>run\<close>, the entry points
  \<^verbatim>\<open>deleteRows\<close>, \<^verbatim>\<open>deleteCols\<close>, \<^verbatim>\<open>changeColsCost\<close>, \<^verbatim>\<open>changeColsBounds\<close>,
  \<^verbatim>\<open>changeColBounds\<close>, \<^verbatim>\<open>changeColsIntegrality\<close>, \<^verbatim>\<open>addCols\<close>, \<^verbatim>\<open>addRows\<close>,
  \<^verbatim>\<open>passColName\<close>, \<^verbatim>\<open>passRowName\<close>, and \<^verbatim>\<open>std::to_string\<close>,
  \<^verbatim>\<open>HighsSparseMatrix::productQuad\<close>, \<^verbatim>\<open>getKktFailures\<close>. They are fields of the record
  of externals. The statuses that the entry points return are only looked at by
  assertions. \<^verbatim>\<open>v.data()\<close> of a vector is \<open>Some v\<close>. The times and iteration counts that
  \<^verbatim>\<open>solveLp\<close> gathers are not part of the state kept here.
\<close>

record 'm filter_externals = "'m lp_externals" +
  run :: "'m Highs \<Rightarrow> HighsStatus \<times> 'm Highs"
  deleteRows :: "int \<Rightarrow> int \<Rightarrow> 'm Highs \<Rightarrow> HighsStatus \<times> 'm Highs"
  deleteCols :: "int \<Rightarrow> int \<Rightarrow> 'm Highs \<Rightarrow> HighsStatus \<times> 'm Highs"
  changeColsCost :: "int \<Rightarrow> int \<Rightarrow> double ptr \<Rightarrow> 'm Highs \<Rightarrow> HighsStatus \<times> 'm Highs"
  changeColsBounds ::
    "int \<Rightarrow> int \<Rightarrow> double ptr \<Rightarrow> double ptr \<Rightarrow> 'm Highs \<Rightarrow> HighsStatus \<times> 'm Highs"
  changeColBounds :: "int \<Rightarrow> double \<Rightarrow> double \<Rightarrow> 'm Highs \<Rightarrow> HighsStatus \<times> 'm Highs"
  changeColsIntegrality ::
    "int \<Rightarrow> int \<Rightarrow> HighsVarType ptr \<Rightarrow> 'm Highs \<Rightarrow> HighsStatus \<times> 'm Highs"
  addCols ::
    "int \<Rightarrow> double ptr \<Rightarrow> double ptr \<Rightarrow> double ptr \<Rightarrow> int \<Rightarrow> int ptr \<Rightarrow> int ptr \<Rightarrow> double ptr
       \<Rightarrow> 'm Highs \<Rightarrow> HighsStatus \<times> 'm Highs"
  addRows ::
    "int \<Rightarrow> double ptr \<Rightarrow> double ptr \<Rightarrow> int \<Rightarrow> int ptr \<Rightarrow> int ptr \<Rightarrow> double ptr
       \<Rightarrow> 'm Highs \<Rightarrow> HighsStatus \<times> 'm Highs"
  passColName :: "int \<Rightarrow> string \<Rightarrow> 'm Highs \<Rightarrow> 'm Highs"
  passRowName :: "int \<Rightarrow> string \<Rightarrow> 'm Highs \<Rightarrow> 'm Highs"
  to_string :: "int \<Rightarrow> string"
  productQuad :: "'m \<Rightarrow> double list \<Rightarrow> double list"
  getKktFailures :: "'m Highs \<Rightarrow> 'm Highs"

text \<open>The values that \<^verbatim>\<open>elasticityFilter\<close> copies at entry and hands to the return.\<close>

record original_model =
  original_num_col :: int
  original_num_row :: int
  original_col_cost :: "double list"
  original_col_lower :: "double list"
  original_col_upper :: "double list"
  original_integrality :: "HighsVarType list"

definition elasticityFilterReturn ::
  "('m, 'x) filter_externals_scheme \<Rightarrow> HighsStatus \<Rightarrow> bool \<Rightarrow> original_model \<Rightarrow> 'm Highs
     \<Rightarrow> HighsStatus \<times> 'm Highs" where
  "elasticityFilterReturn ext return_status feasible_model orig h0 =
     (let objective_value = objective_function_value (info' h0);
          h1 = snd (deleteRows ext (original_num_row orig) (num_row' (lp' h0) - 1) h0);
          h2 = snd (deleteCols ext (original_num_col orig) (num_col' (lp' h1) - 1) h1);
          h3 = h2\<lparr>basis' := (basis' h2)\<lparr>valid := False\<rparr>\<rparr>;
          h4 = snd (changeColsCost ext 0 (original_num_col orig - 1)
                      (Some (original_col_cost orig)) h3);
          h5 = snd (changeColsBounds ext 0 (original_num_col orig - 1)
                      (Some (original_col_lower orig)) (Some (original_col_upper orig)) h4);
          h6 = (if original_integrality orig \<noteq> []
                then snd (changeColsIntegrality ext 0 (original_num_col orig - 1)
                            (Some (original_integrality orig)) h5)
                else h5);
          h7 = (if return_status = kOk
                then
                  let g1 = h6\<lparr>solution' := (solution' h6)
                              \<lparr>row_value := productQuad ext (a_matrix' (lp' h6)) (col_value (solution' h6)),
                               value_valid := True\<rparr>\<rparr>;
                      g2 = g1\<lparr>info' := (info' g1)\<lparr>objective_function_value := objective_value\<rparr>\<rparr>;
                      g3 = getKktFailures ext g2
                  in g3\<lparr>info' := (info' g3)\<lparr>info_valid := True\<rparr>\<rparr>
                else h6);
          h8 = (if feasible_model then h7\<lparr>model_status' := kNotset\<rparr> else h7)
      in (return_status, h8))"

text \<open>The vectors that the loop over the columns accumulates.\<close>

record elastic_columns =
  col_lower_new :: "double list"
  col_upper_new :: "double list"
  erow_lower :: "double list"
  erow_upper :: "double list"
  erow_start :: "int list"
  erow_index :: "int list"
  erow_value :: "double list"
  erow_name :: "string list"
  col_of_ecol :: "int list"
  bound_of_col_of_ecol :: "double list"
  ecol_name :: "string list"
  ecol_cost :: "double list"
  evar_ix :: int

text \<open>A pointer used as a condition: it holds unless the pointer is null.\<close>

definition not_null :: "'a ptr \<Rightarrow> bool" where
  "not_null p = (p \<noteq> None)"

text \<open>The penalty of an entry: the local one if there is a local array, else the global one.\<close>

definition penalty_of :: "double ptr \<Rightarrow> double \<Rightarrow> int \<Rightarrow> double" where
  "penalty_of local_penalty global_penalty i =
     (case local_penalty of Some v \<Rightarrow> read_at v i | None \<Rightarrow> global_penalty)"

definition elastic_name :: "('m, 'x) filter_externals_scheme \<Rightarrow> string \<Rightarrow> int \<Rightarrow> string \<Rightarrow> string \<Rightarrow> string" where
  "elastic_name ext prefix i name suffix = prefix @ to_string ext i @ ''_'' @ name @ suffix"

definition elastic_column_step ::
  "('m, 'x) filter_externals_scheme \<Rightarrow> 'm HighsLp \<Rightarrow> double \<Rightarrow> double \<Rightarrow> double ptr \<Rightarrow> double ptr
     \<Rightarrow> bool \<Rightarrow> int \<Rightarrow> elastic_columns \<Rightarrow> elastic_columns" where
  "elastic_column_step ext lp global_lower_penalty global_upper_penalty local_lower_penalty
       local_upper_penalty has_col_names iCol st =
     (let lower = read_at (col_lower' lp) iCol;
          upper = read_at (col_upper' lp) iCol;
          st1 = st\<lparr>col_lower_new := col_lower_new st @ [lower],
                   col_upper_new := col_upper_new st @ [upper]\<rparr>
      in if dle lower (dneg kHighsInf) \<and> dle kHighsInf upper then st1
         else
           let lower_penalty = penalty_of local_lower_penalty global_lower_penalty iCol in
           if dlt lower_penalty (Fin 0) \<and> dle kHighsInf upper then st1
           else
             let upper_penalty = penalty_of local_upper_penalty global_upper_penalty iCol in
             if dle lower (dneg kHighsInf) \<and> dlt upper_penalty (Fin 0) then st1
             else
               let st2 = st1\<lparr>erow_lower := erow_lower st1 @ [lower],
                               erow_upper := erow_upper st1 @ [upper],
                               erow_name :=
                                 (if has_col_names
                                  then erow_name st1
                                         @ [elastic_name ext ''row_'' iCol (read_at (col_names' lp) iCol) ''_erow'']
                                  else erow_name st1),
                               erow_index := erow_index st1 @ [iCol],
                               erow_value := erow_value st1 @ [Fin 1]\<rparr>;
                   st3 = (if dlt (dneg kHighsInf) lower \<and> dle (Fin 0) lower_penalty
                          then st2\<lparr>col_of_ecol := col_of_ecol st2 @ [iCol],
                                   ecol_name :=
                                     (if has_col_names
                                      then ecol_name st2
                                             @ [elastic_name ext ''col_'' iCol (read_at (col_names' lp) iCol) ''_lower'']
                                      else ecol_name st2),
                                   bound_of_col_of_ecol := bound_of_col_of_ecol st2 @ [lower],
                                   col_lower_new := write_at (col_lower_new st2) iCol (dneg kHighsInf),
                                   erow_index := erow_index st2 @ [evar_ix st2],
                                   erow_value := erow_value st2 @ [Fin 1],
                                   ecol_cost := ecol_cost st2 @ [lower_penalty],
                                   evar_ix := evar_ix st2 + 1\<rparr>
                          else st2);
                   st4 = (if dlt upper kHighsInf \<and> dle (Fin 0) upper_penalty
                          then st3\<lparr>col_of_ecol := col_of_ecol st3 @ [iCol],
                                   ecol_name :=
                                     (if has_col_names
                                      then ecol_name st3
                                             @ [elastic_name ext ''col_'' iCol (read_at (col_names' lp) iCol) ''_upper'']
                                      else ecol_name st3),
                                   bound_of_col_of_ecol := bound_of_col_of_ecol st3 @ [upper],
                                   col_upper_new := write_at (col_upper_new st3) iCol kHighsInf,
                                   erow_index := erow_index st3 @ [evar_ix st3],
                                   erow_value := erow_value st3 @ [Fin (- 1)],
                                   ecol_cost := ecol_cost st3 @ [upper_penalty],
                                   evar_ix := evar_ix st3 + 1\<rparr>
                          else st3)
               in st4\<lparr>erow_start := erow_start st4 @ [int (length (erow_index st4))]\<rparr>)"

text \<open>Passing the names of the new columns or rows, one call for each.\<close>

definition pass_names ::
  "(int \<Rightarrow> string \<Rightarrow> 'm Highs \<Rightarrow> 'm Highs) \<Rightarrow> int \<Rightarrow> int \<Rightarrow> string list \<Rightarrow> 'm Highs \<Rightarrow> 'm Highs" where
  "pass_names pass offset num names h =
     fold (\<lambda>i g. pass (offset + i) (read_at names i) g) [0..num - 1] h"

text \<open>
  The block \<^verbatim>\<open>if (has_elastic_columns)\<close>: the result is the state, the columns of the
  elastic variables, the names left in \<^verbatim>\<open>ecol_name\<close> and \<^verbatim>\<open>evar_ix\<close>.
\<close>

definition add_elastic_columns ::
  "('m, 'x) filter_externals_scheme \<Rightarrow> double \<Rightarrow> double \<Rightarrow> double ptr \<Rightarrow> double ptr \<Rightarrow> int \<Rightarrow> int
     \<Rightarrow> 'm Highs \<Rightarrow> elastic_columns \<times> 'm Highs" where
  "add_elastic_columns ext global_lower_penalty global_upper_penalty local_lower_penalty
       local_upper_penalty num_row0 evar_ix0 h =
     (let lp = lp' h;
          col_ecol_offset = num_col' lp;
          has_col_names = (col_names' lp \<noteq> []);
          st = fold (elastic_column_step ext lp global_lower_penalty global_upper_penalty
                       local_lower_penalty local_upper_penalty has_col_names)
                 [0..num_col' lp - 1]
                 \<lparr>col_lower_new = [], col_upper_new = [], erow_lower = [], erow_upper = [],
                  erow_start = [0], erow_index = [], erow_value = [], erow_name = [],
                  col_of_ecol = [], bound_of_col_of_ecol = [], ecol_name = [], ecol_cost = [],
                  evar_ix = evar_ix0\<rparr>;
          num_new_col = int (length (col_of_ecol st));
          num_new_row = int (length (erow_start st)) - 1;
          num_new_nz = read_at (erow_start st) num_new_row;
          h1 = snd (changeColsBounds ext 0 (num_col' lp - 1) (Some (col_lower_new st))
                      (Some (col_upper_new st)) h);
          h2 = snd (addCols ext num_new_col (Some (ecol_cost st))
                      (Some (replicate (nat num_new_col) (Fin 0)))
                      (Some (replicate (nat num_new_col) kHighsInf)) 0 None None None h1);
          h3 = snd (addRows ext num_new_row (Some (erow_lower st)) (Some (erow_upper st))
                      num_new_nz (Some (erow_start st)) (Some (erow_index st))
                      (Some (erow_value st)) h2);
          h4 = (if has_col_names
                then pass_names (passRowName ext) num_row0 num_new_row (erow_name st)
                       (pass_names (passColName ext) col_ecol_offset num_new_col (ecol_name st) h3)
                else h3)
      in (st, h4))"

text \<open>The vectors that the loop over the rows accumulates.\<close>

record elastic_rows =
  row_of_ecol :: "int list"
  bound_of_row_of_ecol :: "double list"
  rcol_name :: "string list"
  rcol_cost :: "double list"
  rcol_start :: "int list"
  rcol_index :: "int list"
  rcol_value :: "double list"
  revar_ix :: int

definition elastic_row_step ::
  "('m, 'x) filter_externals_scheme \<Rightarrow> 'm HighsLp \<Rightarrow> double \<Rightarrow> double ptr \<Rightarrow> bool \<Rightarrow> int
     \<Rightarrow> elastic_rows \<Rightarrow> elastic_rows" where
  "elastic_row_step ext lp global_rhs_penalty local_rhs_penalty has_row_names iRow st =
     (let penalty = penalty_of local_rhs_penalty global_rhs_penalty iRow in
      if dlt penalty (Fin 0) then st
      else
        let lower = read_at (row_lower' lp) iRow;
            upper = read_at (row_upper' lp) iRow;
            st1 = (if dlt (dneg kHighsInf) lower
                   then st\<lparr>row_of_ecol := row_of_ecol st @ [iRow],
                           rcol_name :=
                             (if has_row_names
                              then rcol_name st
                                     @ [elastic_name ext ''row_'' iRow (read_at (row_names' lp) iRow) ''_lower'']
                              else rcol_name st),
                           bound_of_row_of_ecol := bound_of_row_of_ecol st @ [lower],
                           rcol_index := rcol_index st @ [iRow],
                           rcol_value := rcol_value st @ [Fin 1],
                           rcol_start := rcol_start st @ [int (length (rcol_index st)) + 1],
                           rcol_cost := rcol_cost st @ [penalty],
                           revar_ix := revar_ix st + 1\<rparr>
                   else st)
        in if dlt upper kHighsInf
           then st1\<lparr>row_of_ecol := row_of_ecol st1 @ [iRow],
                    rcol_name :=
                      (if has_row_names
                       then rcol_name st1
                              @ [elastic_name ext ''row_'' iRow (read_at (row_names' lp) iRow) ''_upper'']
                       else rcol_name st1),
                    bound_of_row_of_ecol := bound_of_row_of_ecol st1 @ [upper],
                    rcol_index := rcol_index st1 @ [iRow],
                    rcol_value := rcol_value st1 @ [Fin (- 1)],
                    rcol_start := rcol_start st1 @ [int (length (rcol_index st1)) + 1],
                    rcol_cost := rcol_cost st1 @ [penalty],
                    revar_ix := revar_ix st1 + 1\<rparr>
           else st1)"

text \<open>The block \<^verbatim>\<open>if (has_elastic_rows)\<close>.\<close>

definition add_elastic_rows ::
  "('m, 'x) filter_externals_scheme \<Rightarrow> double \<Rightarrow> double ptr \<Rightarrow> int \<Rightarrow> int \<Rightarrow> 'm Highs
     \<Rightarrow> elastic_rows \<times> 'm Highs" where
  "add_elastic_rows ext global_rhs_penalty local_rhs_penalty num_row0 evar_ix0 h =
     (let lp = lp' h;
          row_ecol_offset = num_col' lp;
          has_row_names = (row_names' lp \<noteq> []);
          st = fold (elastic_row_step ext lp global_rhs_penalty local_rhs_penalty has_row_names)
                 [0..num_row0 - 1]
                 \<lparr>row_of_ecol = [], bound_of_row_of_ecol = [], rcol_name = [], rcol_cost = [],
                  rcol_start = [0], rcol_index = [], rcol_value = [], revar_ix = evar_ix0\<rparr>;
          num_new_col = int (length (rcol_start st)) - 1;
          num_new_nz = read_at (rcol_start st) num_new_col;
          h1 = snd (addCols ext num_new_col (Some (rcol_cost st))
                      (Some (replicate (nat num_new_col) (Fin 0)))
                      (Some (replicate (nat num_new_col) kHighsInf)) num_new_nz
                      (Some (rcol_start st)) (Some (rcol_index st)) (Some (rcol_value st)) h);
          h2 = (if has_row_names
                then pass_names (passColName ext) row_ecol_offset num_new_col (rcol_name st) h1
                else h1)
      in (st, h2))"

text \<open>
  Fixing at zero the elastic variables of one block whose value is above the primal
  feasibility tolerance: \<open>hn\<close> is the state with \<^verbatim>\<open>num_fixed\<close>.
\<close>

definition fix_positive ::
  "('m, 'x) filter_externals_scheme \<Rightarrow> int \<Rightarrow> int \<Rightarrow> 'm Highs \<times> int \<Rightarrow> 'm Highs \<times> int" where
  "fix_positive ext offset eCol hn =
     (let h = fst hn in
      if dlt (primal_feasibility_tolerance (options' h))
             (read_at (col_value (solution' h)) (offset + eCol))
      then (snd (changeColBounds ext (offset + eCol) (Fin 0) (Fin 0) h), snd hn + 1)
      else hn)"

text \<open>
  The loop \<^verbatim>\<open>for (;;)\<close>, with fuel: \<open>None\<close> when the fuel runs out, \<open>Inl\<close> for the return
  from within the loop after a solve that fails, \<open>Inr\<close> for a \<^verbatim>\<open>break\<close>, with
  \<^verbatim>\<open>feasible_model\<close>.
\<close>

fun filter_loop ::
  "nat \<Rightarrow> ('m, 'x) filter_externals_scheme \<Rightarrow> bool \<Rightarrow> bool \<Rightarrow> int \<Rightarrow> int \<Rightarrow> int \<Rightarrow> int
     \<Rightarrow> 'm Highs \<Rightarrow> ((HighsStatus \<times> 'm Highs) + ('m Highs \<times> bool)) option" where
  "filter_loop 0 ext has_elastic_columns has_elastic_rows col_ecol_offset num_col_ecol
       row_ecol_offset num_row_ecol h = None"
| "filter_loop (Suc fuel) ext has_elastic_columns has_elastic_rows col_ecol_offset num_col_ecol
       row_ecol_offset num_row_ecol h =
     (let hn1 = (if has_elastic_columns
                 then fold (fix_positive ext col_ecol_offset) [0..num_col_ecol - 1] (h, 0)
                 else (h, 0));
          hn2 = (if has_elastic_rows
                 then fold (fix_positive ext row_ecol_offset) [0..num_row_ecol - 1] hn1
                 else hn1)
      in if snd hn2 = 0 then Some (Inr (fst hn2, True))
         else
           let (run_status, h3) = run ext (fst hn2) in
           if run_status \<noteq> kOk then Some (Inl (run_status, h3))
           else if model_status' h3 = kInfeasible then Some (Inr (h3, False))
           else filter_loop fuel ext has_elastic_columns has_elastic_rows col_ecol_offset
                  num_col_ecol row_ecol_offset num_row_ecol h3)"

text \<open>
  \<^verbatim>\<open>infeasible_row_subset\<close> is a reference parameter: \<open>subset0\<close> is what it holds at the
  call, and it comes back with the status and the state.
\<close>

definition elasticityFilter ::
  "nat \<Rightarrow> ('m, 'x) filter_externals_scheme \<Rightarrow> double \<Rightarrow> double \<Rightarrow> double \<Rightarrow> double ptr \<Rightarrow> double ptr
     \<Rightarrow> double ptr \<Rightarrow> bool \<Rightarrow> int list \<Rightarrow> 'm Highs \<Rightarrow> (HighsStatus \<times> int list \<times> 'm Highs) option" where
  "elasticityFilter fuel ext global_lower_penalty global_upper_penalty global_rhs_penalty
       local_lower_penalty local_upper_penalty local_rhs_penalty get_infeasible_row subset0 h0 =
     (let lp0 = lp' h0;
          orig = \<lparr>original_num_col = num_col' lp0, original_num_row = num_row' lp0,
                  original_col_cost = col_cost' lp0, original_col_lower = col_lower' lp0,
                  original_col_upper = col_upper' lp0, original_integrality = integrality' lp0\<rparr>;
          h1 = snd (changeColsCost ext 0 (num_col' lp0 - 1)
                      (Some (replicate (nat (original_num_col orig)) (Fin 0))) h0);
          h2 = (if get_infeasible_row \<and> integrality' (lp' h1) \<noteq> []
                then snd (changeColsIntegrality ext 0 (num_col' (lp' h1) - 1)
                            (Some (replicate (nat (original_num_col orig)) kContinuous)) h1)
                else h1);
          has_elastic_columns =
            (not_null local_lower_penalty \<or> dle (Fin 0) global_lower_penalty
             \<or> not_null local_upper_penalty \<or> dle (Fin 0) global_upper_penalty);
          has_elastic_rows = (not_null local_rhs_penalty \<or> dle (Fin 0) global_rhs_penalty);
          col_ecol_offset = num_col' (lp' h2);
          (cols, h3) =
            (if has_elastic_columns
             then (\<lambda>(st, g). (Some st, g))
                    (add_elastic_columns ext global_lower_penalty global_upper_penalty
                       local_lower_penalty local_upper_penalty (original_num_row orig)
                       (num_col' lp0) h2)
             else (None, h2));
          num_col_ecol = (case cols of Some st \<Rightarrow> int (length (col_of_ecol st)) | None \<Rightarrow> 0);
          row_ecol_offset = num_col' (lp' h3);
          (rows, h4) =
            (if has_elastic_rows
             then (\<lambda>(st, g). (Some st, g))
                    (add_elastic_rows ext global_rhs_penalty local_rhs_penalty
                       (original_num_row orig)
                       (case cols of Some st \<Rightarrow> evar_ix st | None \<Rightarrow> num_col' lp0) h3)
             else (None, h3));
          rows_of_ecol = (case rows of Some st \<Rightarrow> row_of_ecol st | None \<Rightarrow> []);
          (run_status, h5) = run ext h4
      in if run_status \<noteq> kOk
         then (\<lambda>(s, g). Some (s, subset0, g)) (elasticityFilterReturn ext run_status False orig h5)
         else if \<not> get_infeasible_row
         then (\<lambda>(s, g). Some (s, subset0, g)) (elasticityFilterReturn ext kOk False orig h5)
         else
           (case filter_loop fuel ext has_elastic_columns has_elastic_rows col_ecol_offset
                   num_col_ecol row_ecol_offset (int (length rows_of_ecol)) h5 of
              None \<Rightarrow> None
            | Some (Inl (loop_status, h6)) \<Rightarrow>
                (\<lambda>(s, g). Some (s, subset0, g))
                  (elasticityFilterReturn ext loop_status False orig h6)
            | Some (Inr (h6, feasible_model)) \<Rightarrow>
                let subset =
                      (if has_elastic_rows
                       then map (read_at rows_of_ecol)
                              (filter (\<lambda>eCol. deq (read_at (col_upper' (lp' h6)) (row_ecol_offset + eCol)) (Fin 0))
                                 [0..int (length rows_of_ecol) - 1])
                       else [])
                in (\<lambda>(s, g). Some (s, subset, g))
                     (elasticityFilterReturn ext kOk feasible_model orig h6)))"

section \<open>A small model for the worked examples\<close>

text \<open>
  The matrix seen through its storage format only, and the absent functions at their
  simplest: \<^verbatim>\<open>ensureColwise\<close> brings the matrix to column-wise storage, scaling and
  coefficient changes leave the rest of the LP alone, and \<^verbatim>\<open>updateStatus\<close> keeps the
  simplex basis.
\<close>

definition example_scaling_externals :: "MatrixFormat scaling_externals" where
  "example_scaling_externals =
     \<lparr>ensureColwise = (\<lambda>_. kColwise),
      applyScalingToLpCol = (\<lambda>lp col v. (kOk, lp)),
      applyScalingToLpRow = (\<lambda>lp row v. (kOk, lp)),
      changeLpMatrixCoefficient = (\<lambda>lp row col v zero. lp),
      updateStatus = (\<lambda>action ekk. ekk)\<rparr>"

text \<open>
  Two columns and one row: minimise \<open>x + 2 y\<close> subject to \<open>x + y \<le> 4\<close>,
  \<open>0 \<le> x\<close>, \<open>0 \<le> y \<le> 4\<close>, held row-wise.
\<close>

definition example_lp :: "MatrixFormat HighsLp" where
  "example_lp =
     \<lparr>num_col' = 2, num_row' = 1,
      col_cost' = [Fin 1, Fin 2], col_lower' = [Fin 0, Fin 0], col_upper' = [PInf, Fin 4],
      row_lower' = [MInf], row_upper' = [Fin 4],
      a_matrix' = kRowwise, sense' = kMinimize, integrality' = [],
      col_names' = [], row_names' = [],
      scale' = \<lparr>has_scaling = False, scale_num_col = 0, scale_num_row = 0,
                 scale_col = [], scale_row = []\<rparr>,
      user_bound_scale' = 0, user_cost_scale' = 0, has_infinite_cost' = False,
      mods' = \<lparr>save_inf_cost_variable_index = [], save_inf_cost_variable_cost = [],
                save_inf_cost_variable_lower = [], save_inf_cost_variable_upper = []\<rparr>\<rparr>"

definition example_info :: "double HighsInfo" where
  "example_info =
     \<lparr>info_valid = True, objective_function_value = Fin 0,
      primal_solution_status = kSolutionStatusFeasible,
      dual_solution_status = kSolutionStatusFeasible,
      num_primal_infeasibilities = 0, max_primal_infeasibility = Fin 0,
      sum_primal_infeasibilities = Fin 0,
      num_dual_infeasibilities = 0, max_dual_infeasibility = Fin 0,
      sum_dual_infeasibilities = Fin 0,
      num_relative_primal_infeasibilities = 0, max_relative_primal_infeasibility = Fin 0,
      num_relative_dual_infeasibilities = 0, max_relative_dual_infeasibility = Fin 0,
      num_primal_residual_errors = 0,
      num_relative_primal_residual_errors = 0, max_relative_primal_residual_error = Fin 0,
      num_relative_dual_residual_errors = 0, max_relative_dual_residual_error = Fin 0,
      num_complementarity_violations = 0, primal_dual_objective_error = Fin 0\<rparr>"

definition example_options :: "double HighsOptions" where
  "example_options =
     \<lparr>primal_feasibility_tolerance = Fin (1 / 10000000),
      dual_feasibility_tolerance = Fin (1 / 10000000),
      primal_residual_tolerance = Fin (1 / 10000000),
      dual_residual_tolerance = Fin (1 / 10000000),
      optimality_tolerance = Fin (1 / 10000000),
      kkt_tolerance = Fin (1 / 10000000),
      infinite_bound = Fin 100000000000000000000,
      infinite_cost = Fin 100000000000000000000,
      small_matrix_value = Fin (1 / 1000000000),
      large_matrix_value = Fin 1000000000000000,
      user_bound_scale = 0, user_cost_scale = 0\<rparr>"

text \<open>Solved to optimality at \<open>x = y = 0\<close>: both columns at their lower bound, the row basic.\<close>

definition example_highs :: "MatrixFormat Highs" where
  "example_highs =
     \<lparr>lp' = example_lp,
      basis' = \<lparr>valid = True, alien = False, was_alien = False, useful = True,
                 col_status = [kLower, kLower], row_status = [kBasic]\<rparr>,
      solution' = \<lparr>value_valid = True, dual_valid = True,
                    col_value = [Fin 0, Fin 0], row_value = [Fin 0],
                    col_dual = [Fin 1, Fin 2], row_dual = [Fin 0]\<rparr>,
      info' = example_info,
      model_status' = kOptimal,
      options' = example_options,
      ekk_instance' =
        \<lparr>status' = \<lparr>initialised_for_solve = True, has_basis = True, has_invert = True\<rparr>,
         simplex_basis' = \<lparr>basicIndex' = [2], nonbasicFlag' = [1, 1, 0],
                            nonbasicMove' = [1, 1, 0]\<rparr>\<rparr>\<rparr>"

text \<open>
  The further absent functions at their simplest, for interval collections: the
  assessments accept the data as they are, the scale checks refuse a finite value that the
  scaling takes to the threshold or beyond, the LP functions overwrite, append or delete
  the entries of the interval, and the matrix and the engine are left alone.
\<close>

definition overwrite :: "'a list \<Rightarrow> int \<Rightarrow> 'a list \<Rightarrow> 'a list" where
  "overwrite v lo new = take (nat lo) v @ new @ drop (nat lo + length new) v"

definition delete_interval :: "'a list \<Rightarrow> int \<Rightarrow> int \<Rightarrow> 'a list" where
  "delete_interval v lo hi = (if lo \<le> hi then take (nat lo) v @ drop (nat (hi + 1)) v else v)"

definition scaled_within :: "int \<Rightarrow> double \<Rightarrow> double \<Rightarrow> bool" where
  "scaled_within exponent threshold x =
     (x = MInf \<or> x = PInf \<or> dlt (dabs (dmul x (pow2 exponent))) threshold)"

definition example_lp_externals :: "MatrixFormat lp_externals" where
  "example_lp_externals =
     \<lparr>ensureColwise = (\<lambda>_. kColwise),
      applyScalingToLpCol = (\<lambda>lp col v. (kOk, lp)),
      applyScalingToLpRow = (\<lambda>lp row v. (kOk, lp)),
      changeLpMatrixCoefficient = (\<lambda>lp row col v zero. lp),
      updateStatus = (\<lambda>action ekk. ekk),
      dataSize = (\<lambda>ic. to' ic - from' ic + 1),
      limits = (\<lambda>ic. (from' ic, to' ic)),
      updateOutInIndex = (\<lambda>ic in_to cur. (from' ic, to' ic, to' ic + 1, dimension' ic - 1, cur)),
      assessCosts = (\<lambda>opt offset ic cost threshold.
         (kOk, cost, list_ex (\<lambda>c. \<not> (dlt (dneg threshold) c \<and> dlt c threshold)) cost)),
      assessBounds = (\<lambda>opt offset ic lower upper threshold. (kOk, lower, upper)),
      boundScaleOk = (\<lambda>lower upper exponent threshold.
         list_all (scaled_within exponent threshold) (lower @ upper)),
      costScaleOk = (\<lambda>cost exponent threshold. list_all (scaled_within exponent threshold) cost),
      appendColsToLpVectors = (\<lambda>lp n cost lower upper.
         lp\<lparr>col_cost' := col_cost' lp @ cost, col_lower' := col_lower' lp @ lower,
            col_upper' := col_upper' lp @ upper\<rparr>),
      appendRowsToLpVectors = (\<lambda>lp n lower upper.
         lp\<lparr>row_lower' := row_lower' lp @ lower, row_upper' := row_upper' lp @ upper\<rparr>),
      changeLpCosts = (\<lambda>lp ic cost threshold. lp\<lparr>col_cost' := overwrite (col_cost' lp) (from' ic) cost\<rparr>),
      changeLpColBounds = (\<lambda>lp ic lower upper.
         lp\<lparr>col_lower' := overwrite (col_lower' lp) (from' ic) lower,
            col_upper' := overwrite (col_upper' lp) (from' ic) upper\<rparr>),
      changeLpRowBounds = (\<lambda>lp ic lower upper.
         lp\<lparr>row_lower' := overwrite (row_lower' lp) (from' ic) lower,
            row_upper' := overwrite (row_upper' lp) (from' ic) upper\<rparr>),
      changeLpIntegrality = (\<lambda>lp ic integrality.
         lp\<lparr>integrality' := overwrite (integrality' lp) (from' ic) integrality\<rparr>),
      sortSetData = (\<lambda>ic lower upper. (ic, lower, upper)),
      matrix_assess = (\<lambda>opt m. (kOk, m)),
      matrix_addCols = (\<lambda>a m. a),
      matrix_addRows = (\<lambda>a m. a),
      applyRowScale = (\<lambda>sc m. m),
      applyColScale = (\<lambda>sc m. m),
      considerColScaling = (\<lambda>opt m factors. (m, factors)),
      considerRowScaling = (\<lambda>opt m factors. (m, factors)),
      addColNames = (\<lambda>lp n. lp),
      addRowNames = (\<lambda>lp n. lp),
      isMip = (\<lambda>lp. list_ex (\<lambda>t. t \<noteq> kContinuous) (integrality' lp)),
      userBoundScaleOk = (\<lambda>lp exponent threshold.
         list_all (scaled_within (exponent - user_bound_scale' lp) threshold)
           (col_lower' lp @ col_upper' lp @ row_lower' lp @ row_upper' lp)),
      userBoundScale = (\<lambda>lp exponent.
         lp\<lparr>col_lower' := scale_by (exponent - user_bound_scale' lp) (col_lower' lp),
            col_upper' := scale_by (exponent - user_bound_scale' lp) (col_upper' lp),
            row_lower' := scale_by (exponent - user_bound_scale' lp) (row_lower' lp),
            row_upper' := scale_by (exponent - user_bound_scale' lp) (row_upper' lp),
            user_bound_scale' := exponent\<rparr>),
      userCostScaleOk = (\<lambda>lp exponent small large threshold.
         list_all (scaled_within (exponent - user_cost_scale' lp) threshold) (col_cost' lp)),
      userCostScale = (\<lambda>lp exponent.
         lp\<lparr>col_cost' := scale_by (exponent - user_cost_scale' lp) (col_cost' lp),
            user_cost_scale' := exponent\<rparr>),
      lp_deleteCols = (\<lambda>lp ic.
         lp\<lparr>col_cost' := delete_interval (col_cost' lp) (from' ic) (to' ic),
            col_lower' := delete_interval (col_lower' lp) (from' ic) (to' ic),
            col_upper' := delete_interval (col_upper' lp) (from' ic) (to' ic),
            num_col' := (if from' ic \<le> to' ic then num_col' lp - (to' ic - from' ic + 1) else num_col' lp)\<rparr>),
      lp_deleteRows = (\<lambda>lp ic.
         lp\<lparr>row_lower' := delete_interval (row_lower' lp) (from' ic) (to' ic),
            row_upper' := delete_interval (row_upper' lp) (from' ic) (to' ic),
            num_row' := (if from' ic \<le> to' ic then num_row' lp - (to' ic - from' ic + 1) else num_row' lp)\<rparr>),
      deleteScale = (\<lambda>v ic. delete_interval v (from' ic) (to' ic)),
      ekk_addCols = (\<lambda>lp m ekk. ekk),
      ekk_addRows = (\<lambda>lp m ekk. ekk),
      ekk_deleteCols = (\<lambda>ic ekk. ekk),
      ekk_deleteRows = (\<lambda>ic ekk. ekk)\<rparr>"

text \<open>
  An instance of the further externals, and a model with an integer column of infinite
  cost whose bounds are fractional.
\<close>

definition example_solve_externals :: "MatrixFormat solve_externals" where
  "example_solve_externals =
     lp_externals.extend example_lp_externals
       (solve_externals.fields
          (\<lambda>status h. h\<lparr>model_status' := status,
                          solution' := (solution' h)\<lparr>value_valid := False, dual_valid := False\<rparr>,
                          basis' := (basis' h)\<lparr>valid := False\<rparr>\<rparr>)
          (\<lambda>status. if status = kUnknown then kWarning else kOk))"

definition example_mip :: "MatrixFormat Highs" where
  "example_mip =
     example_highs\<lparr>lp' := example_lp\<lparr>col_cost' := [PInf, Fin 2],
                                       col_lower' := [Fin (1 / 2), Fin 0],
                                       col_upper' := [Fin (7 / 2), Fin 4],
                                       integrality' := [kInteger, kContinuous],
                                       has_infinite_cost' := True\<rparr>\<rparr>"

text \<open>
  An instance of the externals of the elasticity filter. The entry points build the
  interval collection and call the interface functions; the solver reports the zero
  point as optimal; names are passed by writing them into the LP, numbers are printed in
  unary; the row activities at the zero point are zero.
\<close>

definition example_run :: "MatrixFormat Highs \<Rightarrow> HighsStatus \<times> MatrixFormat Highs" where
  "example_run h =
     (kOk, h\<lparr>model_status' := kOptimal,
             solution' := \<lparr>value_valid = True, dual_valid = True,
                           col_value = replicate (nat (num_col' (lp' h))) (Fin 0),
                           row_value = replicate (nat (num_row' (lp' h))) (Fin 0),
                           col_dual = replicate (nat (num_col' (lp' h))) (Fin 0),
                           row_dual = replicate (nat (num_row' (lp' h))) (Fin 0)\<rparr>\<rparr>)"

definition example_filter_externals :: "MatrixFormat filter_externals" where
  "example_filter_externals =
     lp_externals.extend example_lp_externals
       (filter_externals.fields
          example_run
          (\<lambda>lo hi h. (kOk, snd (deleteRowsInterface example_lp_externals (False, False)
                                   (interval_collection (num_row' (lp' h)) lo hi) h)))
          (\<lambda>lo hi h. (kOk, snd (deleteColsInterface example_lp_externals (False, False)
                                   (interval_collection (num_col' (lp' h)) lo hi) h)))
          (\<lambda>lo hi cost h. changeCostsInterface example_lp_externals
                             (interval_collection (num_col' (lp' h)) lo hi) cost h)
          (\<lambda>lo hi lower upper h. changeColBoundsInterface example_lp_externals
                                    (interval_collection (num_col' (lp' h)) lo hi) lower upper h)
          (\<lambda>col lower upper h. changeColBoundsInterface example_lp_externals
                                  (interval_collection (num_col' (lp' h)) col col)
                                  (Some [lower]) (Some [upper]) h)
          (\<lambda>lo hi integrality h. changeIntegralityInterface example_lp_externals
                                    (interval_collection (num_col' (lp' h)) lo hi) integrality h)
          (addColsInterface example_lp_externals)
          (addRowsInterface example_lp_externals)
          (\<lambda>col name h. h\<lparr>lp' := (lp' h)\<lparr>col_names' := write_at (col_names' (lp' h)) col name\<rparr>\<rparr>)
          (\<lambda>row name h. h\<lparr>lp' := (lp' h)\<lparr>row_names' := write_at (row_names' (lp' h)) row name\<rparr>\<rparr>)
          (\<lambda>i. replicate (nat i) (CHR ''|''))
          (\<lambda>matrix x. [Fin 0])
          (\<lambda>h. h))"

text \<open>The example model with a user cost scale of \<open>1\<close>: its costs are stored scaled.\<close>

definition example_cost_scaled :: "MatrixFormat Highs" where
  "example_cost_scaled =
     example_highs\<lparr>lp' := example_lp\<lparr>user_cost_scale' := 1\<rparr>,
                   options' := example_options\<lparr>user_cost_scale := 1\<rparr>\<rparr>"

text \<open>
  The states that the filter goes through on this model with the penalties \<open>-1, -1, 1\<close>:
  with the costs set to zero, and with the elastic variable of the upper bound of the
  row added as a third column.
\<close>

definition example_zero_costs :: "MatrixFormat Highs" where
  "example_zero_costs =
     example_cost_scaled
       \<lparr>lp' := example_lp\<lparr>user_cost_scale' := 1, col_cost' := [Fin 0, Fin 0]\<rparr>,
        model_status' := kNotset,
        solution' := (solution' example_highs)\<lparr>value_valid := False, dual_valid := False\<rparr>,
        info' := example_info\<lparr>info_valid := False\<rparr>\<rparr>"

definition example_elastic :: "MatrixFormat Highs" where
  "example_elastic =
     example_zero_costs
       \<lparr>lp' := example_lp\<lparr>user_cost_scale' := 1, num_col' := 3,
                            col_cost' := [Fin 0, Fin 0, Fin 2],
                            col_lower' := [Fin 0, Fin 0, Fin 0],
                            col_upper' := [PInf, Fin 4, PInf]\<rparr>,
        basis' := (basis' example_highs)\<lparr>col_status := [kLower, kLower, kLower]\<rparr>,
        ekk_instance' := (ekk_instance' example_highs)
          \<lparr>simplex_basis' := \<lparr>basicIndex' = [3], nonbasicFlag' = [1, 1, 1, 0],
                                 nonbasicMove' = [1, 1, 1, 0]\<rparr>\<rparr>\<rparr>"

text \<open>The elastic LP solved, and the state that the filter returns.\<close>

definition example_solved :: "MatrixFormat Highs" where
  "example_solved =
     example_elastic
       \<lparr>model_status' := kOptimal,
        solution' := \<lparr>value_valid = True, dual_valid = True,
                      col_value = [Fin 0, Fin 0, Fin 0], row_value = [Fin 0],
                      col_dual = [Fin 0, Fin 0, Fin 0], row_dual = [Fin 0]\<rparr>\<rparr>"

definition example_returned :: "MatrixFormat Highs" where
  "example_returned =
     example_solved
       \<lparr>lp' := example_lp\<lparr>user_cost_scale' := 1, col_cost' := [Fin 2, Fin 4],
                            a_matrix' := kColwise\<rparr>,
        basis' := (basis' example_highs)\<lparr>valid := False\<rparr>,
        solution' := (solution' example_solved)\<lparr>dual_valid := False\<rparr>,
        info' := example_info,
        model_status' := kNotset\<rparr>"

section \<open>Proofs: the KKT gate\<close>

text \<open>Among doubles that are not \<^verbatim>\<open>NaN\<close>, \<^verbatim>\<open>std::max\<close> is the maximum of a linear order.\<close>

lemma dlt_dmax:
  assumes "a \<noteq> NaN" "b \<noteq> NaN"
  shows "dlt c (dmax a b) = (dlt c a \<or> dlt c b)"
  using assms by (cases a; cases b; cases c) (auto simp: dmax_def)

lemma dmax_number:
  assumes "a \<noteq> NaN" "b \<noteq> NaN"
  shows "dmax a b \<noteq> NaN"
  using assms by (simp add: dmax_def)

lemma dle_not_dlt:
  assumes "a \<noteq> NaN"
  shows "dle a (Fin c) = (\<not> dlt (Fin c) a)"
  using assms by (cases a) (auto simp: dle_def deq_def)

lemma fst_kkt_with_basis:
  "fst (kkt_with_basis q tol i) =
     (let mp0 = (if num_primal_infeasibilities i > 0
                 then dmax (q (max_primal_infeasibility i) (primal_feasibility_tolerance tol)) (Fin 0)
                 else Fin 0);
          md0 = (if num_dual_infeasibilities i > 0
                 then dmax (q (max_dual_infeasibility i) (dual_feasibility_tolerance tol)) (Fin 0)
                 else Fin 0);
          have_residual_errors = (num_primal_residual_errors i \<noteq> kHighsIllegalResidualCount)
      in (if have_residual_errors
          then dmax (q (max_relative_primal_residual_error i) (primal_residual_tolerance tol)) mp0
          else mp0,
          if have_residual_errors
          then dmax (q (max_relative_dual_residual_error i) (dual_residual_tolerance tol)) md0
          else md0,
          q (primal_dual_objective_error i) (optimality_tolerance tol)))"
  by (simp add: kkt_with_basis_def Let_def)

lemma fst_kkt_without_basis:
  "fst (kkt_without_basis q tol i) =
     (dmax (q (max_relative_primal_residual_error i) (primal_residual_tolerance tol))
        (dmax (q (max_relative_primal_infeasibility i) (primal_feasibility_tolerance tol)) (Fin 0)),
      dmax (q (max_relative_dual_residual_error i) (dual_residual_tolerance tol))
        (dmax (q (max_relative_dual_infeasibility i) (dual_feasibility_tolerance tol)) (Fin 0)),
      if dlt (optimality_tolerance tol) (primal_dual_objective_error i)
      then q (primal_dual_objective_error i) (optimality_tolerance tol) else Fin 0)"
  by (simp add: kkt_without_basis_def Let_def)

text \<open>
  The chained \<^verbatim>\<open>std::max\<close> of either branch exceeds the margin exactly when one of the
  ratios does, and is not \<^verbatim>\<open>NaN\<close>.
\<close>

lemma kkt_with_basis_max:
  assumes "list_all (\<lambda>r. r \<noteq> NaN) (violation_ratios q True tol i)"
  shows "(case fst (kkt_with_basis q tol i) of (mp, md, pd) \<Rightarrow>
            dlt (Fin 100) (dmax md (dmax mp pd)) = list_ex (\<lambda>r. dlt (Fin 100) r) (violation_ratios q True tol i)
            \<and> dmax md (dmax mp pd) \<noteq> NaN)"
  using assms unfolding fst_kkt_with_basis
  by (auto simp: violation_ratios_def Let_def dlt_dmax dmax_number)

lemma kkt_without_basis_max:
  assumes "list_all (\<lambda>r. r \<noteq> NaN) (violation_ratios q False tol i)"
  shows "(case fst (kkt_without_basis q tol i) of (mp, md, pd) \<Rightarrow>
            dlt (Fin 100) (dmax md (dmax mp pd)) = list_ex (\<lambda>r. dlt (Fin 100) r) (violation_ratios q False tol i)
            \<and> dmax md (dmax mp pd) \<noteq> NaN)"
  using assms unfolding fst_kkt_without_basis
  by (auto simp: violation_ratios_def dlt_dmax dmax_number)

lemma lpKktCheck_model_status:
  assumes "solution_value_valid s" "ratios_are_numbers q d s (k s)"
  shows "model_status (snd (lpKktCheck q d k s)) =
     (let status1 =
              (if model_status s = kUnboundedOrInfeasible \<and> num_primal_infeasibilities (k s) = 0
                  \<and> (basis_valid s \<or> num_primal_residual_errors (k s) = 0)
               then kUnbounded else model_status s)
      in if status1 = kOptimal then (if exceeds_margin q d s (k s) then kUnknown else kOptimal)
         else if status1 = kUnknown \<and> \<not> exceeds_margin q d s (k s) then kOptimal
         else status1)"
proof (cases "basis_valid s")
  case True
  obtain mp md pd i' where r: "kkt_with_basis q (effective_tolerances d (options s)) (k s) = ((mp, md, pd), i')"
    by (metis prod_cases3 surj_pair)
  from assms(2) True
  have "list_all (\<lambda>r. r \<noteq> NaN) (violation_ratios q True (effective_tolerances d (options s)) (k s))"
    by (simp add: ratios_are_numbers_def state_ratios_def)
  from kkt_with_basis_max[OF this] r True
  have m: "dlt (Fin 100) (dmax md (dmax mp pd)) = exceeds_margin q d s (k s)"
    and n: "dmax md (dmax mp pd) \<noteq> NaN"
    by (simp_all add: exceeds_margin_def state_ratios_def)
  from dle_not_dlt[OF n, of 100] m
  have l: "dle (dmax md (dmax mp pd)) (Fin 100) = (\<not> exceeds_margin q d s (k s))" by simp
  show ?thesis using assms(1) True r m l
    by (simp add: lpKktCheck_def Let_def max_allowed_tolerance_relative_violation_def)
next
  case False
  obtain mp md pd i' where r: "kkt_without_basis q (effective_tolerances d (options s)) (k s) = ((mp, md, pd), i')"
    by (metis prod_cases3 surj_pair)
  from assms(2) False
  have "list_all (\<lambda>r. r \<noteq> NaN) (violation_ratios q False (effective_tolerances d (options s)) (k s))"
    by (simp add: ratios_are_numbers_def state_ratios_def)
  from kkt_without_basis_max[OF this] r False
  have m: "dlt (Fin 100) (dmax md (dmax mp pd)) = exceeds_margin q d s (k s)"
    and n: "dmax md (dmax mp pd) \<noteq> NaN"
    by (simp_all add: exceeds_margin_def state_ratios_def)
  from dle_not_dlt[OF n, of 100] m
  have l: "dle (dmax md (dmax mp pd)) (Fin 100) = (\<not> exceeds_margin q d s (k s))" by simp
  show ?thesis using assms(1) False r m l
    by (simp add: lpKktCheck_def Let_def max_allowed_tolerance_relative_violation_def)
qed

text \<open>
  The margin itself is within the margin: with every ratio at most 100, one of them
  exactly 100 or not, an Optimal status is kept.
\<close>

lemma lpKktCheck_keeps_optimal_at_margin:
  assumes "solution_value_valid s" "model_status s = kOptimal"
    "list_all (\<lambda>r. dle r (Fin 100)) (state_ratios q d s (k s))"
  shows "model_status (snd (lpKktCheck q d k s)) = kOptimal"
proof -
  have w: "\<And>r. dle r (Fin 100) \<Longrightarrow> r \<noteq> NaN \<and> \<not> dlt (Fin 100) r"
  proof -
    fix r assume "dle r (Fin 100)"
    then show "r \<noteq> NaN \<and> \<not> dlt (Fin 100) r" by (cases r) (auto simp: dle_def deq_def)
  qed
  from assms(3) w have n: "ratios_are_numbers q d s (k s)"
    by (auto simp: ratios_are_numbers_def list_all_iff)
  from assms(3) w have e: "\<not> exceeds_margin q d s (k s)"
    by (auto simp: exceeds_margin_def list_all_iff list_ex_iff)
  from lpKktCheck_model_status[where s = s and q = q and d = d and k = k] assms(1) n e assms(2)
  show ?thesis by (simp add: Let_def)
qed



section \<open>Proofs: changing one matrix coefficient\<close>

text \<open>
  Claim C6, as stated, fails in its second part: for a nonbasic column the call still
  invalidates the model status, the solution and the info, and notifies the engine as
  for new rows (the source has a to-do note for the nonbasic case and treats it "as if
  it's a new row"). Column 0 of the example is nonbasic and the model was optimal.
\<close>

theorem change_coefficient_nonbasic_counterexample:
  "read_at (col_status (basis' example_highs)) 0 = kLower
   \<and> model_status' example_highs = kOptimal
   \<and> value_valid (solution' example_highs)
   \<and> map_option model_status'
        (changeCoefficientInterface example_scaling_externals 0 0 (Fin 3) example_highs) = Some kNotset
   \<and> map_option (\<lambda>h. value_valid (solution' h))
        (changeCoefficientInterface example_scaling_externals 0 0 (Fin 3) example_highs) = Some False"
  by (simp add: changeCoefficientInterface_def Let_def example_highs_def example_scaling_externals_def
      invalidateModelStatusSolutionAndInfo_def in_range_def read_at_def lp_ensureColwise_def)

text \<open>
  Claim C6, amended. For a column whose status can be read: if the column is basic the
  basis is retained (every status, and the valid and useful flags, as before) and marked
  alien; if it is nonbasic the basis is returned as it was. In both cases the model
  status is reset, the solution and the info are marked invalid, and the engine is
  notified with \<^verbatim>\<open>kNewRows\<close>.
\<close>

theorem change_coefficient:
  assumes "in_range (col_status (basis' h)) ext_col"
  shows "\<exists>h'. changeCoefficientInterface ext ext_row ext_col v h = Some h'
     \<and> basis' h' = (if read_at (col_status (basis' h)) ext_col = kBasic
                    then (basis' h)\<lparr>was_alien := True, alien := True\<rparr> else basis' h)
     \<and> model_status' h' = kNotset
     \<and> \<not> value_valid (solution' h') \<and> \<not> dual_valid (solution' h')
     \<and> col_value (solution' h') = col_value (solution' h)
     \<and> \<not> info_valid (info' h')
     \<and> ekk_instance' h' = updateStatus ext kNewRows (ekk_instance' h)
     \<and> lp' h' = changeLpMatrixCoefficient ext (lp_ensureColwise ext (lp' h)) ext_row ext_col v
                   (dle (dabs v) (small_matrix_value (options' h)))"
  using assms
  by (simp add: changeCoefficientInterface_def Let_def invalidateModelStatusSolutionAndInfo_def)

theorem change_coefficient_witness:
  "in_range (col_status (basis' (example_highs\<lparr>basis' := (basis' example_highs)\<lparr>col_status := [kBasic, kLower]\<rparr>\<rparr>))) 0
   \<and> (\<exists>h'. changeCoefficientInterface example_scaling_externals 0 0 (Fin 3)
              (example_highs\<lparr>basis' := (basis' example_highs)\<lparr>col_status := [kBasic, kLower]\<rparr>\<rparr>) = Some h'
        \<and> alien (basis' h') \<and> was_alien (basis' h') \<and> valid (basis' h')
        \<and> col_status (basis' h') = [kBasic, kLower]
        \<and> model_status' h' = kNotset)"
proof -
  let ?h = "example_highs\<lparr>basis' := (basis' example_highs)\<lparr>col_status := [kBasic, kLower]\<rparr>\<rparr>"
  have r: "in_range (col_status (basis' ?h)) 0" by (simp add: in_range_def)
  from change_coefficient[OF r, of example_scaling_externals 0 "Fin 3"]
  obtain h' where "changeCoefficientInterface example_scaling_externals 0 0 (Fin 3) ?h = Some h'"
    "basis' h' = (if read_at (col_status (basis' ?h)) 0 = kBasic
                    then (basis' ?h)\<lparr>was_alien := True, alien := True\<rparr> else basis' ?h)"
    "model_status' h' = kNotset"
    by blast
  then have "changeCoefficientInterface example_scaling_externals 0 0 (Fin 3) ?h = Some h'
        \<and> alien (basis' h') \<and> was_alien (basis' h') \<and> valid (basis' h')
        \<and> col_status (basis' h') = [kBasic, kLower]
        \<and> model_status' h' = kNotset"
    by (simp add: read_at_def example_highs_def)
  with r show ?thesis by blast
qed

section \<open>Proofs: scaling a column or a row\<close>

lemma scaleColInterface_error:
  assumes "col < 0 \<or> col \<ge> num_col' (lp' h) \<or> \<not> nonzero v"
  shows "scaleColInterface ext col v h = Some (kError, h\<lparr>lp' := lp_ensureColwise ext (lp' h)\<rparr>)"
  using assms by (auto simp: scaleColInterface_def Let_def lp_ensureColwise_def)

lemma scaleRowInterface_error:
  assumes "row < 0 \<or> row \<ge> num_row' (lp' h) \<or> \<not> nonzero v"
  shows "scaleRowInterface ext row v h = Some (kError, h\<lparr>lp' := lp_ensureColwise ext (lp' h)\<rparr>)"
  using assms by (auto simp: scaleRowInterface_def Let_def lp_ensureColwise_def)

lemma scaleColInterface_negative:
  assumes "0 \<le> col" "col < num_col' (lp' h)" "dlt v (Fin 0)"
    and "fst (applyScalingToLpCol ext (lp_ensureColwise ext (lp' h)) col v) \<noteq> kError"
    and "valid (basis' h)" "in_range (col_status (basis' h)) col"
    and "initialised_for_solve (status' (ekk_instance' h)) \<and> has_basis (status' (ekk_instance' h))
         \<longrightarrow> in_range (nonbasicMove' (simplex_basis' (ekk_instance' h))) col"
  shows "\<exists>h'. scaleColInterface ext col v h = Some (kOk, h')
     \<and> col_status (basis' h')
        = write_at (col_status (basis' h)) col (flip_status (read_at (col_status (basis' h)) col))
     \<and> row_status (basis' h') = row_status (basis' h)
     \<and> ekk_instance' h' = updateStatus ext kScaledCol
          (if initialised_for_solve (status' (ekk_instance' h)) \<and> has_basis (status' (ekk_instance' h))
           then (ekk_instance' h)\<lparr>simplex_basis' := (simplex_basis' (ekk_instance' h))\<lparr>nonbasicMove' :=
                  write_at (nonbasicMove' (simplex_basis' (ekk_instance' h))) col
                    (flip_move (read_at (nonbasicMove' (simplex_basis' (ekk_instance' h))) col))\<rparr>\<rparr>
           else ekk_instance' h)"
proof -
  from assms(3) have nz: "nonzero v" by (cases v) (auto simp: nonzero_def)
  obtain cs lp1 where a: "applyScalingToLpCol ext (lp_ensureColwise ext (lp' h)) col v = (cs, lp1)"
    by (cases "applyScalingToLpCol ext (lp_ensureColwise ext (lp' h)) col v")
  with assms(4) have cs: "interpretCallStatus cs kOk \<noteq> kError"
    by (simp add: interpretCallStatus_def)
  have nc: "num_col' (lp_ensureColwise ext (lp' h)) = num_col' (lp' h)"
    by (simp add: lp_ensureColwise_def)
  show ?thesis
    using assms(1,2,3,5,6,7) nz a cs nc
    by (simp add: scaleColInterface_def Let_def invalidateModelStatusSolutionAndInfo_def)
qed

lemma scaleRowInterface_negative:
  assumes "0 \<le> row" "row < num_row' (lp' h)" "dlt v (Fin 0)"
    and "fst (applyScalingToLpRow ext (lp_ensureColwise ext (lp' h)) row v) \<noteq> kError"
    and "var = num_col' (snd (applyScalingToLpRow ext (lp_ensureColwise ext (lp' h)) row v)) + row"
    and "valid (basis' h)" "in_range (row_status (basis' h)) row"
    and "initialised_for_solve (status' (ekk_instance' h)) \<and> has_basis (status' (ekk_instance' h))
         \<longrightarrow> in_range (nonbasicMove' (simplex_basis' (ekk_instance' h))) var"
  shows "\<exists>h'. scaleRowInterface ext row v h = Some (kOk, h')
     \<and> row_status (basis' h')
        = write_at (row_status (basis' h)) row (flip_status (read_at (row_status (basis' h)) row))
     \<and> col_status (basis' h') = col_status (basis' h)
     \<and> ekk_instance' h' = updateStatus ext kScaledRow
          (if initialised_for_solve (status' (ekk_instance' h)) \<and> has_basis (status' (ekk_instance' h))
           then (ekk_instance' h)\<lparr>simplex_basis' := (simplex_basis' (ekk_instance' h))\<lparr>nonbasicMove' :=
                  write_at (nonbasicMove' (simplex_basis' (ekk_instance' h))) var
                    (flip_move (read_at (nonbasicMove' (simplex_basis' (ekk_instance' h))) var))\<rparr>\<rparr>
           else ekk_instance' h)"
proof -
  from assms(3) have nz: "nonzero v" by (cases v) (auto simp: nonzero_def)
  obtain cs lp1 where a: "applyScalingToLpRow ext (lp_ensureColwise ext (lp' h)) row v = (cs, lp1)"
    by (cases "applyScalingToLpRow ext (lp_ensureColwise ext (lp' h)) row v")
  with assms(4) have cs: "interpretCallStatus cs kOk \<noteq> kError"
    by (simp add: interpretCallStatus_def)
  have nc: "num_row' (lp_ensureColwise ext (lp' h)) = num_row' (lp' h)"
    by (simp add: lp_ensureColwise_def)
  show ?thesis
    using assms(1,2,3,5,6,7,8) nz a cs nc
    by (simp add: scaleRowInterface_def Let_def invalidateModelStatusSolutionAndInfo_def)
qed

lemma flip_status_cases:
  "flip_status kLower = kUpper" "flip_status kUpper = kLower" "flip_status kBasic = kBasic"
  "flip_status kZero = kZero" "flip_status kNonbasic = kNonbasic"
  by (simp_all add: flip_status_def)

lemma flip_move_cases:
  "flip_move kNonbasicMoveUp = kNonbasicMoveDn" "flip_move kNonbasicMoveDn = kNonbasicMoveUp"
  "flip_move kNonbasicMoveZe = kNonbasicMoveZe"
  by (simp_all add: flip_move_def kNonbasicMoveUp_def kNonbasicMoveDn_def kNonbasicMoveZe_def)

text \<open>
  Claim C10, as stated, fails in its first part: \<^verbatim>\<open>lp.ensureColwise()\<close> runs before the
  index and the scale value are checked, so a call that returns an error has still
  brought a row-wise matrix to column-wise storage. Here the column index is \<open>-1\<close>.
\<close>

theorem scale_error_model_unchanged_counterexample:
  "scaleColInterface example_scaling_externals (-1) (Fin 2) example_highs
     = Some (kError, example_highs\<lparr>lp' := example_lp\<lparr>a_matrix' := kColwise\<rparr>\<rparr>)
   \<and> a_matrix' (lp' example_highs) = kRowwise
   \<and> example_highs\<lparr>lp' := example_lp\<lparr>a_matrix' := kColwise\<rparr>\<rparr> \<noteq> example_highs"
proof -
  have a: "scaleColInterface example_scaling_externals (-1) (Fin 2) example_highs
     = Some (kError, example_highs\<lparr>lp' := example_lp\<lparr>a_matrix' := kColwise\<rparr>\<rparr>)"
    by (simp add: scaleColInterface_def Let_def lp_ensureColwise_def example_scaling_externals_def
        example_highs_def)
  have b: "a_matrix' (lp' example_highs) = kRowwise"
    by (simp add: example_highs_def example_lp_def)
  have "a_matrix' (lp' (example_highs\<lparr>lp' := example_lp\<lparr>a_matrix' := kColwise\<rparr>\<rparr>)) = kColwise"
    by simp
  with b have c: "example_highs\<lparr>lp' := example_lp\<lparr>a_matrix' := kColwise\<rparr>\<rparr> \<noteq> example_highs"
    by (metis MatrixFormat.distinct(1))
  from a b c show ?thesis by (intro conjI)
qed

text \<open>
  Claim C10, amended. For \<^verbatim>\<open>scaleColInterface\<close> and \<^verbatim>\<open>scaleRowInterface\<close>: an index out
  of range or a scale value of exactly zero returns an error, and the state is the one
  at entry but for the matrix, which has been passed through \<^verbatim>\<open>ensureColwise\<close>. For a
  strictly negative scale value that the LP scaling accepts, with a valid basis, the
  status of the scaled column (row) is flipped between at-lower and at-upper in the Highs
  basis, every other status is as it was, and a basic status is left alone; when the
  simplex data are initialised for solve and hold a basis, the move of the scaled variable
  is flipped between up and down before the engine is notified.
\<close>

theorem scale_interface:
  "(col < 0 \<or> col \<ge> num_col' (lp' h) \<or> \<not> nonzero v \<longrightarrow>
      scaleColInterface ext col v h = Some (kError, h\<lparr>lp' := lp_ensureColwise ext (lp' h)\<rparr>))
   \<and> (row < 0 \<or> row \<ge> num_row' (lp' h) \<or> \<not> nonzero v \<longrightarrow>
      scaleRowInterface ext row v h = Some (kError, h\<lparr>lp' := lp_ensureColwise ext (lp' h)\<rparr>))
   \<and> (0 \<le> col \<and> col < num_col' (lp' h) \<and> dlt v (Fin 0)
       \<and> fst (applyScalingToLpCol ext (lp_ensureColwise ext (lp' h)) col v) \<noteq> kError
       \<and> valid (basis' h) \<and> in_range (col_status (basis' h)) col
       \<and> (initialised_for_solve (status' (ekk_instance' h)) \<and> has_basis (status' (ekk_instance' h))
            \<longrightarrow> in_range (nonbasicMove' (simplex_basis' (ekk_instance' h))) col)
      \<longrightarrow> (\<exists>h'. scaleColInterface ext col v h = Some (kOk, h')
         \<and> col_status (basis' h')
            = write_at (col_status (basis' h)) col (flip_status (read_at (col_status (basis' h)) col))
         \<and> row_status (basis' h') = row_status (basis' h)
         \<and> ekk_instance' h' = updateStatus ext kScaledCol
          (if initialised_for_solve (status' (ekk_instance' h)) \<and> has_basis (status' (ekk_instance' h))
           then (ekk_instance' h)\<lparr>simplex_basis' := (simplex_basis' (ekk_instance' h))\<lparr>nonbasicMove' :=
                  write_at (nonbasicMove' (simplex_basis' (ekk_instance' h))) col
                    (flip_move (read_at (nonbasicMove' (simplex_basis' (ekk_instance' h))) col))\<rparr>\<rparr>
           else ekk_instance' h)))
   \<and> (0 \<le> row \<and> row < num_row' (lp' h) \<and> dlt v (Fin 0)
       \<and> fst (applyScalingToLpRow ext (lp_ensureColwise ext (lp' h)) row v) \<noteq> kError
       \<and> var = num_col' (snd (applyScalingToLpRow ext (lp_ensureColwise ext (lp' h)) row v)) + row
       \<and> valid (basis' h) \<and> in_range (row_status (basis' h)) row
       \<and> (initialised_for_solve (status' (ekk_instance' h)) \<and> has_basis (status' (ekk_instance' h))
            \<longrightarrow> in_range (nonbasicMove' (simplex_basis' (ekk_instance' h))) var)
      \<longrightarrow> (\<exists>h'. scaleRowInterface ext row v h = Some (kOk, h')
         \<and> row_status (basis' h')
            = write_at (row_status (basis' h)) row (flip_status (read_at (row_status (basis' h)) row))
         \<and> col_status (basis' h') = col_status (basis' h)
         \<and> ekk_instance' h' = updateStatus ext kScaledRow
          (if initialised_for_solve (status' (ekk_instance' h)) \<and> has_basis (status' (ekk_instance' h))
           then (ekk_instance' h)\<lparr>simplex_basis' := (simplex_basis' (ekk_instance' h))\<lparr>nonbasicMove' :=
                  write_at (nonbasicMove' (simplex_basis' (ekk_instance' h))) var
                    (flip_move (read_at (nonbasicMove' (simplex_basis' (ekk_instance' h))) var))\<rparr>\<rparr>
           else ekk_instance' h)))
   \<and> flip_status kLower = kUpper \<and> flip_status kUpper = kLower \<and> flip_status kBasic = kBasic
   \<and> flip_move kNonbasicMoveUp = kNonbasicMoveDn \<and> flip_move kNonbasicMoveDn = kNonbasicMoveUp"
  apply (intro conjI impI)
          apply (erule scaleColInterface_error)
         apply (erule scaleRowInterface_error)
        apply (rule scaleColInterface_negative; blast)
       apply (rule scaleRowInterface_negative; blast)
      apply (simp_all add: flip_status_cases flip_move_cases)
  done

theorem scale_interface_witness:
  "scaleColInterface example_scaling_externals 5 (Fin 2) example_highs
     = Some (kError, example_highs\<lparr>lp' := example_lp\<lparr>a_matrix' := kColwise\<rparr>\<rparr>)
   \<and> (\<exists>h'. scaleColInterface example_scaling_externals 0 (Fin (-1)) example_highs = Some (kOk, h')
        \<and> col_status (basis' h') = [kUpper, kLower]
        \<and> row_status (basis' h') = [kBasic]
        \<and> nonbasicMove' (simplex_basis' (ekk_instance' h')) = [-1, 1, 0])
   \<and> (\<exists>h'. scaleRowInterface example_scaling_externals 0 (Fin (-1)) example_highs = Some (kOk, h')
        \<and> col_status (basis' h') = [kLower, kLower]
        \<and> row_status (basis' h') = [kBasic])"
proof -
  note ex = example_scaling_externals_def example_highs_def example_lp_def lp_ensureColwise_def
  note inst = scale_interface[of _ example_highs _ example_scaling_externals]
  have num: "num_col' (lp' example_highs) = 2" "num_row' (lp' example_highs) = 1"
    by (simp_all add: ex)
  have "scaleColInterface example_scaling_externals 5 (Fin 2) example_highs
     = Some (kError, example_highs\<lparr>lp' := lp_ensureColwise example_scaling_externals (lp' example_highs)\<rparr>)"
    using inst[of 5 "Fin 2" 0 0] num by simp
  then have a: "scaleColInterface example_scaling_externals 5 (Fin 2) example_highs
     = Some (kError, example_highs\<lparr>lp' := example_lp\<lparr>a_matrix' := kColwise\<rparr>\<rparr>)"
    by (simp add: ex)
  have pre_col: "0 \<le> (0::int) \<and> 0 < num_col' (lp' example_highs) \<and> dlt (Fin (-1)) (Fin 0)
       \<and> fst (applyScalingToLpCol example_scaling_externals
              (lp_ensureColwise example_scaling_externals (lp' example_highs)) 0 (Fin (-1))) \<noteq> kError
       \<and> valid (basis' example_highs) \<and> in_range (col_status (basis' example_highs)) 0
       \<and> (initialised_for_solve (status' (ekk_instance' example_highs))
            \<and> has_basis (status' (ekk_instance' example_highs))
            \<longrightarrow> in_range (nonbasicMove' (simplex_basis' (ekk_instance' example_highs))) 0)"
    by (simp add: ex in_range_def)
  from inst[of 0 "Fin (-1)" 0 0] pre_col
  obtain h' where h': "scaleColInterface example_scaling_externals 0 (Fin (-1)) example_highs = Some (kOk, h')"
    "col_status (basis' h')
       = write_at (col_status (basis' example_highs)) 0
           (flip_status (read_at (col_status (basis' example_highs)) 0))"
    "row_status (basis' h') = row_status (basis' example_highs)"
    "ekk_instance' h' = updateStatus example_scaling_externals kScaledCol
          (if initialised_for_solve (status' (ekk_instance' example_highs))
              \<and> has_basis (status' (ekk_instance' example_highs))
           then (ekk_instance' example_highs)\<lparr>simplex_basis' :=
                  (simplex_basis' (ekk_instance' example_highs))\<lparr>nonbasicMove' :=
                  write_at (nonbasicMove' (simplex_basis' (ekk_instance' example_highs))) 0
                    (flip_move (read_at (nonbasicMove' (simplex_basis' (ekk_instance' example_highs))) 0))\<rparr>\<rparr>
           else ekk_instance' example_highs)"
    by blast
  have b: "\<exists>h'. scaleColInterface example_scaling_externals 0 (Fin (-1)) example_highs = Some (kOk, h')
        \<and> col_status (basis' h') = [kUpper, kLower]
        \<and> row_status (basis' h') = [kBasic]
        \<and> nonbasicMove' (simplex_basis' (ekk_instance' h')) = [-1, 1, 0]"
    using h' by (intro exI[of _ h'])
      (simp add: ex write_at_def read_at_def flip_status_def flip_move_def
        kNonbasicMoveUp_def kNonbasicMoveDn_def)
  have pre_row: "0 \<le> (0::int) \<and> 0 < num_row' (lp' example_highs) \<and> dlt (Fin (-1)) (Fin 0)
       \<and> fst (applyScalingToLpRow example_scaling_externals
              (lp_ensureColwise example_scaling_externals (lp' example_highs)) 0 (Fin (-1))) \<noteq> kError
       \<and> (2::int) = num_col' (snd (applyScalingToLpRow example_scaling_externals
              (lp_ensureColwise example_scaling_externals (lp' example_highs)) 0 (Fin (-1)))) + 0
       \<and> valid (basis' example_highs) \<and> in_range (row_status (basis' example_highs)) 0
       \<and> (initialised_for_solve (status' (ekk_instance' example_highs))
            \<and> has_basis (status' (ekk_instance' example_highs))
            \<longrightarrow> in_range (nonbasicMove' (simplex_basis' (ekk_instance' example_highs))) 2)"
    by (simp add: ex in_range_def)
  from inst[of 0 "Fin (-1)" 0 2] pre_row
  obtain h'' where h'': "scaleRowInterface example_scaling_externals 0 (Fin (-1)) example_highs = Some (kOk, h'')"
    "row_status (basis' h'')
       = write_at (row_status (basis' example_highs)) 0
           (flip_status (read_at (row_status (basis' example_highs)) 0))"
    "col_status (basis' h'') = col_status (basis' example_highs)"
    by blast
  have c: "\<exists>h'. scaleRowInterface example_scaling_externals 0 (Fin (-1)) example_highs = Some (kOk, h')
        \<and> col_status (basis' h') = [kLower, kLower]
        \<and> row_status (basis' h') = [kBasic]"
    using h'' by (intro exI[of _ h''])
      (simp add: ex write_at_def read_at_def flip_status_def)
  from a b c show ?thesis by (intro conjI)
qed

section \<open>Proofs: the argument checks of adding columns and rows\<close>

text \<open>
  Claim C9, as stated, fails where its cases overlap: the negative counts are tested
  before the zero count, so a call with no new columns and a negative number of nonzeros
  returns an error, not Ok.
\<close>

theorem add_zero_columns_counterexample:
  "addColsInterface example_lp_externals 0 None None None (-1) None None None example_highs
     = (kError, example_highs)
   \<and> addRowsInterface example_lp_externals 0 None None (-1) None None None example_highs
     = (kError, example_highs)"
  by (simp add: addColsInterface_def addRowsInterface_def)

text \<open>
  Claim C9, amended. \<^verbatim>\<open>addColsInterface\<close> (\<^verbatim>\<open>addRowsInterface\<close>) checks its arguments
  in this order, each time returning with the state it was given: a negative count of new
  columns (rows) or of new nonzeros is an error; otherwise a count of zero new columns
  (rows) returns Ok; otherwise a null cost or bound pointer is an error; otherwise, for a
  positive count of nonzeros, a null matrix pointer is an error, and so is a model
  without rows (columns).
\<close>

theorem add_interface_argument_checks:
  "(n < 0 \<or> nz < 0 \<longrightarrow>
      addColsInterface ext n cost lower upper nz a_start a_index a_value h = (kError, h)
      \<and> addRowsInterface ext n lower upper nz a_start a_index a_value h = (kError, h))
   \<and> (n = 0 \<and> 0 \<le> nz \<longrightarrow>
      addColsInterface ext n cost lower upper nz a_start a_index a_value h = (kOk, h)
      \<and> addRowsInterface ext n lower upper nz a_start a_index a_value h = (kOk, h))
   \<and> (0 < n \<and> 0 \<le> nz \<and> (cost = None \<or> lower = None \<or> upper = None) \<longrightarrow>
      addColsInterface ext n cost lower upper nz a_start a_index a_value h = (kError, h))
   \<and> (0 < n \<and> 0 \<le> nz \<and> (lower = None \<or> upper = None) \<longrightarrow>
      addRowsInterface ext n lower upper nz a_start a_index a_value h = (kError, h))
   \<and> (0 < n \<and> 0 < nz \<and> (a_start = None \<or> a_index = None \<or> a_value = None) \<longrightarrow>
      addColsInterface ext n cost lower upper nz a_start a_index a_value h = (kError, h)
      \<and> addRowsInterface ext n lower upper nz a_start a_index a_value h = (kError, h))
   \<and> (0 < n \<and> 0 < nz \<and> num_row' (lp' h) \<le> 0 \<longrightarrow>
      addColsInterface ext n cost lower upper nz a_start a_index a_value h = (kError, h))
   \<and> (0 < n \<and> 0 < nz \<and> num_col' (lp' h) \<le> 0 \<longrightarrow>
      addRowsInterface ext n lower upper nz a_start a_index a_value h = (kError, h))"
  by (auto simp: addColsInterface_def addRowsInterface_def isColDataNull_def isRowDataNull_def
      isMatrixDataNull_def doubleUserDataNotNull_def)

theorem add_interface_argument_checks_witness:
  "addColsInterface example_lp_externals (-1) None None None 0 None None None example_highs
     = (kError, example_highs)
   \<and> addColsInterface example_lp_externals 0 None None None 0 None None None example_highs
     = (kOk, example_highs)
   \<and> addColsInterface example_lp_externals 1 (Some [Fin 1]) None (Some [PInf]) 0 None None None
        example_highs = (kError, example_highs)
   \<and> addRowsInterface example_lp_externals 1 (Some [Fin 0]) (Some [PInf]) 1 (Some [0]) None (Some [Fin 1])
        example_highs = (kError, example_highs)
   \<and> num_row' (lp' (example_highs\<lparr>lp' := example_lp\<lparr>num_row' := 0\<rparr>\<rparr>)) \<le> 0
   \<and> addColsInterface example_lp_externals 1 (Some [Fin 1]) (Some [Fin 0]) (Some [PInf])
        1 (Some [0]) (Some [0]) (Some [Fin 1]) (example_highs\<lparr>lp' := example_lp\<lparr>num_row' := 0\<rparr>\<rparr>)
      = (kError, example_highs\<lparr>lp' := example_lp\<lparr>num_row' := 0\<rparr>\<rparr>)"
proof -
  have a: "addColsInterface example_lp_externals (-1) None None None 0 None None None example_highs
     = (kError, example_highs)"
    using add_interface_argument_checks[of "-1" 0 example_lp_externals None None None None None None example_highs]
    by simp
  have b: "addColsInterface example_lp_externals 0 None None None 0 None None None example_highs
     = (kOk, example_highs)"
    using add_interface_argument_checks[of 0 0 example_lp_externals None None None None None None example_highs]
    by simp
  have c: "addColsInterface example_lp_externals 1 (Some [Fin 1]) None (Some [PInf]) 0 None None None
        example_highs = (kError, example_highs)"
    using add_interface_argument_checks[of 1 0 example_lp_externals "Some [Fin 1]" None "Some [PInf]"
        None None None example_highs]
    by simp
  have d: "addRowsInterface example_lp_externals 1 (Some [Fin 0]) (Some [PInf]) 1 (Some [0]) None (Some [Fin 1])
        example_highs = (kError, example_highs)"
    using add_interface_argument_checks[of 1 1 example_lp_externals None "Some [Fin 0]" "Some [PInf]"
        "Some [0]" None "Some [Fin 1]" example_highs]
    by simp
  let ?h = "example_highs\<lparr>lp' := example_lp\<lparr>num_row' := 0\<rparr>\<rparr>"
  have e: "num_row' (lp' ?h) \<le> 0" by simp
  have f: "addColsInterface example_lp_externals 1 (Some [Fin 1]) (Some [Fin 0]) (Some [PInf])
        1 (Some [0]) (Some [0]) (Some [Fin 1]) ?h = (kError, ?h)"
    using add_interface_argument_checks[of 1 1 example_lp_externals "Some [Fin 1]" "Some [Fin 0]" "Some [PInf]"
        "Some [0]" "Some [0]" "Some [Fin 1]" ?h] e
    by simp
  from a b c d e f show ?thesis by (intro conjI)
qed

section \<open>Proofs: fixed-format detection\<close>

lemma rows_type_switch_Some:
  "type_char l \<in> {CHR ''G'', CHR ''E'', CHR ''L'', CHR ''N''} \<Longrightarrow> \<exists>r. rows_type_switch l st = Some r"
  by (auto simp: rows_type_switch_def)

lemma parseRows_passes:
  "rows_line_passes l \<Longrightarrow> \<exists>st'. parseRows (l # ls) st = parseRows ls st'"
proof (cases "skip l")
  case True
  then show ?thesis by auto
next
  case False
  assume "rows_line_passes l"
  with False have *: "\<not> timed_out l" "key l = kNone" "\<not> more_after_name l"
    and ty: "type_char l \<in> {CHR ''G'', CHR ''E'', CHR ''L'', CHR ''N''}"
    by (auto simp: rows_line_passes_def)
  from rows_type_switch_Some[OF ty] obtain st1 isobj isFreeRow
    where "rows_type_switch l st = Some (st1, isobj, isFreeRow)"
    by (metis prod_cases3)
  with False * show ?thesis by auto
qed

lemma parseRows_name_has_spaces:
  assumes "rows_line_name_has_spaces l"
  shows "fst (parseRows (l # ls) st) = (if length (name_with_spaces l) > 8 then kFail else kFixedFormat)"
proof -
  from assms have *: "\<not> skip l" "\<not> timed_out l" "key l = kNone" "more_after_name l"
    and ty: "type_char l \<in> {CHR ''G'', CHR ''E'', CHR ''L'', CHR ''N''}"
    by (auto simp: rows_line_name_has_spaces_def)
  from rows_type_switch_Some[OF ty] obtain st1 isobj isFreeRow
    where "rows_type_switch l st = Some (st1, isobj, isFreeRow)"
    by (metis prod_cases3)
  with * show ?thesis by simp
qed

text \<open>
  Claim C7, as stated, fails: a row name with spaces that overflows the 8-character
  field makes \<^verbatim>\<open>parseRows\<close> return \<^verbatim>\<open>kFail\<close>, and \<^verbatim>\<open>parse\<close> turns that into the
  parser error. The line is \<^verbatim>\<open> E  ROW NAME1X\<close>.
\<close>

theorem fixed_format_overflow_counterexample:
  "rows_line_name_has_spaces
      \<lparr>skip = False, timed_out = False, key = kNone, type_char = CHR ''E'',
       rowname = ''ROW'', more_after_name = True, name_with_spaces = ''ROW NAME1X''\<rparr>
   \<and> length ''ROW NAME1X'' > 8
   \<and> fst (parseRows
        [\<lparr>skip = False, timed_out = False, key = kNone, type_char = CHR ''E'',
          rowname = ''ROW'', more_after_name = True, name_with_spaces = ''ROW NAME1X''\<rparr>]
        rows_init) = kFail
   \<and> parse_keyword kFail = Return RC_kParserError
   \<and> parse_keyword kFail \<noteq> Return RC_kFixedFormat"
  by (simp add: rows_line_name_has_spaces_def rows_type_switch_def parse_keyword_def)

text \<open>
  Claim C7, amended. When a line of the ROWS section has text after its row name, after
  any number of lines that were passed over or recorded, \<^verbatim>\<open>parseRows\<close> returns
  \<^verbatim>\<open>kFixedFormat\<close> if the name with its spaces has at most 8 characters and \<^verbatim>\<open>kFail\<close>
  if it has more; in the COLUMNS section, a line whose second word ends before position 9
  and is not a row name gives \<^verbatim>\<open>kFixedFormat\<close> if the trimmed first ten characters are
  at most 8 and \<^verbatim>\<open>kFail\<close> otherwise. \<^verbatim>\<open>parse\<close> returns the fixed-format code for
  \<^verbatim>\<open>kFixedFormat\<close> and the parser error for \<^verbatim>\<open>kFail\<close>.
\<close>

theorem fixed_format_detection:
  "(list_all rows_line_passes pre \<and> rows_line_name_has_spaces l \<longrightarrow>
      fst (parseRows (pre @ l # ls) st)
        = (if length (name_with_spaces l) > 8 then kFail else kFixedFormat))
   \<and> (\<not> cskip c \<and> \<not> ctimed_out c \<and> ckey c = kNone \<and> marker c \<noteq> quoted ''MARKER''
        \<and> end_marker c < 9 \<and> names (marker c) = None \<longrightarrow>
      parseCols_head names integral_cols c
        = ColsReturn (if length (name10 c) > 8 then kFail else kFixedFormat))
   \<and> parse_keyword kFixedFormat = Return RC_kFixedFormat
   \<and> parse_keyword kFail = Return RC_kParserError"
proof -
  have rows: "list_all rows_line_passes pre \<Longrightarrow> rows_line_name_has_spaces l \<Longrightarrow>
      fst (parseRows (pre @ l # ls) st)
        = (if length (name_with_spaces l) > 8 then kFail else kFixedFormat)"
  proof (induction pre arbitrary: st)
    case Nil
    then show ?case using parseRows_name_has_spaces[of l ls st] by simp
  next
    case (Cons p pre)
    from Cons.prems(1) have "rows_line_passes p" "list_all rows_line_passes pre" by simp_all
    from parseRows_passes[OF this(1), of "pre @ l # ls" st] obtain st'
      where "parseRows ((p # pre) @ l # ls) st = parseRows (pre @ l # ls) st'" by auto
    with Cons.IH[OF \<open>list_all rows_line_passes pre\<close> Cons.prems(2), of st'] show ?case by simp
  qed
  have cols: "\<not> cskip c \<and> \<not> ctimed_out c \<and> ckey c = kNone \<and> marker c \<noteq> quoted ''MARKER''
        \<and> end_marker c < 9 \<and> names (marker c) = None \<longrightarrow>
      parseCols_head names integral_cols c
        = ColsReturn (if length (name10 c) > 8 then kFail else kFixedFormat)"
    by (simp add: parseCols_head_def)
  have "parse_keyword kFixedFormat = Return RC_kFixedFormat"
       "parse_keyword kFail = Return RC_kParserError"
    by (simp_all add: parse_keyword_def cannotParseSection_def)
  with rows cols show ?thesis by blast
qed

theorem fixed_format_detection_witness:
  "list_all rows_line_passes
      [\<lparr>skip = False, timed_out = False, key = kNone, type_char = CHR ''N'',
        rowname = ''COST'', more_after_name = False, name_with_spaces = ''COST''\<rparr>]
   \<and> rows_line_name_has_spaces
      \<lparr>skip = False, timed_out = False, key = kNone, type_char = CHR ''L'',
       rowname = ''ROW'', more_after_name = True, name_with_spaces = ''ROW 1''\<rparr>
   \<and> fst (parseRows
        [\<lparr>skip = False, timed_out = False, key = kNone, type_char = CHR ''N'',
          rowname = ''COST'', more_after_name = False, name_with_spaces = ''COST''\<rparr>,
         \<lparr>skip = False, timed_out = False, key = kNone, type_char = CHR ''L'',
          rowname = ''ROW'', more_after_name = True, name_with_spaces = ''ROW 1''\<rparr>]
        rows_init) = kFixedFormat
   \<and> parseCols_head [''COST'' \<mapsto> -1] False
        \<lparr>cskip = False, ctimed_out = False, ckey = kNone, marker = ''1'', end_marker = 7,
         marker2 = ''COST'', name10 = ''COL 1''\<rparr> = ColsReturn kFixedFormat"
proof -
  let ?p = "\<lparr>skip = False, timed_out = False, key = kNone, type_char = CHR ''N'',
        rowname = ''COST'', more_after_name = False, name_with_spaces = ''COST''\<rparr>"
  let ?l = "\<lparr>skip = False, timed_out = False, key = kNone, type_char = CHR ''L'',
       rowname = ''ROW'', more_after_name = True, name_with_spaces = ''ROW 1''\<rparr>"
  let ?c = "\<lparr>cskip = False, ctimed_out = False, ckey = kNone, marker = ''1'', end_marker = 7,
         marker2 = ''COST'', name10 = ''COL 1''\<rparr>"
  have a: "list_all rows_line_passes [?p]" by (simp add: rows_line_passes_def)
  have b: "rows_line_name_has_spaces ?l" by (simp add: rows_line_name_has_spaces_def)
  have c: "\<not> cskip ?c \<and> \<not> ctimed_out ?c \<and> ckey ?c = kNone \<and> marker ?c \<noteq> quoted ''MARKER''
        \<and> end_marker ?c < 9 \<and> [''COST'' \<mapsto> -1] (marker ?c) = None" by (simp add: quoted_def)
  from fixed_format_detection[of "[?p]" ?l "[]" rows_init ?c "[''COST'' \<mapsto> -1]" False] a b c
  have "fst (parseRows ([?p] @ ?l # []) rows_init) = kFixedFormat"
    and "parseCols_head [''COST'' \<mapsto> -1] False ?c = ColsReturn kFixedFormat"
    by simp_all
  with a b show ?thesis by simp
qed

section \<open>Proofs: aggregated warnings of the MPS reader\<close>










section \<open>Proofs: a refused user scale is rolled back\<close>



















section \<open>Proofs: deleting basis entries\<close>

lemma fold_scan_deleted:
  "fold (scan_deleted s) xs (b, c)
     = (b \<or> (\<exists>x \<in> set xs. read_at s x = kBasic), c \<or> (\<exists>x \<in> set xs. read_at s x \<noteq> kBasic))"
  by (induction xs arbitrary: b c) (auto simp: scan_deleted_def)

text \<open>Moving a kept run down: what is below the target and above the run stays.\<close>

lemma fold_move_kept:
  assumes "0 \<le> n" "n \<le> kf" "kf - 1 \<le> kt" "kt < int (length s)"
  shows "\<exists>s'. fold move_kept [kf..kt] (s, n) = (s', n + (kt - kf + 1))
     \<and> length s' = length s
     \<and> (\<forall>i. 0 \<le> i \<and> i < n \<longrightarrow> read_at s' i = read_at s i)
     \<and> (\<forall>j. 0 \<le> j \<and> j \<le> kt - kf \<longrightarrow> read_at s' (n + j) = read_at s (kf + j))
     \<and> (\<forall>i. kt < i \<longrightarrow> read_at s' i = read_at s i)"
  using assms
proof (induction "nat (kt - kf + 1)" arbitrary: kt)
  case 0
  then have "kt = kf - 1" by simp
  then show ?case by auto
next
  case (Suc m)
  then have le: "kf \<le> kt" by simp
  have m: "m = nat ((kt - 1) - kf + 1)" using Suc.hyps(2) by simp
  from Suc.hyps(1)[OF m Suc.prems(1,2)] le Suc.prems(4)
  obtain s1 where s1: "fold move_kept [kf..kt - 1] (s, n) = (s1, n + (kt - 1 - kf + 1))"
    "length s1 = length s"
    "\<forall>i. 0 \<le> i \<and> i < n \<longrightarrow> read_at s1 i = read_at s i"
    "\<forall>j. 0 \<le> j \<and> j \<le> kt - 1 - kf \<longrightarrow> read_at s1 (n + j) = read_at s (kf + j)"
    "\<forall>i. kt - 1 < i \<longrightarrow> read_at s1 i = read_at s i"
    by force
  let ?w = "n + (kt - kf)"
  let ?s' = "write_at s1 ?w (read_at s1 kt)"
  have f: "fold move_kept [kf..kt] (s, n) = (?s', n + (kt - kf + 1))"
    using s1(1) by (simp add: upto_rec2[OF le] move_kept_def add.commute add.left_commute)
  have w0: "0 \<le> ?w" "?w \<le> kt" "nat ?w < length s1"
    using Suc.prems le s1(2) by auto
  have kt: "read_at s1 kt = read_at s kt" using s1(5) by simp
  have a: "length ?s' = length s" by (simp add: write_at_def s1(2))
  have b: "\<forall>i. 0 \<le> i \<and> i < n \<longrightarrow> read_at ?s' i = read_at s i"
    using s1(3) le Suc.prems(1) by (auto simp: write_at_def read_at_def)
  have c: "\<forall>j. 0 \<le> j \<and> j \<le> kt - kf \<longrightarrow> read_at ?s' (n + j) = read_at s (kf + j)"
  proof (intro allI impI)
    fix j assume j: "0 \<le> j \<and> j \<le> kt - kf"
    show "read_at ?s' (n + j) = read_at s (kf + j)"
    proof (cases "j = kt - kf")
      case True
      then show ?thesis using w0 kt by (simp add: write_at_def read_at_def)
    next
      case False
      with j have "j \<le> kt - 1 - kf" by simp
      with s1(4) j have "read_at s1 (n + j) = read_at s (kf + j)" by simp
      moreover have "nat (n + j) \<noteq> nat ?w" using j False Suc.prems(1) by auto
      ultimately show ?thesis by (simp add: write_at_def read_at_def)
    qed
  qed
  have d: "\<forall>i. kt < i \<longrightarrow> read_at ?s' i = read_at s i"
  proof (intro allI impI)
    fix i assume i: "kt < i"
    then have "nat i \<noteq> nat ?w" using w0 by auto
    moreover have "read_at s1 i = read_at s i" using s1(5) i by simp
    ultimately show "read_at ?s' i = read_at s i" by (simp add: write_at_def read_at_def)
  qed
  from f a b c d show ?case by blast
qed

lemma runs_ok_bounds:
  "runs_ok d p rs \<Longrightarrow>
     set (deleted_entries d rs) \<subseteq> {p..d - 1} \<and> set (kept_entries d rs) \<subseteq> {p..d - 1}"
proof (induction d p rs rule: runs_ok.induct)
  case (1 d p)
  then show ?case by simp
next
  case (2 d p df dt kf kt rs)
  show ?case
  proof (cases "dt = d - 1 \<or> kt = d - 1")
    case True
    with "2.prems" show ?thesis by auto
  next
    case False
    with "2.prems" have ok: "runs_ok d (kt + 1) rs" and b: "df = p" "df - 1 \<le> dt" "dt \<le> d - 1"
      "kf = dt + 1" "kf - 1 \<le> kt" "kt \<le> d - 1" by auto
    from "2.IH" False b ok
    have "set (deleted_entries d rs) \<subseteq> {kt + 1..d - 1} \<and> set (kept_entries d rs) \<subseteq> {kt + 1..d - 1}"
      by auto
    with False b show ?thesis by auto
  qed
qed

text \<open>The loop, from any of its iterations after the first.\<close>

lemma deleteBasisEntries_loop_correct:
  assumes "runs_ok d p (index_runs ext ic d ks st)" "0 \<le> n" "n \<le> p" "int (length s) = d"
  shows "\<exists>s'. deleteBasisEntries_loop ext ic d ks False st n s (b, c)
        = (s', (b \<or> (\<exists>x \<in> set (deleted_entries d (index_runs ext ic d ks st)). read_at s x = kBasic),
                c \<or> (\<exists>x \<in> set (deleted_entries d (index_runs ext ic d ks st)). read_at s x \<noteq> kBasic)),
           n + int (length (kept_entries d (index_runs ext ic d ks st))))
     \<and> length s' = length s
     \<and> (\<forall>i. 0 \<le> i \<and> i < n \<longrightarrow> read_at s' i = read_at s i)
     \<and> (\<forall>j < length (kept_entries d (index_runs ext ic d ks st)).
           read_at s' (n + int j) = read_at s (kept_entries d (index_runs ext ic d ks st) ! j))"
  using assms
proof (induction ks arbitrary: st n s b c p)
  case Nil
  then show ?case by simp
next
  case (Cons k ks)
  obtain df dt kf kt cur where u: "updateOutInIndex ext ic (fst st) (snd st) = (df, dt, kf, kt, cur)"
    by (metis prod_cases5)
  let ?rest = "if dt \<ge> d - 1 \<or> kt \<ge> d - 1 then [] else index_runs ext ic d ks (kt, cur)"
  have rs: "index_runs ext ic d (k # ks) st = (df, dt, kf, kt) # ?rest" using u by simp
  from Cons.prems(1) rs have ok: "df = p" "df - 1 \<le> dt" "dt \<le> d - 1"
    "dt = d - 1 \<or> (kf = dt + 1 \<and> kf - 1 \<le> kt \<and> kt \<le> d - 1 \<and> (kt = d - 1 \<or> runs_ok d (kt + 1) ?rest))"
    by simp_all
  let ?b1 = "b \<or> (\<exists>x \<in> set [df..dt]. read_at s x = kBasic)"
  let ?c1 = "c \<or> (\<exists>x \<in> set [df..dt]. read_at s x \<noteq> kBasic)"
  have scan: "fold (scan_deleted s) [df..dt] (b, c) = (?b1, ?c1)" by (rule fold_scan_deleted)
  show ?case
  proof (cases "dt \<ge> d - 1")
    case True
    then show ?thesis using u scan by (simp add: rs del: set_upto)
  next
    case False
    with ok have k: "kf = dt + 1" "kf - 1 \<le> kt" "kt \<le> d - 1" by auto
    have n_kf: "n \<le> kf" using Cons.prems(3) ok k by simp
    have kt_len: "kt < int (length s)" using k Cons.prems(4) by simp
    from fold_move_kept[OF Cons.prems(2) n_kf k(2) kt_len]
    obtain s1 where s1: "fold move_kept [kf..kt] (s, n) = (s1, n + (kt - kf + 1))"
      "length s1 = length s"
      "\<forall>i. 0 \<le> i \<and> i < n \<longrightarrow> read_at s1 i = read_at s i"
      "\<forall>j. 0 \<le> j \<and> j \<le> kt - kf \<longrightarrow> read_at s1 (n + j) = read_at s (kf + j)"
      "\<forall>i. kt < i \<longrightarrow> read_at s1 i = read_at s i"
      by blast
    have len_k: "int (length [kf..kt]) = kt - kf + 1" using k by simp
    have block: "\<forall>j < length [kf..kt]. read_at s1 (n + int j) = read_at s ([kf..kt] ! j)"
    proof (intro allI impI)
      fix j assume "j < length [kf..kt]"
      then have j: "int j \<le> kt - kf" by simp
      then have "[kf..kt] ! j = kf + int j" by simp
      with s1(4) j show "read_at s1 (n + int j) = read_at s ([kf..kt] ! j)" by simp
    qed
    show ?thesis
    proof (cases "kt \<ge> d - 1")
      case True
      have "deleteBasisEntries_loop ext ic d (k # ks) False st n s (b, c)
              = (s1, (?b1, ?c1), n + (kt - kf + 1))"
        using u scan s1(1) False True by (simp del: set_upto)
      moreover have "deleted_entries d (index_runs ext ic d (k # ks) st) = [df..dt]"
        "kept_entries d (index_runs ext ic d (k # ks) st) = [kf..kt]"
        using rs False True by simp_all
      ultimately show ?thesis using s1(2,3) block len_k by (auto simp del: set_upto length_upto)
    next
      case kt_small: False
      with ok False have okr: "runs_ok d (kt + 1) (index_runs ext ic d ks (kt, cur))" by auto
      let ?r = "index_runs ext ic d ks (kt, cur)"
      let ?n2 = "n + (kt - kf + 1)"
      have n2: "0 \<le> ?n2" "?n2 \<le> kt + 1" using Cons.prems(2) n_kf k by auto
      have l1: "int (length s1) = d" using s1(2) Cons.prems(4) by simp
      from Cons.IH[OF _ n2 l1, of "(kt, cur)" ?b1 ?c1] okr
      obtain s2 where s2: "deleteBasisEntries_loop ext ic d ks False (kt, cur) ?n2 s1 (?b1, ?c1)
          = (s2, (?b1 \<or> (\<exists>x \<in> set (deleted_entries d ?r). read_at s1 x = kBasic),
                  ?c1 \<or> (\<exists>x \<in> set (deleted_entries d ?r). read_at s1 x \<noteq> kBasic)),
             ?n2 + int (length (kept_entries d ?r)))"
        "length s2 = length s1"
        "\<forall>i. 0 \<le> i \<and> i < ?n2 \<longrightarrow> read_at s2 i = read_at s1 i"
        "\<forall>j < length (kept_entries d ?r). read_at s2 (?n2 + int j) = read_at s1 (kept_entries d ?r ! j)"
        by auto
      from runs_ok_bounds[OF okr]
      have bd: "set (deleted_entries d ?r) \<subseteq> {kt + 1..d - 1}" "set (kept_entries d ?r) \<subseteq> {kt + 1..d - 1}"
        by simp_all
      have same: "\<And>x. kt + 1 \<le> x \<Longrightarrow> read_at s1 x = read_at s x" using s1(5) by simp
      have del_same: "(\<exists>x \<in> set (deleted_entries d ?r). read_at s1 x = kBasic)
                       = (\<exists>x \<in> set (deleted_entries d ?r). read_at s x = kBasic)"
        "(\<exists>x \<in> set (deleted_entries d ?r). read_at s1 x \<noteq> kBasic)
           = (\<exists>x \<in> set (deleted_entries d ?r). read_at s x \<noteq> kBasic)"
        using bd(1) same by (metis atLeastAtMost_iff subsetD)+
      have unfold_loop: "deleteBasisEntries_loop ext ic d (k # ks) False st n s (b, c)
          = deleteBasisEntries_loop ext ic d ks False (kt, cur) ?n2 s1 (?b1, ?c1)"
        using u scan s1(1) False kt_small by (simp del: set_upto)
      have de: "deleted_entries d (index_runs ext ic d (k # ks) st) = [df..dt] @ deleted_entries d ?r"
        and ke: "kept_entries d (index_runs ext ic d (k # ks) st) = [kf..kt] @ kept_entries d ?r"
        using rs False kt_small by simp_all
      have res: "deleteBasisEntries_loop ext ic d (k # ks) False st n s (b, c)
        = (s2, (b \<or> (\<exists>x \<in> set (deleted_entries d (index_runs ext ic d (k # ks) st)). read_at s x = kBasic),
                c \<or> (\<exists>x \<in> set (deleted_entries d (index_runs ext ic d (k # ks) st)). read_at s x \<noteq> kBasic)),
           n + int (length (kept_entries d (index_runs ext ic d (k # ks) st))))"
        unfolding unfold_loop s2(1) de ke using del_same len_k
        by (auto simp del: set_upto length_upto)
      have lens: "length s2 = length s" using s2(2) s1(2) by simp
      have low: "\<forall>i. 0 \<le> i \<and> i < n \<longrightarrow> read_at s2 i = read_at s i"
      proof (intro allI impI)
        fix i assume i: "0 \<le> i \<and> i < n"
        then have "i < ?n2" using k by simp
        with s2(3) i have "read_at s2 i = read_at s1 i" by simp
        with s1(3) i show "read_at s2 i = read_at s i" by simp
      qed
      have kept: "\<forall>j < length (kept_entries d (index_runs ext ic d (k # ks) st)).
           read_at s2 (n + int j) = read_at s (kept_entries d (index_runs ext ic d (k # ks) st) ! j)"
      proof (intro allI impI)
        fix j assume j: "j < length (kept_entries d (index_runs ext ic d (k # ks) st))"
        show "read_at s2 (n + int j) = read_at s (kept_entries d (index_runs ext ic d (k # ks) st) ! j)"
        proof (cases "j < length [kf..kt]")
          case True
          then have "n + int j < ?n2" using len_k by linarith
          with s2(3) Cons.prems(2) have "read_at s2 (n + int j) = read_at s1 (n + int j)" by simp
          also have "\<dots> = read_at s ([kf..kt] ! j)" using block True by simp
          finally show ?thesis using True
            by (simp add: ke nth_append del: length_upto index_runs.simps)
        next
          case False
          define j' where "j' = j - length [kf..kt]"
          with False j have j': "j' < length (kept_entries d ?r)" "j = length [kf..kt] + j'"
            by (simp_all add: ke del: length_upto index_runs.simps)
          have eq: "n + int j = ?n2 + int j'" using j'(2) len_k by linarith
          have "read_at s2 (?n2 + int j') = read_at s1 (kept_entries d ?r ! j')"
            using s2(4) j'(1) by blast
          then have "read_at s2 (n + int j) = read_at s1 (kept_entries d ?r ! j')"
            by (simp only: eq)
          also have "kept_entries d ?r ! j' \<in> {kt + 1..d - 1}" using bd(2) j'(1) nth_mem by blast
          then have "read_at s1 (kept_entries d ?r ! j') = read_at s (kept_entries d ?r ! j')"
            using same by simp
          finally show ?thesis using False j'(2)
            by (simp add: ke nth_append del: length_upto index_runs.simps)
        qed
      qed
      from res lens low kept show ?thesis by blast
    qed
  qed
qed

lemma deleteBasisEntries_loop_first:
  "deleteBasisEntries_loop ext ic d (k # ks) True st n s f
     = deleteBasisEntries_loop ext ic d (k # ks) False st (fst (updateOutInIndex ext ic (fst st) (snd st))) s f"
  by (simp add: case_prod_unfold Let_def)

text \<open>The entries kept by well-formed runs are those of the range that are not deleted.\<close>

lemma kept_entries_filter:
  "runs_ok d p rs \<Longrightarrow>
     filter (\<lambda>i. i \<notin> set (deleted_entries d rs)) [p..d - 1] = kept_entries d rs"
proof (induction d p rs rule: runs_ok.induct)
  case (1 d p)
  then show ?case by simp
next
  case (2 d p df dt kf kt rs)
  then have b: "df = p" "p - 1 \<le> dt" "dt \<le> d - 1" by auto
  show ?case
  proof (cases "dt = d - 1")
    case True
    then show ?thesis using b by (auto simp: filter_empty_conv)
  next
    case False
    with "2.prems" have k: "kf = dt + 1" "dt \<le> kt" "kt \<le> d - 1" by auto
    have split1: "[p..d - 1] = [p..dt] @ [dt + 1..d - 1]"
      using b False upto_split1[of p "dt + 1" "d - 1"] by simp
    show ?thesis
    proof (cases "kt = d - 1")
      case True
      have "filter (\<lambda>i. i \<notin> set [p..dt]) [p..dt] = []" by (simp add: filter_empty_conv)
      moreover have "filter (\<lambda>i. i \<notin> set [p..dt]) [dt + 1..d - 1] = [dt + 1..d - 1]"
        by (simp add: filter_id_conv)
      ultimately show ?thesis using split1 b k True False by simp
    next
      case kts: False
      with "2.prems" False have ok: "runs_ok d (kt + 1) rs" by auto
      from "2.IH" False kts b k ok
      have ih: "filter (\<lambda>i. i \<notin> set (deleted_entries d rs)) [kt + 1..d - 1] = kept_entries d rs"
        by auto
      from runs_ok_bounds[OF ok] have bd: "set (deleted_entries d rs) \<subseteq> {kt + 1..d - 1}" by simp
      let ?D = "set ([p..dt] @ deleted_entries d rs)"
      have split2: "[dt + 1..d - 1] = [kf..kt] @ [kt + 1..d - 1]"
        using k kts upto_split1[of "dt + 1" "kt + 1" "d - 1"] by simp
      have f1: "filter (\<lambda>i. i \<notin> ?D) [p..dt] = []" by (simp add: filter_empty_conv)
      have f2: "filter (\<lambda>i. i \<notin> ?D) [kf..kt] = [kf..kt]"
        using bd k by (auto simp: filter_id_conv)
      have f3: "filter (\<lambda>i. i \<notin> ?D) [kt + 1..d - 1]
                  = filter (\<lambda>i. i \<notin> set (deleted_entries d rs)) [kt + 1..d - 1]"
        using k by (intro filter_cong) auto
      have "deleted_entries d ((df, dt, kf, kt) # rs) = [p..dt] @ deleted_entries d rs"
        "kept_entries d ((df, dt, kf, kt) # rs) = [kf..kt] @ kept_entries d rs"
        using False kts b k by simp_all
      then show ?thesis using split1 split2 f1 f2 f3 ih by (simp del: set_append)
    qed
  qed
qed

lemma compacted_kept:
  assumes "runs_ok d p rs" "0 \<le> p" "int (length s) = d"
  shows "compacted s (deleted_entries d rs) = map (read_at s) ([0..p - 1] @ kept_entries d rs)"
proof -
  from runs_ok_bounds[OF assms(1)] have bd: "set (deleted_entries d rs) \<subseteq> {p..d - 1}" by simp
  have pd: "p \<le> d"
  proof (cases rs)
    case Nil
    with assms(1) show ?thesis by simp
  next
    case (Cons r rs')
    with assms(1) show ?thesis by (cases r) auto
  qed
  have split: "[0..d - 1] = [0..p - 1] @ [p..d - 1]"
    using assms(2) pd upto_split1[of 0 p "d - 1"] by (cases "p \<le> d - 1") auto
  have "filter (\<lambda>i. i \<notin> set (deleted_entries d rs)) [0..p - 1] = [0..p - 1]"
    using bd by (auto simp: filter_id_conv)
  with kept_entries_filter[OF assms(1)] split assms(3)
  show ?thesis by (simp add: compacted_def)
qed

text \<open>\<^verbatim>\<open>deleteBasisEntries\<close> on a well-formed collection.\<close>

lemma deleteBasisEntries_correct:
  assumes "collection_ok ext ic (int (length s))"
  shows "deleteBasisEntries ext s u ic (int (length s))
     = (compacted s (collection_deleted ext ic (int (length s))),
        (\<exists>x \<in> set (collection_deleted ext ic (int (length s))). read_at s x = kBasic),
        (\<exists>x \<in> set (collection_deleted ext ic (int (length s))). read_at s x \<noteq> kBasic))"
proof -
  define d where "d = int (length s)"
  obtain from_k to_k where lim: "limits ext ic = (from_k, to_k)" by (cases "limits ext ic")
  from assms lim have le: "from_k \<le> to_k" by (simp add: collection_ok_def)
  then have ks: "[from_k..to_k] = from_k # [from_k + 1..to_k]" by (rule upto_rec1)
  define ks' where "ks' = [from_k + 1..to_k]"
  define rs where "rs = index_runs ext ic d (from_k # ks') (-1, 0)"
  have cr: "collection_runs ext ic d = rs"
    by (simp add: collection_runs_def lim ks rs_def ks'_def del: index_runs.simps)
  obtain df dt kf kt cur where u: "updateOutInIndex ext ic (-1) 0 = (df, dt, kf, kt, cur)"
    by (metis prod_cases5)
  then obtain rest where rs: "rs = (df, dt, kf, kt) # rest" by (simp add: rs_def)
  from assms cr rs have df0: "0 \<le> df" and ok: "runs_ok d df rs"
    by (simp_all add: collection_ok_def d_def)
  define keep where "keep = kept_entries d rs"
  define del where "del = deleted_entries d rs"
  define n where "n = df + int (length keep)"
  have first: "deleteBasisEntries_loop ext ic d (from_k # ks') True (-1, 0) 0 s (False, False)
     = deleteBasisEntries_loop ext ic d (from_k # ks') False (-1, 0) df s (False, False)"
    using deleteBasisEntries_loop_first[of ext ic d from_k ks' "(-1, 0)" 0 s "(False, False)"] u
    by simp
  have ok': "runs_ok d df (index_runs ext ic d (from_k # ks') (-1, 0))"
    using ok unfolding rs_def .
  have dl: "int (length s) = d" by (simp add: d_def)
  have "\<exists>s'. deleteBasisEntries_loop ext ic d (from_k # ks') False (-1, 0) df s (False, False)
        = (s', (False \<or> (\<exists>x \<in> set del. read_at s x = kBasic),
                False \<or> (\<exists>x \<in> set del. read_at s x \<noteq> kBasic)), n)
     \<and> length s' = length s
     \<and> (\<forall>i. 0 \<le> i \<and> i < df \<longrightarrow> read_at s' i = read_at s i)
     \<and> (\<forall>j < length keep. read_at s' (df + int j) = read_at s (keep ! j))"
    unfolding del_def keep_def n_def rs_def
    by (rule deleteBasisEntries_loop_correct[OF ok' df0 order_refl dl])
  then obtain s' where s': "deleteBasisEntries_loop ext ic d (from_k # ks') False (-1, 0) df s (False, False)
        = (s', ((\<exists>x \<in> set del. read_at s x = kBasic), (\<exists>x \<in> set del. read_at s x \<noteq> kBasic)), n)"
     "length s' = length s"
     "\<forall>i. 0 \<le> i \<and> i < df \<longrightarrow> read_at s' i = read_at s i"
     "\<forall>j < length keep. read_at s' (df + int j) = read_at s (keep ! j)"
    by (auto simp del: deleteBasisEntries_loop.simps)
  define kl where "kl = [0..df - 1] @ keep"
  have n0: "0 \<le> n" using df0 by (simp add: n_def)
  have kl_len: "length kl = nat n" using df0 by (simp add: kl_def n_def nat_add_distrib)
  have comp: "compacted s del = map (read_at s) kl"
    unfolding del_def keep_def kl_def by (rule compacted_kept[OF ok df0]) (simp add: d_def)
  have "length (compacted s del) \<le> length [0..d - 1]"
    unfolding compacted_def d_def by (simp del: length_upto)
  moreover have "length [0..d - 1] = nat d" by (simp add: d_def)
  ultimately have n_le: "nat n \<le> length s" using comp kl_len by (simp add: d_def)
  have "take (nat n) s' = map (read_at s) kl"
  proof (rule nth_equalityI)
    show "length (take (nat n) s') = length (map (read_at s) kl)"
      using n_le s'(2) kl_len by simp
  next
    fix i assume "i < length (take (nat n) s')"
    then have i: "i < nat n" "i < length s'" using n_le s'(2) by simp_all
    then have ikl: "i < length kl" using kl_len by simp
    show "take (nat n) s' ! i = map (read_at s) kl ! i"
    proof (cases "int i < df")
      case True
      then have "i < nat df" by linarith
      then have "kl ! i = int i" using df0 by (simp add: kl_def nth_append)
      moreover have "read_at s' (int i) = read_at s (int i)" using s'(3) True by simp
      ultimately show ?thesis using i ikl by (simp add: read_at_def)
    next
      case False
      define j where "j = i - nat df"
      from False df0 have ge: "\<not> i < nat df" by linarith
      with i df0 have j: "j < length keep" "int i = df + int j" by (auto simp: n_def j_def)
      have "kl ! i = keep ! j" using df0 ge
        by (simp add: kl_def nth_append j_def)
      moreover have "read_at s' (int i) = read_at s (keep ! j)"
        using s'(4) j by simp
      ultimately show ?thesis using i ikl by (simp add: read_at_def)
    qed
  qed
  moreover have "nat n \<le> length s'" using n_le s'(2) by simp
  ultimately have "resize s' n kLower = compacted s del"
    using comp by (simp add: resize_def)
  moreover have "collection_deleted ext ic (int (length s)) = del"
    using cr by (simp add: collection_deleted_def del_def d_def)
  moreover have "deleteBasisEntries_loop ext ic (int (length s)) [from_k..to_k] True (-1, 0) 0 s (False, False)
        = (s', ((\<exists>x \<in> set del. read_at s x = kBasic), (\<exists>x \<in> set del. read_at s x \<noteq> kBasic)), n)"
    using first s'(1) ks by (simp only: d_def ks'_def)
  ultimately show ?thesis
    using lim le by (simp add: deleteBasisEntries_def)
qed

lemma deleteBasisCols_correct:
  assumes "collection_ok ext ic (int (length (col_status b)))"
  shows "deleteBasisCols ext u b ic (int (length (col_status b)))
     = b\<lparr>col_status := compacted (col_status b) (collection_deleted ext ic (int (length (col_status b)))),
         valid := valid b \<and> \<not> (\<exists>x \<in> set (collection_deleted ext ic (int (length (col_status b)))).
                                 read_at (col_status b) x = kBasic)\<rparr>"
  unfolding deleteBasisCols_def deleteBasisEntries_correct[OF assms] by (auto simp: Let_def)

lemma deleteBasisRows_correct:
  assumes "collection_ok ext ic (int (length (row_status b)))"
  shows "deleteBasisRows ext u b ic (int (length (row_status b)))
     = b\<lparr>row_status := compacted (row_status b) (collection_deleted ext ic (int (length (row_status b)))),
         valid := valid b \<and> \<not> (\<exists>x \<in> set (collection_deleted ext ic (int (length (row_status b)))).
                                 read_at (row_status b) x \<noteq> kBasic)\<rparr>"
  unfolding deleteBasisRows_def deleteBasisEntries_correct[OF assms] by (auto simp: Let_def)

lemma deleteColsInterface_basis:
  assumes "useful (basis' h)"
    "num_col' (lp_deleteCols ext (lp_ensureColwise ext (lp' h)) ic) \<noteq> num_col' (lp' h)"
  shows "basis' (snd (deleteColsInterface ext u ic h))
     = deleteBasisCols ext u (basis' h) ic (num_col' (lp' h))"
  using assms
  by (simp add: deleteColsInterface_def Let_def lp_ensureColwise_def
      invalidateModelStatusSolutionAndInfo_def)

lemma deleteRowsInterface_basis:
  assumes "useful (basis' h)"
    "num_row' (lp_deleteRows ext (lp_ensureColwise ext (lp' h)) ic) \<noteq> num_row' (lp' h)"
  shows "basis' (snd (deleteRowsInterface ext u ic h))
     = deleteBasisRows ext u (basis' h) ic (num_row' (lp' h))"
  using assms
  by (simp add: deleteRowsInterface_def Let_def lp_ensureColwise_def
      invalidateModelStatusSolutionAndInfo_def)

text \<open>
  Claim C4. A deletion of columns or of rows through the interface that removes
  something, while a useful basis with one status for each column and each row is held,
  on a collection whose runs are well formed: the status vector becomes the old one
  compacted over the entries that are not deleted, and the basis is valid afterwards
  exactly when it was valid before and, for columns, no deleted column had status
  \<^verbatim>\<open>kBasic\<close>, for rows, no deleted row had a status other than \<^verbatim>\<open>kBasic\<close>. So deleting
  only nonbasic columns, or only basic rows, leaves a valid basis valid.
\<close>

theorem delete_interface_basis:
  assumes "useful (basis' h)"
  shows "(num_col' (lp_deleteCols ext (lp_ensureColwise ext (lp' h)) ic) \<noteq> num_col' (lp' h)
          \<and> int (length (col_status (basis' h))) = num_col' (lp' h)
          \<and> collection_ok ext ic (num_col' (lp' h))
        \<longrightarrow> basis' (snd (deleteColsInterface ext u ic h))
            = (basis' h)\<lparr>col_status :=
                  compacted (col_status (basis' h)) (collection_deleted ext ic (num_col' (lp' h))),
                valid := valid (basis' h)
                  \<and> \<not> (\<exists>x \<in> set (collection_deleted ext ic (num_col' (lp' h))).
                          read_at (col_status (basis' h)) x = kBasic)\<rparr>)
       \<and> (num_row' (lp_deleteRows ext (lp_ensureColwise ext (lp' h)) ic) \<noteq> num_row' (lp' h)
          \<and> int (length (row_status (basis' h))) = num_row' (lp' h)
          \<and> collection_ok ext ic (num_row' (lp' h))
        \<longrightarrow> basis' (snd (deleteRowsInterface ext u ic h))
            = (basis' h)\<lparr>row_status :=
                  compacted (row_status (basis' h)) (collection_deleted ext ic (num_row' (lp' h))),
                valid := valid (basis' h)
                  \<and> \<not> (\<exists>x \<in> set (collection_deleted ext ic (num_row' (lp' h))).
                          read_at (row_status (basis' h)) x \<noteq> kBasic)\<rparr>)"
proof (intro conjI impI)
  assume a: "num_col' (lp_deleteCols ext (lp_ensureColwise ext (lp' h)) ic) \<noteq> num_col' (lp' h)
          \<and> int (length (col_status (basis' h))) = num_col' (lp' h)
          \<and> collection_ok ext ic (num_col' (lp' h))"
  then have ok: "collection_ok ext ic (int (length (col_status (basis' h))))" by simp
  from a have n: "num_col' (lp' h) = int (length (col_status (basis' h)))" by simp
  from a have ne: "num_col' (lp_deleteCols ext (lp_ensureColwise ext (lp' h)) ic) \<noteq> num_col' (lp' h)"
    by simp
  show "basis' (snd (deleteColsInterface ext u ic h))
            = (basis' h)\<lparr>col_status :=
                  compacted (col_status (basis' h)) (collection_deleted ext ic (num_col' (lp' h))),
                valid := valid (basis' h)
                  \<and> \<not> (\<exists>x \<in> set (collection_deleted ext ic (num_col' (lp' h))).
                          read_at (col_status (basis' h)) x = kBasic)\<rparr>"
    unfolding deleteColsInterface_basis[OF assms ne] n deleteBasisCols_correct[OF ok] ..
next
  assume a: "num_row' (lp_deleteRows ext (lp_ensureColwise ext (lp' h)) ic) \<noteq> num_row' (lp' h)
          \<and> int (length (row_status (basis' h))) = num_row' (lp' h)
          \<and> collection_ok ext ic (num_row' (lp' h))"
  then have ok: "collection_ok ext ic (int (length (row_status (basis' h))))" by simp
  from a have n: "num_row' (lp' h) = int (length (row_status (basis' h)))" by simp
  from a have ne: "num_row' (lp_deleteRows ext (lp_ensureColwise ext (lp' h)) ic) \<noteq> num_row' (lp' h)"
    by simp
  show "basis' (snd (deleteRowsInterface ext u ic h))
            = (basis' h)\<lparr>row_status :=
                  compacted (row_status (basis' h)) (collection_deleted ext ic (num_row' (lp' h))),
                valid := valid (basis' h)
                  \<and> \<not> (\<exists>x \<in> set (collection_deleted ext ic (num_row' (lp' h))).
                          read_at (row_status (basis' h)) x \<noteq> kBasic)\<rparr>"
    unfolding deleteRowsInterface_basis[OF assms ne] n deleteBasisRows_correct[OF ok] ..
qed

theorem delete_interface_basis_witness:
  "useful (basis' (example_highs\<lparr>basis' := (basis' example_highs)\<lparr>col_status := [kBasic, kLower]\<rparr>\<rparr>))
   \<and> collection_ok example_lp_externals (interval_collection 2 0 0) 2
   \<and> basis' (snd (deleteColsInterface example_lp_externals (False, False) (interval_collection 2 0 0)
        (example_highs\<lparr>basis' := (basis' example_highs)\<lparr>col_status := [kBasic, kLower]\<rparr>\<rparr>)))
      = \<lparr>valid = False, alien = False, was_alien = False, useful = True,
         col_status = [kLower], row_status = [kBasic]\<rparr>
   \<and> collection_ok example_lp_externals (interval_collection 1 0 0) 1
   \<and> basis' (snd (deleteRowsInterface example_lp_externals (False, False) (interval_collection 1 0 0)
        (example_highs\<lparr>basis' := (basis' example_highs)\<lparr>col_status := [kBasic, kLower]\<rparr>\<rparr>)))
      = \<lparr>valid = True, alien = False, was_alien = False, useful = True,
         col_status = [kBasic, kLower], row_status = []\<rparr>"
proof -
  let ?h = "example_highs\<lparr>basis' := (basis' example_highs)\<lparr>col_status := [kBasic, kLower]\<rparr>\<rparr>"
  let ?e = "example_lp_externals"
  let ?c = "interval_collection 2 0 0"
  let ?r = "interval_collection 1 0 0"
  have b: "basis' ?h = \<lparr>valid = True, alien = False, was_alien = False, useful = True,
         col_status = [kBasic, kLower], row_status = [kBasic]\<rparr>"
    by (simp add: example_highs_def)
  have u: "useful (basis' ?h)" by (simp add: b)
  have nc: "num_col' (lp' ?h) = 2" and nr: "num_row' (lp' ?h) = 1"
    by (simp_all add: example_highs_def example_lp_def)
  have ce: "num_col' (lp_deleteCols ?e (lp_ensureColwise ?e (lp' ?h)) ?c) = 1"
    and re: "num_row' (lp_deleteRows ?e (lp_ensureColwise ?e (lp' ?h)) ?r) = 0"
    by (simp_all add: example_lp_externals_def lp_ensureColwise_def interval_collection_def
        example_highs_def example_lp_def)
  have upc: "[0..0::int] = [0]" by (simp add: upto_rec1)
  have rc: "collection_runs ?e ?c 2 = [(0, 0, 1, 1)]"
    and rr: "collection_runs ?e ?r 1 = [(0, 0, 1, 0)]"
    by (simp_all add: collection_runs_def example_lp_externals_def interval_collection_def upc)
  have okc: "collection_ok ?e ?c 2" and okr: "collection_ok ?e ?r 1"
    unfolding collection_ok_def rc rr
    by (simp_all add: example_lp_externals_def interval_collection_def)
  have dc: "collection_deleted ?e ?c 2 = [0]" and dr: "collection_deleted ?e ?r 1 = [0]"
    unfolding collection_deleted_def rc rr by (simp_all add: upc)
  have up1: "[0..1::int] = [0, 1]" by (simp add: upto_rec1)
  have cc: "compacted [kBasic, kLower] [0] = [kLower]"
    and cr: "compacted [kBasic] [0] = []"
    by (simp_all add: compacted_def up1 upc read_at_def)
  from delete_interface_basis[OF u, of ?e ?c "(False, False)"] okc
  have c: "basis' (snd (deleteColsInterface ?e (False, False) ?c ?h))
      = \<lparr>valid = False, alien = False, was_alien = False, useful = True,
         col_status = [kLower], row_status = [kBasic]\<rparr>"
    unfolding nc ce dc by (simp add: b cc read_at_def)
  from delete_interface_basis[OF u, of ?e ?r "(False, False)"] okr
  have r: "basis' (snd (deleteRowsInterface ?e (False, False) ?r ?h))
      = \<lparr>valid = True, alien = False, was_alien = False, useful = True,
         col_status = [kBasic, kLower], row_status = []\<rparr>"
    unfolding nr re dr by (simp add: b cr read_at_def)
  from u okc c okr r show ?thesis by (intro conjI)
qed

section \<open>Infinite costs: what is saved and restored\<close>

text \<open>The first pass changes nothing, whether it ends in an error or not.\<close>

lemma handleInfCost_col_first_pass:
  "handleInfCost_col ext c False i lp = Inl lp \<or> handleInfCost_col ext c False i lp = Inr lp"
  by (simp add: handleInfCost_col_def Let_def fix_lower_at_def fix_upper_at_def)

lemma handleInfCost_cols_first_pass:
  "handleInfCost_cols ext c False cols lp = Inl lp \<or> handleInfCost_cols ext c False cols lp = Inr lp"
proof (induction cols)
  case Nil
  then show ?case by simp
next
  case (Cons i cols)
  from handleInfCost_col_first_pass[of ext c i lp] Cons show ?case by auto
qed

lemma handleInfCost_first_pass_error:
  assumes "has_infinite_cost' (lp' h)"
    "handleInfCost_cols ext (infinite_cost (options' h)) False [0..num_col' (lp' h) - 1] (lp' h) = Inl e"
  shows "handleInfCost ext h = (kError, h)"
proof -
  from handleInfCost_cols_first_pass[of ext "infinite_cost (options' h)" "[0..num_col' (lp' h) - 1]" "lp' h"]
    assms(2)
  have "e = lp' h" by auto
  with assms show ?thesis by (simp add: handleInfCost_def)
qed

lemma example_solve_externals_isMip:
  "isMip example_solve_externals lp = list_ex (\<lambda>t. t \<noteq> kContinuous) (integrality' lp)"
  by (simp add: example_solve_externals_def example_lp_externals_def lp_externals.defs
      solve_externals.defs scaling_externals.defs)

lemma example_mip_handled:
  "handleInfCost example_solve_externals example_mip
     = (kOk, example_mip\<lparr>lp' := (lp' example_mip)
          \<lparr>col_upper' := [Fin 1, Fin 4],
           mods' := \<lparr>save_inf_cost_variable_index = [0], save_inf_cost_variable_cost = [PInf],
                     save_inf_cost_variable_lower = [Fin 1], save_inf_cost_variable_upper = [Fin 3]\<rparr>,
           col_cost' := [Fin 0, Fin 2], has_infinite_cost' := False\<rparr>\<rparr>)"
proof -
  have up: "[0..1::int] = [0, 1]" by (simp add: upto_rec1)
  have c: "ceiling (1 / 2 :: real) = 1" "floor (7 / 2 :: real) = 3" by linarith+
  show ?thesis
    by (simp add: handleInfCost_def example_mip_def example_highs_def example_lp_def
        example_options_def up handleInfCost_col_def example_solve_externals_isMip read_at_def
        write_at_def Let_def dle_def deq_def fix_upper_at_def fix_lower_at_def kHighsInf_def
        save_inf_cost_def c)
qed

text \<open>
  Claim C2, on the model \<open>example_mip\<close>: minimisation, the first column integer with
  bounds \<open>[1/2, 7/2]\<close> and cost \<open>+\<infinity>\<close>. \<^verbatim>\<open>handleInfCost\<close> succeeds, sets the cost to zero and
  the upper bound to \<open>\<lceil>1/2\<rceil> = 1\<close>, leaving the lower bound \<open>1/2\<close>, and saves the bounds
  \<open>1\<close> and \<open>3\<close>, which are the bounds rounded inwards. \<^verbatim>\<open>restoreInfCost\<close> then gives the
  column the bounds \<open>[1, 3]\<close> in place of \<open>[1/2, 7/2]\<close>: the cost is restored, the bounds
  are not.
\<close>

theorem inf_cost_integer_bounds_not_restored:
  "col_lower' (lp' example_mip) = [Fin (1 / 2), Fin 0]
   \<and> col_upper' (lp' example_mip) = [Fin (7 / 2), Fin 4]
   \<and> fst (handleInfCost example_solve_externals example_mip) = kOk
   \<and> col_cost' (lp' (snd (handleInfCost example_solve_externals example_mip))) = [Fin 0, Fin 2]
   \<and> col_lower' (lp' (snd (handleInfCost example_solve_externals example_mip))) = [Fin (1 / 2), Fin 0]
   \<and> col_upper' (lp' (snd (handleInfCost example_solve_externals example_mip))) = [Fin 1, Fin 4]
   \<and> save_inf_cost_variable_lower (mods' (lp' (snd (handleInfCost example_solve_externals example_mip))))
       = [Fin 1]
   \<and> save_inf_cost_variable_upper (mods' (lp' (snd (handleInfCost example_solve_externals example_mip))))
       = [Fin 3]
   \<and> col_cost' (lp' (snd (restoreInfCost example_solve_externals kOk
         (snd (handleInfCost example_solve_externals example_mip))))) = [PInf, Fin 2]
   \<and> col_lower' (lp' (snd (restoreInfCost example_solve_externals kOk
         (snd (handleInfCost example_solve_externals example_mip))))) = [Fin 1, Fin 0]
   \<and> col_upper' (lp' (snd (restoreInfCost example_solve_externals kOk
         (snd (handleInfCost example_solve_externals example_mip))))) = [Fin 3, Fin 4]"
proof -
  have up: "[0..0::int] = [0]" by (simp add: upto_rec1)
  show ?thesis
    unfolding example_mip_handled
    by (simp add: restoreInfCost_def restoreInfCost_entry_def up example_mip_def example_highs_def
        example_lp_def read_at_def write_at_def Let_def nonzero_def deq_def)
qed

section \<open>The elasticity filter on a model with a user cost scale\<close>

lemma example_filter_fields:
  "run example_filter_externals = example_run"
  "deleteRows example_filter_externals =
     (\<lambda>lo hi h. (kOk, snd (deleteRowsInterface example_lp_externals (False, False)
                              (interval_collection (num_row' (lp' h)) lo hi) h)))"
  "deleteCols example_filter_externals =
     (\<lambda>lo hi h. (kOk, snd (deleteColsInterface example_lp_externals (False, False)
                              (interval_collection (num_col' (lp' h)) lo hi) h)))"
  "changeColsCost example_filter_externals =
     (\<lambda>lo hi cost h. changeCostsInterface example_lp_externals
                        (interval_collection (num_col' (lp' h)) lo hi) cost h)"
  "changeColsBounds example_filter_externals =
     (\<lambda>lo hi lower upper h. changeColBoundsInterface example_lp_externals
                               (interval_collection (num_col' (lp' h)) lo hi) lower upper h)"
  "addCols example_filter_externals = addColsInterface example_lp_externals"
  "productQuad example_filter_externals = (\<lambda>matrix x. [Fin 0])"
  "getKktFailures example_filter_externals = (\<lambda>h. h)"
  by (simp_all add: example_filter_externals_def lp_externals.defs filter_externals.defs
      scaling_externals.defs)

lemmas example_states =
  example_solved_def example_elastic_def example_zero_costs_def example_cost_scaled_def
  example_highs_def example_lp_def example_options_def example_info_def

text \<open>Setting the costs to zero.\<close>

lemma example_costs_zeroed:
  "changeColsCost example_filter_externals 0 1 (Some [Fin 0, Fin 0]) example_cost_scaled
     = (kOk, example_zero_costs)"
  by (simp add: example_filter_fields changeCostsInterface_def example_lp_externals_def
      interval_collection_def example_states doubleUserDataNotNull_def copy_range_def
      interpretCallStatus_def scaled_within_def scale_by_def pow2_def overwrite_def
      invalidateModelStatusSolutionAndInfo_def Let_def)

text \<open>Adding the elastic variable: its cost, the penalty \<open>1\<close>, is stored scaled.\<close>

lemma example_add_elastic_col:
  "addCols example_filter_externals 1 (Some [Fin 1]) (Some [Fin 0]) (Some [PInf]) 1
     (Some [0, 1]) (Some [0]) (Some [Fin (- 1)]) example_zero_costs
   = (kOk, example_elastic)"
proof -
  have up: "[0..0::int] = [0]" "[2..2::int] = [2]" by (simp_all add: upto_rec1)
  show ?thesis
    by (simp add: example_filter_fields addColsInterface_def addCols_assess_def addCols_append_def
        example_lp_externals_def interval_collection_def example_states
        doubleUserDataNotNull_def isColDataNull_def isMatrixDataNull_def
        copy_range_def interpretCallStatus_def scaled_within_def
        scale_by_def pow2_def overwrite_def invalidateModelStatusSolutionAndInfo_def Let_def
        local_matrix_def resize_def
        appendNonbasicColsToBasisInterface_def make_col_nonbasic_def shift_row_data_def
        new_nonbasic_col_def index_range_def up read_at_def write_at_def
        highs_isInfinity_def kHighsInf_def dle_def deq_def
        kNonbasicMoveUp_def kNonbasicMoveDn_def kNonbasicMoveZe_def kNonbasicFlagTrue_def)
qed

lemma example_zero_costs_rows:
  "row_lower' (lp' example_zero_costs) = [MInf]" "row_upper' (lp' example_zero_costs) = [Fin 4]"
  "row_names' (lp' example_zero_costs) = []" "num_col' (lp' example_zero_costs) = 2"
  by (simp_all add: example_states)

lemma example_add_elastic_rows:
  "add_elastic_rows example_filter_externals (Fin 1) None 1 2 example_zero_costs
     = (\<lparr>row_of_ecol = [0], bound_of_row_of_ecol = [Fin 4], rcol_name = [], rcol_cost = [Fin 1],
         rcol_start = [0, 1], rcol_index = [0], rcol_value = [Fin (- 1)], revar_ix = 3\<rparr>,
        example_elastic)"
proof -
  have up: "[0..0::int] = [0]" by (simp add: upto_rec1)
  show ?thesis
    by (simp add: add_elastic_rows_def Let_def up elastic_row_step_def penalty_of_def
        example_zero_costs_rows read_at_def kHighsInf_def example_add_elastic_col)
qed

text \<open>The solve, and the loop: no elastic variable is positive, so the model is feasible.\<close>

lemma example_run_elastic: "run example_filter_externals example_elastic = (kOk, example_solved)"
  by (simp add: example_filter_fields example_run_def example_states eval_nat_numeral)

lemma example_filter_loop:
  "filter_loop (Suc 0) example_filter_externals False True 2 0 2 1 example_solved
     = Some (Inr (example_solved, True))"
proof -
  have up: "[0..0::int] = [0]" by (simp add: upto_rec1)
  show ?thesis
    by (simp add: up fix_positive_def example_states read_at_def Let_def)
qed

text \<open>The return: deleting the elastic column, then restoring the costs and the bounds.\<close>

text \<open>
  The return: the rows and the elastic column are deleted, the basis is made invalid, and
  the costs and the bounds saved at entry are passed to \<^verbatim>\<open>changeColsCost\<close> and
  \<^verbatim>\<open>changeColsBounds\<close>, which apply the user scale to them.
\<close>

lemma example_return:
  "elasticityFilterReturn example_filter_externals kOk True
     \<lparr>original_num_col = 2, original_num_row = 1, original_col_cost = [Fin 1, Fin 2],
      original_col_lower = [Fin 0, Fin 0], original_col_upper = [PInf, Fin 4],
      original_integrality = []\<rparr> example_solved
   = (kOk, example_returned)"
proof -
  define S1 where "S1 = example_solved\<lparr>lp' := (lp' example_solved)\<lparr>a_matrix' := kColwise\<rparr>\<rparr>"
  define S2 where "S2 = example_solved
         \<lparr>lp' := example_lp\<lparr>user_cost_scale' := 1, col_cost' := [Fin 0, Fin 0], a_matrix' := kColwise\<rparr>,
          basis' := basis' example_highs,
          solution' := (solution' example_solved)\<lparr>value_valid := False, dual_valid := False\<rparr>,
          model_status' := kNotset\<rparr>"
  define S3 where "S3 = S2\<lparr>basis' := (basis' S2)\<lparr>valid := False\<rparr>\<rparr>"
  define S4 where "S4 = example_solved
         \<lparr>lp' := example_lp\<lparr>user_cost_scale' := 1, col_cost' := [Fin 2, Fin 4], a_matrix' := kColwise\<rparr>,
          basis' := (basis' example_highs)\<lparr>valid := False\<rparr>,
          solution' := (solution' example_solved)\<lparr>value_valid := False, dual_valid := False\<rparr>,
          model_status' := kNotset\<rparr>"
  have up: "[2..2::int] = [2]" by (simp add: upto_rec1)
  have r1: "deleteRows example_filter_externals 1 0 example_solved = (kOk, S1)"
    unfolding S1_def
    by (simp add: example_filter_fields deleteRowsInterface_def example_lp_externals_def
        interval_collection_def lp_ensureColwise_def delete_interval_def Let_def example_states)
  have r2: "deleteCols example_filter_externals 2 2 S1 = (kOk, S2)"
    unfolding S1_def S2_def
    by (simp add: example_filter_fields deleteColsInterface_def example_lp_externals_def
        interval_collection_def lp_ensureColwise_def delete_interval_def Let_def
        deleteBasisCols_def deleteBasisEntries_def scan_deleted_def move_kept_def resize_def
        update_mask_def up read_at_def invalidateModelStatusSolutionAndInfo_def example_states)
  have r3: "changeColsCost example_filter_externals 0 1 (Some [Fin 1, Fin 2]) S3 = (kOk, S4)"
    unfolding S3_def S2_def S4_def
    by (simp add: example_filter_fields changeCostsInterface_def example_lp_externals_def
        interval_collection_def example_states doubleUserDataNotNull_def copy_range_def
        interpretCallStatus_def scaled_within_def scale_by_def pow2_def overwrite_def
        invalidateModelStatusSolutionAndInfo_def Let_def)
  have r4: "changeColsBounds example_filter_externals 0 1 (Some [Fin 0, Fin 0]) (Some [PInf, Fin 4]) S4
      = (kOk, S4)"
    unfolding S4_def
    by (simp add: example_filter_fields changeColBoundsInterface_def changeBoundsInterface_def
        example_lp_externals_def interval_collection_def example_states doubleUserDataNotNull_def
        copy_range_def interpretCallStatus_def overwrite_def setNonbasicStatusInterface_def
        invalidateModelStatusSolutionAndInfo_def Let_def)
  have n: "num_row' (lp' example_solved) - 1 = 0" "num_col' (lp' S1) - 1 = 2"
    by (simp_all add: S1_def example_states)
  have r5: "S4\<lparr>solution' := (solution' S4)\<lparr>row_value := [Fin 0], value_valid := True\<rparr>,
               info' := (info' S4)\<lparr>objective_function_value := objective_function_value (info' example_solved),
                                    info_valid := True\<rparr>,
               model_status' := kNotset\<rparr> = example_returned"
    by (simp add: S4_def example_returned_def example_states)
  have "elasticityFilterReturn example_filter_externals kOk True
     \<lparr>original_num_col = 2, original_num_row = 1, original_col_cost = [Fin 1, Fin 2],
      original_col_lower = [Fin 0, Fin 0], original_col_upper = [PInf, Fin 4],
      original_integrality = []\<rparr> example_solved
    = (kOk, S4\<lparr>solution' := (solution' S4)\<lparr>row_value := [Fin 0], value_valid := True\<rparr>,
               info' := (info' S4)\<lparr>objective_function_value := objective_function_value (info' example_solved),
                                    info_valid := True\<rparr>,
               model_status' := kNotset\<rparr>)"
    unfolding elasticityFilterReturn_def Let_def
    by (simp add: n r1 r2 S3_def[symmetric] r3 r4 example_filter_fields(7,8))
  then show ?thesis by (simp only: r5)
qed

lemma example_cost_scaled_lp:
  "num_col' (lp' example_cost_scaled) = 2" "num_row' (lp' example_cost_scaled) = 1"
  "col_cost' (lp' example_cost_scaled) = [Fin 1, Fin 2]"
  "col_lower' (lp' example_cost_scaled) = [Fin 0, Fin 0]"
  "col_upper' (lp' example_cost_scaled) = [PInf, Fin 4]"
  "integrality' (lp' example_cost_scaled) = []"
  "user_cost_scale' (lp' example_cost_scaled) = 1"
  by (simp_all add: example_states)

lemma example_returned_lp:
  "num_col' (lp' example_returned) = 2" "num_row' (lp' example_returned) = 1"
  "col_cost' (lp' example_returned) = [Fin 2, Fin 4]"
  "col_lower' (lp' example_returned) = [Fin 0, Fin 0]"
  "col_upper' (lp' example_returned) = [PInf, Fin 4]"
  "integrality' (lp' example_returned) = []"
  by (simp_all add: example_returned_def example_states)

lemma example_elasticityFilter:
  "elasticityFilter 1 example_filter_externals (Fin (- 1)) (Fin (- 1)) (Fin 1) None None None True []
     example_cost_scaled
   = Some (kOk, [], example_returned)"
proof -
  have z: "replicate 2 (Fin 0 :: double) = [Fin 0, Fin 0]" by (simp add: eval_nat_numeral)
  have i: "integrality' (lp' example_zero_costs) = []" by (simp add: example_states)
  have u: "col_upper' (lp' example_solved) = [PInf, Fin 4, PInf]" by (simp add: example_states)
  have up: "[0..0::int] = [0]" by (simp add: upto_rec1)
  show ?thesis
    unfolding elasticityFilter_def Let_def
    by (simp add: example_cost_scaled_lp z example_costs_zeroed i dle_def deq_def not_null_def
        example_zero_costs_rows example_add_elastic_rows example_run_elastic example_filter_loop
        example_return u up read_at_def del: filter_loop.simps)
qed

text \<open>
  Claim C1, on the model \<open>example_cost_scaled\<close>: two columns with the stored costs \<open>1\<close> and
  \<open>2\<close>, one row, and a user cost scale of \<open>1\<close>. The filter is called as
  \<^verbatim>\<open>getIisInterface\<close> calls it, with the penalties \<open>-1, -1, 1\<close>, no local penalties and
  \<^verbatim>\<open>get_infeasible_row\<close>; every solve succeeds and the model is found feasible. On
  return the elastic column is gone and the numbers of columns and rows, the bounds and
  the integrality are those at entry, but the costs are \<open>2\<close> and \<open>4\<close>: the stored costs
  saved at entry have gone through the user cost scale once more.
\<close>

theorem elasticity_filter_costs_not_restored:
  "num_col' (lp' example_cost_scaled) = 2 \<and> num_row' (lp' example_cost_scaled) = 1
   \<and> col_cost' (lp' example_cost_scaled) = [Fin 1, Fin 2]
   \<and> col_lower' (lp' example_cost_scaled) = [Fin 0, Fin 0]
   \<and> col_upper' (lp' example_cost_scaled) = [PInf, Fin 4]
   \<and> integrality' (lp' example_cost_scaled) = []
   \<and> user_cost_scale' (lp' example_cost_scaled) = 1
   \<and> elasticityFilter 1 example_filter_externals (Fin (- 1)) (Fin (- 1)) (Fin 1) None None None True []
         example_cost_scaled
       = Some (kOk, [], example_returned)
   \<and> num_col' (lp' example_returned) = 2 \<and> num_row' (lp' example_returned) = 1
   \<and> col_cost' (lp' example_returned) = [Fin 2, Fin 4]
   \<and> col_lower' (lp' example_returned) = [Fin 0, Fin 0]
   \<and> col_upper' (lp' example_returned) = [PInf, Fin 4]
   \<and> integrality' (lp' example_returned) = []"
  by (simp only: example_cost_scaled_lp example_returned_lp example_elasticityFilter simp_thms)

end
